theory Spec2Isabelle
  imports Complex_Main "HOL-Library.Word" "HOL-Library.Monad_Syntax"
begin

section \<open>Numbers\<close>

text \<open>
  The vessel generator is TypeScript; every quantity is a JavaScript \<^verbatim>\<open>number\<close>.
  The embedding takes a finite number to be a \<^typ>\<open>real\<close> and computes with it
  exactly: IEEE rounding, overflow and the single-precision storage of the vertex
  buffer (\<^verbatim>\<open>Float32Array\<close>) are not part of the model.

  The source never throws on bad arithmetic; it produces \<^verbatim>\<open>NaN\<close>,
  \<^verbatim>\<open>Infinity\<close> or \<^verbatim>\<open>undefined\<close> and carries on. Those are not reals, so every
  operation that can produce one returns an \<^typ>\<open>'a option\<close>, and \<open>None\<close> stands for
  "the source leaves the finite numbers here": a division or remainder by zero, or a
  read outside an array. A function of the model that returns \<open>Some x\<close> has computed
  what the source computes in exact arithmetic; \<open>None\<close> is \<^emph>\<open>not\<close> a raised error: the
  surface evaluator, the mesh builder, the statistics and the G-code generator contain
  no \<^verbatim>\<open>throw\<close> and call nothing that raises.

  A number that is not finite does no harm until it is read. A quotient that the source
  computes ahead of a loop and reads only in the loop body (the height fraction of a
  grid row, \<^verbatim>\<open>innerHeightScale\<close>, \<^verbatim>\<open>ePerMM\<close>) is therefore kept as an option and bound
  where the body reads it, and the distance \<^verbatim>\<open>totalDist\<close>, which the statistics accumulate
  and never read, is bound nowhere. So the mesh, the statistics and the program are
  \<open>None\<close> only if a number that is not finite reaches them.

  The integer-valued fields (\<open>layers\<close>, \<open>segments\<close>, texture \<open>width\<close> and
  \<open>height\<close>, loop counters, mesh indices) are \<^typ>\<open>int\<close>.
\<close>

definition jsdiv :: "real \<Rightarrow> real \<Rightarrow> real option" where
  \<comment> \<open>\<^verbatim>\<open>a / b\<close>: the quotient is \<^verbatim>\<open>NaN\<close> or an infinity when \<open>b = 0\<close>.\<close>
  "jsdiv a b = (if b = 0 then None else Some (a / b))"

definition rtrunc :: "real \<Rightarrow> int" where
  \<comment> \<open>rounding towards zero\<close>
  "rtrunc q = (if q < 0 then \<lceil>q\<rceil> else \<lfloor>q\<rfloor>)"

definition jsrem :: "real \<Rightarrow> real \<Rightarrow> real option" where
  \<comment> \<open>\<^verbatim>\<open>a % b\<close>: the remainder of the truncated division (its sign is the dividend's);
      \<^verbatim>\<open>NaN\<close> when \<open>b = 0\<close>.\<close>
  "jsrem a b = (if b = 0 then None else Some (a - b * of_int (rtrunc (a / b))))"

definition jsrem_int :: "int \<Rightarrow> int \<Rightarrow> int option" where
  \<comment> \<open>\<^verbatim>\<open>a % b\<close> on integer-valued numbers\<close>
  "jsrem_int a b = (if b = 0 then None else Some (a - b * rtrunc (of_int a / of_int b)))"

definition toFixed :: "nat \<Rightarrow> real \<Rightarrow> real" where
  \<comment> \<open>The value of the decimal text \<^verbatim>\<open>x.toFixed(d)\<close>: the sign is split off and the
      magnitude is rounded to the nearest multiple of \<open>10\<^sup>-\<^sup>d\<close>, a tie to the larger one.\<close>
  "toFixed d x =
     (if x < 0 then - (of_int \<lfloor>(- x) * 10 ^ d + 1 / 2\<rfloor> / 10 ^ d)
      else of_int \<lfloor>x * 10 ^ d + 1 / 2\<rfloor> / 10 ^ d)"

section \<open>Data model (\<^verbatim>\<open>types.ts\<close>)\<close>

datatype ExportFormat = OBJ | STL | PLY | GCODE

datatype PrinterType = marlin | wasp | potterbot

record TextureData =
  data :: "8 word list"
  width :: int
  height :: int

record VesselParams =
  height :: real
  baseRadius :: real
  noiseScale :: real
  noiseFrequency :: real
  layers :: int
  twist :: real
  segments :: int
  wallThickness :: real
  exportFormat :: ExportFormat
  textureImage :: "string option"
  textureInfluence :: real
  printerType :: PrinterType
  nozzleDiameter :: real
  filamentDiameter :: real
  printSpeed :: real

text \<open>
  The value returned by \<^verbatim>\<open>calculateVesselPoint\<close> is \<^verbatim>\<open>{ x, y, z, r }\<close>; the fields
  are called \<open>px\<close>, \<open>py\<close>, \<open>pz\<close>, \<open>pr\<close> here.
\<close>

record SurfacePoint =
  px :: real
  py :: real
  pz :: real
  pr :: real

record Mesh =
  vertices :: "real list"
  indices :: "int list"

record PrintStats =
  estimatedTime :: real
  filamentLength :: real
  filamentWeight :: real
  layerHeight :: real
  totalLayers :: int

text \<open>The constraints the data model puts on a configuration and on a texture grid.\<close>

definition validParams :: "VesselParams \<Rightarrow> bool" where
  "validParams params \<longleftrightarrow>
     0 < height params \<and> 1 \<le> layers params \<and> 3 \<le> segments params \<and>
     0 \<le> wallThickness params \<and> 0 \<le> textureInfluence params \<and>
     0 < nozzleDiameter params \<and> 0 < filamentDiameter params \<and> 0 < printSpeed params"

definition validTexture :: "TextureData \<Rightarrow> bool" where
  "validTexture t \<longleftrightarrow>
     1 \<le> width t \<and> 1 \<le> TextureData.height t \<and>
     int (length (data t)) = width t * TextureData.height t"

definition validTextureOpt :: "TextureData option \<Rightarrow> bool" where
  "validTextureOpt textureData = (case textureData of None \<Rightarrow> True | Some t \<Rightarrow> validTexture t)"

text \<open>
  What the sampling of \<^verbatim>\<open>calculateVesselPoint\<close> needs of a texture is less than the
  invariant: a grid that is not sampled at all (\<open>textureInfluence \<le> 0\<close>) can be anything,
  and a grid that is sampled has to hold a sample for each of its \<open>width * height\<close> cells.
\<close>

definition textureCovered :: "VesselParams \<Rightarrow> TextureData option \<Rightarrow> bool" where
  "textureCovered params textureData =
     (case textureData of
        None \<Rightarrow> True
      | Some t \<Rightarrow> textureInfluence params \<le> 0 \<or>
                 (1 \<le> width t \<and> 1 \<le> TextureData.height t \<and>
                  width t * TextureData.height t \<le> int (length (data t))))"

text \<open>\<^verbatim>\<open>INITIAL_PARAMS\<close> of \<^verbatim>\<open>App.tsx\<close>.\<close>

definition INITIAL_PARAMS :: VesselParams where
  "INITIAL_PARAMS =
     \<lparr> height = 150, baseRadius = 40, noiseScale = 10, noiseFrequency = 5, layers = 150,
       twist = 1, segments = 120, wallThickness = 2, exportFormat = OBJ,
       textureImage = None, textureInfluence = 10, printerType = marlin,
       nozzleDiameter = 1.2, filamentDiameter = 1.75, printSpeed = 1200 \<rparr>"

section \<open>Surface evaluator (\<^verbatim>\<open>calculateVesselPoint\<close>)\<close>

definition texel :: "TextureData \<Rightarrow> int \<Rightarrow> real option" where
  \<comment> \<open>\<^verbatim>\<open>textureData.data[i]\<close> on a \<^verbatim>\<open>Uint8Array\<close>: \<^verbatim>\<open>undefined\<close> outside the array\<close>
  "texel textureData i =
     (if 0 \<le> i \<and> i < int (length (data textureData))
      then Some (real (unat (data textureData ! nat i))) else None)"

definition bilinearCell :: "TextureData \<Rightarrow> real \<Rightarrow> real \<Rightarrow> (real \<times> real \<times> int \<times> int \<times> int \<times> int) option" where
  \<comment> \<open>the texel coordinates and the four array indices of the bilinear interpolation:
      \<open>(dx, dy, i11, i21, i12, i22)\<close>\<close>
  "bilinearCell textureData u v = do {
     texX \<leftarrow> jsrem (u * of_int (width textureData)) (of_int (width textureData));
     texY \<leftarrow> jsrem ((1 - v) * of_int (TextureData.height textureData))
                    (of_int (TextureData.height textureData));
     let x1 = \<lfloor>texX\<rfloor>;
     let y1 = \<lfloor>texY\<rfloor>;
     x2 \<leftarrow> jsrem_int (x1 + 1) (width textureData);
     let y2 = (if y1 + 1 < TextureData.height textureData then y1 + 1 else y1);
     let dx = texX - of_int x1;
     let dy = texY - of_int y1;
     let i11 = (y1 * width textureData) + x1;
     let i21 = (y1 * width textureData) + x2;
     let i12 = (y2 * width textureData) + x1;
     let i22 = (y2 * width textureData) + x2;
     Some (dx, dy, i11, i21, i12, i22)
   }"

definition sampleTexture :: "TextureData \<Rightarrow> real \<Rightarrow> real \<Rightarrow> real option" where
  \<comment> \<open>the interpolated luminance \<open>val\<close>, in \<open>[0, 1]\<close>\<close>
  "sampleTexture textureData u v = do {
     (dx, dy, i11, i21, i12, i22) \<leftarrow> bilinearCell textureData u v;
     val11 \<leftarrow> texel textureData i11;
     val21 \<leftarrow> texel textureData i21;
     val12 \<leftarrow> texel textureData i12;
     val22 \<leftarrow> texel textureData i22;
     Some (((val11 * (1 - dx) + val21 * dx) * (1 - dy) +
            (val12 * (1 - dx) + val22 * dx) * dy) / 255)
   }"

definition calculateVesselPoint ::
  "VesselParams \<Rightarrow> real \<Rightarrow> real \<Rightarrow> real \<Rightarrow> real \<Rightarrow> real \<Rightarrow> TextureData option \<Rightarrow> SurfacePoint option" where
  "calculateVesselPoint params u v radiusOffset heightOffset heightScale textureData =
     (let cy = (v * height params * heightScale) + heightOffset;
          theta = u * pi * 2;
          twistOffset = v * twist params;
          noiseVal = sin ((theta + twistOffset) * noiseFrequency params) *
                     cos (v * height params * noiseFrequency params * 0.5);
          r0 = baseRadius params + (noiseVal * noiseScale params * (1 - (v - 0.5) ^ 2 * 0.5))
      in do {
        r1 \<leftarrow> (case textureData of
                 None \<Rightarrow> Some r0
               | Some t \<Rightarrow>
                   if textureInfluence params > 0
                   then do { val \<leftarrow> sampleTexture t u v; Some (r0 + val * textureInfluence params) }
                   else Some r0);
        let r2 = r1 + radiusOffset;
        let r = (if r2 < 0.1 then 0.1 else r2);
        Some \<lparr> px = r * cos theta, py = cy, pz = r * sin theta, pr = r \<rparr>
      })"

section \<open>Mesh builder (\<^verbatim>\<open>generateVesselMesh\<close>)\<close>

text \<open>
  A \<^verbatim>\<open>for\<close> loop whose body can leave the finite numbers: the counter runs through the
  list, the state is threaded through the body, and the first \<open>None\<close> ends the run.
  Loops whose body is pure arithmetic on indices are \<^const>\<open>fold\<close>s; \<^verbatim>\<open>push\<close> appends.
\<close>

fun forM :: "int list \<Rightarrow> (int \<Rightarrow> 's \<Rightarrow> 's option) \<Rightarrow> 's \<Rightarrow> 's option" where
  "forM [] body s = Some s"
| "forM (i # js) body s = (case body i s of None \<Rightarrow> None | Some s' \<Rightarrow> forM js body s')"

definition shellVertices ::
  "VesselParams \<Rightarrow> TextureData option \<Rightarrow> real \<Rightarrow> real \<Rightarrow> real option \<Rightarrow> real list \<Rightarrow>
   real list option" where
  \<comment> \<open>the double loop \<^verbatim>\<open>for y = 0 .. layers, for x = 0 .. segments\<close> (both inclusive) that
      pushes one surface point per grid node; the source has it three times (vase mode,
      outer shell, inner shell), differing in the three offsets only. The height
      fraction \<open>v\<close> of a row and the height scale are quotients: they are read where the
      inner loop passes them to \<^verbatim>\<open>calculateVesselPoint\<close>\<close>
  "shellVertices params textureData radiusOffset heightOffset heightScale vertices0 =
     forM [0..layers params] (\<lambda>y vertices.
       let v = jsdiv (of_int y) (of_int (layers params)) in
       forM [0..segments params] (\<lambda>x vertices. do {
         u \<leftarrow> jsdiv (of_int x) (of_int (segments params));
         v \<leftarrow> v;
         heightScale \<leftarrow> heightScale;
         p \<leftarrow> calculateVesselPoint params u v radiusOffset heightOffset heightScale textureData;
         Some (vertices @ [px p, py p, pz p])
       }) vertices) vertices0"

definition addQuad :: "int \<Rightarrow> int \<Rightarrow> int \<Rightarrow> int \<Rightarrow> int list \<Rightarrow> int list" where
  "addQuad p1 p2 p3 p4 indices0 = (indices0 @ [p1, p2, p3]) @ [p3, p2, p4]"

definition vaseIndices :: "VesselParams \<Rightarrow> int list" where
  "vaseIndices params =
     fold (\<lambda>y. fold (\<lambda>x indices.
            let row1 = y * (segments params + 1);
                row2 = (y + 1) * (segments params + 1);
                a = row1 + x; b = row1 + x + 1;
                c = row2 + x; d = row2 + x + 1
            in (indices @ [a, c, b]) @ [b, c, d])
          [0..segments params - 1])
       [0..layers params - 1] []"

definition solidIndices :: "VesselParams \<Rightarrow> int \<Rightarrow> int list" where
  \<comment> \<open>steps 3 to 6 of the solid mode; \<open>centerBottomIndex\<close> is \<^verbatim>\<open>vertices.length / 3\<close> after
      both shells have been pushed\<close>
  "solidIndices params centerBottomIndex =
     (let vertsPerRow = segments params + 1;
          numRows = layers params + 1;
          \<comment> \<open>3. Stitch Outer Shell\<close>
          indices = fold (\<lambda>y. fold (\<lambda>x.
                      let row1 = y * vertsPerRow; row2 = (y + 1) * vertsPerRow
                      in addQuad (row1 + x) (row2 + x) (row1 + x + 1) (row2 + x + 1))
                    [0..segments params - 1])
                  [0..layers params - 1] [];
          \<comment> \<open>4. Stitch Inner Shell\<close>
          innerOffset = numRows * vertsPerRow;
          indices = fold (\<lambda>y. fold (\<lambda>x.
                      let row1 = innerOffset + y * vertsPerRow;
                          row2 = innerOffset + (y + 1) * vertsPerRow
                      in addQuad (row1 + x + 1) (row2 + x + 1) (row1 + x) (row2 + x))
                    [0..segments params - 1])
                  [0..layers params - 1] indices;
          \<comment> \<open>5. Stitch Top Rim\<close>
          outerTopRow = layers params * vertsPerRow;
          innerTopRow = innerOffset + layers params * vertsPerRow;
          indices = fold (\<lambda>x. addQuad (outerTopRow + x) (outerTopRow + x + 1)
                                      (innerTopRow + x) (innerTopRow + x + 1))
                    [0..segments params - 1] indices;
          \<comment> \<open>6. Stitch Bottom Floor\<close>
          centerFloorIndex = centerBottomIndex + 1;
          outerBottomRow = 0;
          indices = fold (\<lambda>x indices.
                      indices @ [centerBottomIndex, outerBottomRow + x + 1, outerBottomRow + x])
                    [0..segments params - 1] indices;
          innerBottomRow = innerOffset;
          indices = fold (\<lambda>x indices.
                      indices @ [centerFloorIndex, innerBottomRow + x, innerBottomRow + x + 1])
                    [0..segments params - 1] indices
      in indices)"

definition generateVesselMesh :: "VesselParams \<Rightarrow> TextureData option \<Rightarrow> Mesh option" where
  "generateVesselMesh params textureData =
     (if wallThickness params \<le> 0 then do {
        vertices \<leftarrow> shellVertices params textureData 0 0 (Some 1) [];
        Some \<lparr> vertices = vertices, indices = vaseIndices params \<rparr>
      } else do {
        \<comment> \<open>1. Outer shell vertices\<close>
        vertices \<leftarrow> shellVertices params textureData 0 0 (Some 1) [];
        \<comment> \<open>2. Inner shell vertices\<close>
        let innerHeightScale = jsdiv (height params - wallThickness params) (height params);
        vertices \<leftarrow> shellVertices params textureData (- wallThickness params)
                      (wallThickness params) innerHeightScale vertices;
        let centerBottomIndex = int (length vertices) div 3;
        let vertices = vertices @ [0, 0, 0];
        let vertices = vertices @ [0, wallThickness params, 0];
        Some \<lparr> vertices = vertices, indices = solidIndices params centerBottomIndex \<rparr>
      })"

text \<open>
  How the exporters read a mesh: the vertex count is \<^verbatim>\<open>vertices.length / 3\<close>, vertex \<open>k\<close>
  is the three numbers from position \<open>3 k\<close> on.
\<close>

definition vertexCount :: "Mesh \<Rightarrow> int" where
  "vertexCount m = int (length (vertices m)) div 3"

definition vertexAt :: "Mesh \<Rightarrow> nat \<Rightarrow> real \<times> real \<times> real" where
  "vertexAt m k = (vertices m ! (3 * k), vertices m ! (3 * k + 1), vertices m ! (3 * k + 2))"

section \<open>Print statistics (\<^verbatim>\<open>calculatePrintStats\<close>)\<close>

definition sampleSteps :: "VesselParams \<Rightarrow> int" where
  "sampleSteps params = min (segments params) 20"

definition totalDist :: "VesselParams \<Rightarrow> TextureData option \<Rightarrow> real option" where
  \<comment> \<open>the point-to-point accumulation; the source computes it and does not use it\<close>
  "totalDist params textureData = do {
     prevP \<leftarrow> calculateVesselPoint params 0 0 0 0 1 textureData;
     (totalDist, prevP) \<leftarrow>
       forM [0..layers params] (\<lambda>i st. do {
         v \<leftarrow> jsdiv (of_int i) (of_int (layers params));
         forM [0..sampleSteps params] (\<lambda>j (totalDist, prevP). do {
           u \<leftarrow> jsdiv (of_int j) (of_int (sampleSteps params));
           p \<leftarrow> calculateVesselPoint params u v 0 0 1 textureData;
           let dx = px p - px prevP;
           let dy = py p - py prevP;
           let dz = pz p - pz prevP;
           Some (totalDist + sqrt (dx * dx + dy * dy + dz * dz), p)
         }) st
       }) (0, prevP);
     Some totalDist
   }"

definition spiralDist :: "VesselParams \<Rightarrow> TextureData option \<Rightarrow> real option" where
  "spiralDist params textureData =
     forM [0..layers params - 1] (\<lambda>i spiralDist. do {
       v \<leftarrow> jsdiv (of_int i) (of_int (layers params));
       avgR \<leftarrow> forM [0..4 - 1] (\<lambda>k avgR. do {
                 p \<leftarrow> calculateVesselPoint params (of_int k / 4) v 0 0 1 textureData;
                 Some (avgR + pr p)
               }) 0;
       let avgR = avgR / 4;
       Some (spiralDist + 2 * pi * avgR)
     }) 0"

definition calculatePrintStats :: "VesselParams \<Rightarrow> TextureData option \<Rightarrow> PrintStats option" where
  \<comment> \<open>\<open>totalDist\<close> is accumulated and never read: no field of the result depends on it\<close>
  "calculatePrintStats params textureData = do {
     layerHeight \<leftarrow> jsdiv (height params) (of_int (layers params));
     let totalDist = totalDist params textureData;
     spiralDist \<leftarrow> spiralDist params textureData;
     let extrudedVol = spiralDist * (nozzleDiameter params * layerHeight);
     let filamentArea = pi * (filamentDiameter params / 2) ^ 2;
     filamentLengthMM \<leftarrow> jsdiv extrudedVol filamentArea;
     let clayDensity = 0.0017;
     let weight = extrudedVol * clayDensity;
     estimatedTime \<leftarrow> jsdiv spiralDist (printSpeed params);
     Some \<lparr> estimatedTime = estimatedTime,
            filamentLength = filamentLengthMM / 1000,
            filamentWeight = weight,
            layerHeight = layerHeight,
            totalLayers = layers params \<rparr>
   }"

section \<open>Exporters\<close>

subsection \<open>OBJ\<close>

fun objVertexLines :: "real list \<Rightarrow> (real \<times> real \<times> real) list option" where
  "objVertexLines [] = Some []"
| "objVertexLines (a # b # c # rest) =
     map_option ((#) (toFixed 4 a, toFixed 4 b, toFixed 4 c)) (objVertexLines rest)"
| "objVertexLines _ = None"

fun objFaceLines :: "int list \<Rightarrow> (int \<times> int \<times> int) list option" where
  "objFaceLines [] = Some []"
| "objFaceLines (a # b # c # rest) = map_option ((#) (a + 1, b + 1, c + 1)) (objFaceLines rest)"
| "objFaceLines _ = None"

record ObjFile =
  headerVertices :: int
  headerFaces :: int
  vLines :: "(real \<times> real \<times> real) list"
  fLines :: "(int \<times> int \<times> int) list"

definition exportOBJ :: "VesselParams \<Rightarrow> TextureData option \<Rightarrow> ObjFile option" where
  "exportOBJ params textureData = do {
     m \<leftarrow> generateVesselMesh params textureData;
     vs \<leftarrow> objVertexLines (vertices m);
     fs \<leftarrow> objFaceLines (indices m);
     Some \<lparr> headerVertices = int (length (vertices m)) div 3,
            headerFaces = int (length (indices m)) div 3,
            vLines = vs, fLines = fs \<rparr>
   }"

subsection \<open>STL\<close>

text \<open>
  A vertex read outside the buffer is \<^verbatim>\<open>undefined\<close>, and \<^verbatim>\<open>toFixed\<close> on it raises a
  \<^verbatim>\<open>TypeError\<close>: for \<^verbatim>\<open>exportSTL\<close>, and for it alone, \<open>None\<close> covers that exception too.
\<close>

type_synonym vec3 = "real \<times> real \<times> real"










subsection \<open>G-code\<close>

text \<open>
  The program text is kept as a list of lines; a line that carries numbers carries the
  values of their decimal text. \<open>Info\<close> is the four comment lines of the header,
  \<open>Raw\<close> a fixed line, \<open>RawF\<close> a fixed line that ends in \<^verbatim>\<open>F${printSpeed}\<close>.
\<close>

datatype GLine =
    Info PrinterType real real real
  | Raw string
  | RawF string real
  | G0 real real real real
  | G1 real real real real
  | MoveUp real real

definition getHeader :: "VesselParams \<Rightarrow> real \<Rightarrow> GLine list" where
  "getHeader params layerHeight0 =
     [Info (printerType params) (nozzleDiameter params) (toFixed 3 layerHeight0) (printSpeed params),
      Raw ''G21 ; Millimeters'', Raw ''G90 ; Absolute positioning'',
      Raw ''M82 ; Absolute extrusion mode''] @
     (case printerType params of
        wasp \<Rightarrow> [Raw ''G28 ; Home Delta'', RawF ''G1 Z15'' (printSpeed params),
                 Raw ''M204 S500 ; Low acceleration for clay'']
      | potterbot \<Rightarrow> [Raw ''G28 ; Home'', Raw ''G1 Z10 ; Lift'', Raw ''G92 E0 ; Reset Extruder'']
      | marlin \<Rightarrow> [Raw ''G28 ; Home'', RawF ''G1 Z5'' (printSpeed params)])"

definition spiralStep ::
  "VesselParams \<Rightarrow> TextureData option \<Rightarrow> real \<Rightarrow> int \<Rightarrow> int \<Rightarrow>
   real \<times> real \<times> real \<times> real \<times> GLine list \<Rightarrow> (real \<times> real \<times> real \<times> real \<times> GLine list) option" where
  \<comment> \<open>the body of the spiral loop; the state is \<open>(currentE, prevX, prevY, prevZ, gcode)\<close>\<close>
  "spiralStep params textureData ePerMM totalSteps i st =
     (case st of (currentE, prevX, prevY, prevZ, gcode) \<Rightarrow> do {
        v \<leftarrow> jsdiv (of_int i) (of_int totalSteps);
        u \<leftarrow> jsdiv (of_int i) (of_int (segments params));
        p \<leftarrow> calculateVesselPoint params u v 0 0 1 textureData;
        let gx = px p;
        let gy = pz p;
        let gz = py p;
        let dist = sqrt ((gx - prevX) ^ 2 + (gy - prevY) ^ 2 + (gz - prevZ) ^ 2);
        let currentE = currentE + dist * ePerMM;
        Some (currentE, gx, gy, gz,
              gcode @ [G1 (toFixed 3 gx) (toFixed 3 gy) (toFixed 3 gz) (toFixed 4 currentE)])
      })"

definition exportGCODE :: "VesselParams \<Rightarrow> TextureData option \<Rightarrow> GLine list option" where
  "exportGCODE params textureData = do {
     layerHeight \<leftarrow> jsdiv (height params) (of_int (layers params));
     let gcode = getHeader params layerHeight;
     let filamentArea = pi * (filamentDiameter params / 2) ^ 2;
     let ePerMM = jsdiv (nozzleDiameter params * layerHeight) filamentArea;
     let currentE = 0;
     start \<leftarrow> calculateVesselPoint params 0 0 0 0 1 textureData;
     let gcode = gcode @ [G0 (toFixed 3 (px start)) (toFixed 3 (pz start))
                             (toFixed 3 layerHeight) (printSpeed params)];
     let totalSteps = layers params * segments params;
     (currentE, prevX, prevY, prevZ, gcode) \<leftarrow>
       forM [1..totalSteps] (\<lambda>i st. do {
           ePerMM \<leftarrow> ePerMM;
           spiralStep params textureData ePerMM totalSteps i st
         }) (currentE, px start, pz start, layerHeight, gcode);
     Some (gcode @ [Raw ''G1 E-2 F2400 ; Retract'',
                    MoveUp (toFixed 2 (height params + 20)) (printSpeed params),
                    Raw ''G28 X0 Y0 ; Home X Y'', Raw ''M30 ; End of program''])
   }"

fun stepE :: "GLine \<Rightarrow> real option" where
  "stepE (G1 x y z e) = Some e"
| "stepE _ = None"

definition emittedE :: "GLine list \<Rightarrow> real list" where
  \<comment> \<open>the \<^verbatim>\<open>E\<close> words of the step lines of a program, in order\<close>
  "emittedE prog = List.map_filter stepE prog"

definition footer :: "VesselParams \<Rightarrow> GLine list" where
  \<comment> \<open>the four lines that end every program of \<^verbatim>\<open>exportGCODE\<close>\<close>
  "footer params =
     [Raw ''G1 E-2 F2400 ; Retract'',
      MoveUp (toFixed 2 (height params + 20)) (printSpeed params),
      Raw ''G28 X0 Y0 ; Home X Y'', Raw ''M30 ; End of program'']"

section \<open>The statistics estimator in the words of its specification\<close>

text \<open>
  Three definitions that follow the description of the estimator rather than its loops;
  the loops are shown to compute them.
\<close>

definition averageRadius :: "VesselParams \<Rightarrow> TextureData option \<Rightarrow> real \<Rightarrow> real option" where
  \<comment> \<open>the average of the radii sampled at the four evenly spaced angular positions
      \<open>u = 0, 1/4, 1/2, 3/4\<close> at height fraction \<open>v\<close>\<close>
  "averageRadius params textureData v = do {
     p0 \<leftarrow> calculateVesselPoint params 0 v 0 0 1 textureData;
     p1 \<leftarrow> calculateVesselPoint params (1 / 4) v 0 0 1 textureData;
     p2 \<leftarrow> calculateVesselPoint params (1 / 2) v 0 0 1 textureData;
     p3 \<leftarrow> calculateVesselPoint params (3 / 4) v 0 0 1 textureData;
     Some ((pr p0 + pr p1 + pr p2 + pr p3) / 4)
   }"

definition spiralDistance_spec :: "VesselParams \<Rightarrow> TextureData option \<Rightarrow> real option" where
  \<comment> \<open>the sum over the layers \<open>i = 0 .. layers - 1\<close> of \<open>2 \<pi>\<close> times the average radius of
      the layer\<close>
  "spiralDistance_spec params textureData =
     map_option (\<lambda>rs. \<Sum>r\<leftarrow>rs. 2 * pi * r)
       (those (map (\<lambda>i. averageRadius params textureData (of_int i / of_int (layers params)))
                 [0..layers params - 1]))"

definition ringPoints :: "VesselParams \<Rightarrow> TextureData option \<Rightarrow> real \<Rightarrow> SurfacePoint list option" where
  \<comment> \<open>the angular samples of one layer of the point-to-point accumulation, in order\<close>
  "ringPoints params textureData v =
     those (map (\<lambda>j. do {
               u \<leftarrow> jsdiv (of_int j) (of_int (sampleSteps params));
               calculateVesselPoint params u v 0 0 1 textureData
             }) [0..sampleSteps params])"

definition walk :: "SurfacePoint list \<Rightarrow> real \<times> SurfacePoint \<Rightarrow> real \<times> SurfacePoint" where
  \<comment> \<open>adding up the distances from each point to the next\<close>
  "walk pts st =
     fold (\<lambda>p (totalDist, prevP).
             (totalDist + sqrt ((px p - px prevP) * (px p - px prevP) +
                                (py p - py prevP) * (py p - py prevP) +
                                (pz p - pz prevP) * (pz p - pz prevP)), p)) pts st"

definition totalDist_spec :: "VesselParams \<Rightarrow> TextureData option \<Rightarrow> real option" where
  \<comment> \<open>the point-to-point accumulation: starting at the point \<open>(u, v) = (0, 0)\<close>, walk
      through the samples of the layers \<open>i = 0 .. layers\<close>\<close>
  "totalDist_spec params textureData = do {
     prevP \<leftarrow> calculateVesselPoint params 0 0 0 0 1 textureData;
     st \<leftarrow> forM [0..layers params] (\<lambda>i st. do {
             v \<leftarrow> jsdiv (of_int i) (of_int (layers params));
             pts \<leftarrow> ringPoints params textureData v;
             Some (walk pts st)
           }) (0, prevP);
     Some (fst st)
   }"

section \<open>Views of a mesh\<close>

text \<open>
  The vertex buffer is flat; \<open>flat3\<close> and \<open>vec\<close> relate it to a list of positions.
  \<open>gridNodes\<close> lists the grid nodes in the order in which a shell is pushed.
\<close>

definition flat3 :: "vec3 list \<Rightarrow> real list" where
  "flat3 ws = concat (map (\<lambda>(a, b, c). [a, b, c]) ws)"

definition vec :: "SurfacePoint \<Rightarrow> vec3" where
  "vec p = (px p, py p, pz p)"

definition gridNodes :: "VesselParams \<Rightarrow> (int \<times> int) list" where
  \<comment> \<open>the grid nodes \<open>(y, x)\<close> in the order in which the double loop visits them\<close>
  "gridNodes params = List.product [0..layers params] [0..segments params]"

definition gridSize :: "VesselParams \<Rightarrow> int" where
  \<comment> \<open>\<open>numRows * vertsPerRow\<close>\<close>
  "gridSize params = (layers params + 1) * (segments params + 1)"

definition axisDistance :: "vec3 \<Rightarrow> real" where
  \<comment> \<open>the distance of a position from the \<open>y\<close> axis\<close>
  "axisDistance w = (case w of (a, b, c) \<Rightarrow> sqrt (a ^ 2 + c ^ 2))"

definition shellYs :: "Mesh \<Rightarrow> nat \<Rightarrow> nat \<Rightarrow> real list" where
  \<comment> \<open>the \<open>y\<close> coordinates of the \<open>n\<close> vertices from vertex \<open>first\<close> on\<close>
  "shellYs m first n = map (\<lambda>k. fst (snd (vertexAt m (first + k)))) [0..<n]"


section \<open>Loop invariants\<close>

definition idxOK :: "int \<Rightarrow> int list \<Rightarrow> bool" where
  \<comment> \<open>an index buffer of whole triangles whose entries address vertices \<open>0 .. M - 1\<close>\<close>
  "idxOK M s \<longleftrightarrow> 3 dvd length s \<and> (\<forall>i\<in>set s. 0 \<le> i \<and> i < M)"

definition spiralInv :: "nat \<Rightarrow> real \<times> real \<times> real \<times> real \<times> GLine list \<Rightarrow> bool" where
  \<comment> \<open>the invariant of the spiral loop after \<open>k\<close> steps: the \<open>E\<close> words written so far are
      in non-decreasing order and none exceeds the text of the current \<open>E\<close>\<close>
  "spiralInv k st =
     (case st of (currentE, prevX, prevY, prevZ, gcode) \<Rightarrow>
        sorted (emittedE gcode) \<and> length (emittedE gcode) = k \<and>
        list_all (\<lambda>e. e \<le> toFixed 4 currentE) (emittedE gcode))"

section \<open>Sample inputs\<close>

text \<open>A two by two luminance grid, and four variations of \<^verbatim>\<open>INITIAL_PARAMS\<close>.\<close>

definition texture2x2 :: TextureData where
  "texture2x2 = \<lparr> data = [0, 64, 128, 255], width = 2, height = 2 \<rparr>"

definition cylinderParams :: "VesselParams \<Rightarrow> VesselParams" where
  "cylinderParams params =
     params \<lparr> height := 150, baseRadius := 40, noiseScale := 0, twist := 0, layers := 10,
              segments := 4, wallThickness := 0 \<rparr>"

definition thickFloorParams :: VesselParams where
  \<comment> \<open>a floor thicker than the vessel is high\<close>
  "thickFloorParams = INITIAL_PARAMS \<lparr> height := 10, wallThickness := 20 \<rparr>"


definition negativeLayers :: VesselParams where
  "negativeLayers = INITIAL_PARAMS \<lparr> layers := - 1 \<rparr>"

text \<open>
  Four grids that break the invariant: too few samples, no cell at all, negative
  dimensions, and more samples than cells.
\<close>

definition shortTexture :: TextureData where
  "shortTexture = \<lparr> data = [0, 64], width = 2, height = 2 \<rparr>"

definition emptyTexture :: TextureData where
  "emptyTexture = \<lparr> data = [], width = 0, height = 0 \<rparr>"

definition mirroredTexture :: TextureData where
  "mirroredTexture = \<lparr> data = [0, 64, 128, 255], width = - 2, height = - 2 \<rparr>"

definition longTexture :: TextureData where
  "longTexture = \<lparr> data = [0, 64, 128, 255, 7], width = 2, height = 2 \<rparr>"

section \<open>Arithmetic of the number operations\<close>

lemma jsdiv_Some [simp]: "b \<noteq> 0 \<Longrightarrow> jsdiv a b = Some (a / b)"
  by (simp add: jsdiv_def)

lemma rtrunc_nonneg: "0 \<le> q \<Longrightarrow> rtrunc q = \<lfloor>q\<rfloor>"
  by (simp add: rtrunc_def)

lemma jsrem_nonneg:
  assumes "0 \<le> a" "0 < b"
  shows "\<exists>m. jsrem a b = Some m \<and> 0 \<le> m \<and> m < b"
proof -
  have q: "0 \<le> a / b" using assms by simp
  let ?m = "a - b * of_int \<lfloor>a / b\<rfloor>"
  have "b * of_int \<lfloor>a / b\<rfloor> \<le> b * (a / b)"
    using assms(2) by (intro mult_left_mono) auto
  then have "b * of_int \<lfloor>a / b\<rfloor> \<le> a"
    using assms(2) by simp
  moreover have "b * (a / b) < b * (of_int \<lfloor>a / b\<rfloor> + 1)"
    using assms(2) by (intro mult_strict_left_mono) linarith+
  then have "a < b * (of_int \<lfloor>a / b\<rfloor> + 1)"
    using assms(2) by simp
  ultimately have "0 \<le> ?m \<and> ?m < b" by (simp add: algebra_simps)
  moreover have "jsrem a b = Some ?m"
    using assms(2) q by (simp add: jsrem_def rtrunc_nonneg)
  ultimately show ?thesis by blast
qed

lemma jsrem_int_nonneg:
  assumes "0 \<le> a" "0 < b"
  shows "jsrem_int a b = Some (a mod b)"
proof -
  have "0 \<le> (of_int a :: real) / of_int b" using assms by simp
  then have "rtrunc (of_int a / of_int b) = a div b"
    by (simp add: rtrunc_nonneg floor_divide_of_int_eq)
  then show ?thesis using assms(2) by (simp add: jsrem_int_def minus_mult_div_eq_mod)
qed

lemma floor_in_range:
  assumes "0 \<le> m" "m < of_int w"
  shows "0 \<le> \<lfloor>m::real\<rfloor> \<and> \<lfloor>m\<rfloor> < w"
  using assms by (simp add: floor_less_iff)

lemma texel_Some:
  "0 \<le> i \<Longrightarrow> i < int (length (data t)) \<Longrightarrow> \<exists>c. texel t i = Some c \<and> 0 \<le> c \<and> c \<le> 255"
proof -
  assume i: "0 \<le> i" "i < int (length (data t))"
  have "unat (data t ! nat i) < 2 ^ 8"
    using unsigned_less [of "data t ! nat i", where 'a = nat] by simp
  then have "unat (data t ! nat i) \<le> 255" by simp
  then have "0 \<le> real (unat (data t ! nat i)) \<and> real (unat (data t ! nat i)) \<le> 255"
    by (simp del: of_nat_unat)
  then show ?thesis using i by (simp add: texel_def)
qed

lemma index_in_grid:
  assumes "0 \<le> x" "x < w" "0 \<le> y" "y < h"
  shows "0 \<le> y * w + x \<and> y * w + x < w * (h::int)"
proof -
  have "y + 1 \<le> h" using assms by simp
  then have "(y + 1) * w \<le> h * w" using assms by (intro mult_right_mono) auto
  then have "y * w + x < w * h" using assms by (simp add: algebra_simps)
  moreover have "0 \<le> y * w" using assms by simp
  ultimately show ?thesis using assms by simp
qed

lemma bilinearCell_defined:
  assumes w: "1 \<le> width t" and h: "1 \<le> TextureData.height t"
    and "0 \<le> u" "0 \<le> v" "v \<le> 1"
  shows "\<exists>dx dy x1 y1.
           bilinearCell t u v =
             Some (dx, dy,
                   y1 * width t + x1,
                   y1 * width t + (x1 + 1) mod width t,
                   (if y1 + 1 < TextureData.height t then y1 + 1 else y1) * width t + x1,
                   (if y1 + 1 < TextureData.height t then y1 + 1 else y1) * width t + (x1 + 1) mod width t) \<and>
           0 \<le> x1 \<and> x1 < width t \<and> 0 \<le> y1 \<and> y1 < TextureData.height t \<and>
           0 \<le> dx \<and> dx < 1 \<and> 0 \<le> dy \<and> dy < 1"
proof -
  obtain tx where tx: "jsrem (u * of_int (width t)) (of_int (width t)) = Some tx"
      "0 \<le> tx" "tx < of_int (width t)"
    using jsrem_nonneg [of "u * of_int (width t)" "of_int (width t)"] w assms(3) by auto
  obtain ty where ty: "jsrem ((1 - v) * of_int (TextureData.height t)) (of_int (TextureData.height t)) = Some ty"
      "0 \<le> ty" "ty < of_int (TextureData.height t)"
    using jsrem_nonneg [of "(1 - v) * of_int (TextureData.height t)" "of_int (TextureData.height t)"]
      h assms(5) by auto
  have x1: "0 \<le> \<lfloor>tx\<rfloor> \<and> \<lfloor>tx\<rfloor> < width t" using tx floor_in_range by blast
  have y1: "0 \<le> \<lfloor>ty\<rfloor> \<and> \<lfloor>ty\<rfloor> < TextureData.height t" using ty floor_in_range by blast
  have x2: "jsrem_int (\<lfloor>tx\<rfloor> + 1) (width t) = Some ((\<lfloor>tx\<rfloor> + 1) mod width t)"
    using x1 w by (intro jsrem_int_nonneg) auto
  have "bilinearCell t u v =
          Some (tx - of_int \<lfloor>tx\<rfloor>, ty - of_int \<lfloor>ty\<rfloor>,
                \<lfloor>ty\<rfloor> * width t + \<lfloor>tx\<rfloor>,
                \<lfloor>ty\<rfloor> * width t + (\<lfloor>tx\<rfloor> + 1) mod width t,
                (if \<lfloor>ty\<rfloor> + 1 < TextureData.height t then \<lfloor>ty\<rfloor> + 1 else \<lfloor>ty\<rfloor>) * width t + \<lfloor>tx\<rfloor>,
                (if \<lfloor>ty\<rfloor> + 1 < TextureData.height t then \<lfloor>ty\<rfloor> + 1 else \<lfloor>ty\<rfloor>) * width t + (\<lfloor>tx\<rfloor> + 1) mod width t)"
    unfolding bilinearCell_def by (simp add: tx(1) ty(1) x2 Let_def)
  moreover have "0 \<le> tx - of_int \<lfloor>tx\<rfloor> \<and> tx - of_int \<lfloor>tx\<rfloor> < 1" by linarith
  moreover have "0 \<le> ty - of_int \<lfloor>ty\<rfloor> \<and> ty - of_int \<lfloor>ty\<rfloor> < 1" by linarith
  ultimately show ?thesis using x1 y1 by blast
qed

lemma sampleTexture_defined:
  assumes w: "1 \<le> width t" and h: "1 \<le> TextureData.height t"
    and len: "width t * TextureData.height t \<le> int (length (data t))"
    and "0 \<le> u" "0 \<le> v" "v \<le> 1"
  shows "\<exists>val. sampleTexture t u v = Some val"
proof -
  obtain dx dy x1 y1 where
    cell: "bilinearCell t u v =
             Some (dx, dy,
                   y1 * width t + x1,
                   y1 * width t + (x1 + 1) mod width t,
                   (if y1 + 1 < TextureData.height t then y1 + 1 else y1) * width t + x1,
                   (if y1 + 1 < TextureData.height t then y1 + 1 else y1) * width t + (x1 + 1) mod width t)"
    and x1: "0 \<le> x1" "x1 < width t" and y1: "0 \<le> y1" "y1 < TextureData.height t"
    using bilinearCell_defined [OF w h assms(4-6)] by blast
  let ?x2 = "(x1 + 1) mod width t"
  let ?y2 = "if y1 + 1 < TextureData.height t then y1 + 1 else y1"
  have x2: "0 \<le> ?x2" "?x2 < width t" using w by simp_all
  have y2: "0 \<le> ?y2" "?y2 < TextureData.height t" using y1 by simp_all
  obtain c11 where c11: "texel t (y1 * width t + x1) = Some c11"
    using texel_Some [of "y1 * width t + x1" t] index_in_grid [OF x1 y1] len by auto
  obtain c21 where c21: "texel t (y1 * width t + ?x2) = Some c21"
    using texel_Some [of "y1 * width t + ?x2" t] index_in_grid [OF x2 y1] len by auto
  obtain c12 where c12: "texel t (?y2 * width t + x1) = Some c12"
    using texel_Some [of "?y2 * width t + x1" t] index_in_grid [OF x1 y2] len by auto
  obtain c22 where c22: "texel t (?y2 * width t + ?x2) = Some c22"
    using texel_Some [of "?y2 * width t + ?x2" t] index_in_grid [OF x2 y2] len by auto
  have "sampleTexture t u v =
          Some (((c11 * (1 - dx) + c21 * dx) * (1 - dy) + (c12 * (1 - dx) + c22 * dx) * dy) / 255)"
    unfolding sampleTexture_def cell using c11 c21 c12 c22 by simp
  then show ?thesis by blast
qed

lemma calculateVesselPoint_fields:
  assumes "calculateVesselPoint params u v radiusOffset heightOffset heightScale textureData = Some p"
  shows "py p = v * height params * heightScale + heightOffset"
    and "px p = pr p * cos (u * pi * 2)"
    and "pz p = pr p * sin (u * pi * 2)"
    and "1 / 10 \<le> pr p"
  using assms
  by (auto simp: calculateVesselPoint_def Let_def bind_eq_Some_conv split: if_splits)

lemma calculateVesselPoint_noTexture:
  "calculateVesselPoint params u v radiusOffset heightOffset heightScale None =
     Some (let r2 = baseRadius params +
                    sin ((u * pi * 2 + v * twist params) * noiseFrequency params) *
                    cos (v * height params * noiseFrequency params * 0.5) *
                    noiseScale params * (1 - (v - 0.5) ^ 2 * 0.5) + radiusOffset;
               r = (if r2 < 0.1 then 0.1 else r2)
           in \<lparr> px = r * cos (u * pi * 2), py = v * height params * heightScale + heightOffset,
                pz = r * sin (u * pi * 2), pr = r \<rparr>)"
  by (simp add: calculateVesselPoint_def Let_def)

lemma calculateVesselPoint_defined:
  assumes "validTextureOpt textureData" "0 \<le> u" "0 \<le> v" "v \<le> 1"
  shows "\<exists>p. calculateVesselPoint params u v radiusOffset heightOffset heightScale textureData = Some p"
proof (cases textureData)
  case None
  then show ?thesis by (simp add: calculateVesselPoint_noTexture)
next
  case (Some t)
  with assms(1) have "1 \<le> width t" "1 \<le> TextureData.height t"
    "width t * TextureData.height t \<le> int (length (data t))"
    by (simp_all add: validTextureOpt_def validTexture_def)
  then obtain val where "sampleTexture t u v = Some val"
    using sampleTexture_defined assms(2-4) by blast
  then show ?thesis using Some by (simp add: calculateVesselPoint_def Let_def)
qed

section \<open>Loops that push\<close>

lemma length_not_dvd3: "\<not> 3 dvd length [a]" "\<not> 3 dvd length [a, b]"
proof -
  show "\<not> 3 dvd length [a]" by simp
  have "\<not> 3 dvd (2::nat)" by presburger
  moreover have "length [a, b] = 2" by simp
  ultimately show "\<not> 3 dvd length [a, b]" by metis
qed

lemma fold_push: "fold (\<lambda>x s. s @ g x) xs s = s @ concat (map g xs)"
  by (induction xs arbitrary: s) simp_all

lemma fold_fold_push:
  "fold (\<lambda>y. fold (\<lambda>x s. s @ g y x) xs) ys s = s @ concat (map (\<lambda>y. concat (map (g y) xs)) ys)"
  by (induction ys arbitrary: s) (simp_all add: fold_push)

lemma concat_product:
  "concat (map (\<lambda>y. concat (map (g y) xs)) ys) = concat (map (\<lambda>(y, x). g y x) (List.product ys xs))"
  by (induction ys) (simp_all add: comp_def)

lemma forM_cong:
  "(\<And>i s. i \<in> set xs \<Longrightarrow> body i s = body' i s) \<Longrightarrow> forM xs body s = forM xs body' s"
  by (induction xs arbitrary: s) (auto split: option.splits)

lemma forM_push:
  "forM xs (\<lambda>i s. map_option (\<lambda>w. s @ w) (g i)) s =
     map_option (\<lambda>ws. s @ concat ws) (those (map g xs))"
proof (induction xs arbitrary: s)
  case Nil
  show ?case by simp
next
  case (Cons x xs)
  show ?case
  proof (cases "g x")
    case None
    then show ?thesis by simp
  next
    case (Some w)
    then show ?thesis
      by (simp add: Cons.IH option.map_comp comp_def)
  qed
qed

lemma those_map_Some:
  "(\<And>x. x \<in> set xs \<Longrightarrow> g x = Some (h x)) \<Longrightarrow> those (map g xs) = Some (map h xs)"
  by (induction xs) simp_all

lemma shellVertices_closed:
  assumes L: "layers params \<noteq> 0" and S: "segments params \<noteq> 0"
    and P: "\<And>y x. 0 \<le> y \<Longrightarrow> y \<le> layers params \<Longrightarrow> 0 \<le> x \<Longrightarrow> x \<le> segments params \<Longrightarrow>
              calculateVesselPoint params (of_int x / of_int (segments params))
                (of_int y / of_int (layers params)) ro ho hs t = Some (P y x)"
  shows "shellVertices params t ro ho (Some hs) vs0 =
           Some (vs0 @ flat3 (map (\<lambda>(y, x). vec (P y x))
                                (List.product [0..layers params] [0..segments params])))"
proof -
  let ?row = "\<lambda>y. concat (map (\<lambda>x. [px (P y x), py (P y x), pz (P y x)]) [0..segments params])"
  let ?g = "\<lambda>y x. do {
              u \<leftarrow> jsdiv (of_int x) (of_int (segments params));
              p \<leftarrow> calculateVesselPoint params u (of_int y / of_int (layers params)) ro ho hs t;
              Some [px p, py p, pz p] }"
  have inner: "forM [0..segments params] (\<lambda>x vertices. do {
                 u \<leftarrow> jsdiv (of_int x) (of_int (segments params));
                 p \<leftarrow> calculateVesselPoint params u (of_int y / of_int (layers params)) ro ho hs t;
                 Some (vertices @ [px p, py p, pz p]) }) s = Some (s @ ?row y)"
    if y: "y \<in> set [0..layers params]" for y s
  proof -
    have "forM [0..segments params] (\<lambda>x vertices. do {
                 u \<leftarrow> jsdiv (of_int x) (of_int (segments params));
                 p \<leftarrow> calculateVesselPoint params u (of_int y / of_int (layers params)) ro ho hs t;
                 Some (vertices @ [px p, py p, pz p]) }) s
          = forM [0..segments params] (\<lambda>x s. map_option (\<lambda>w. s @ w) (?g y x)) s"
      by (rule forM_cong) (auto simp: jsdiv_def split: Option.bind_split)
    also have "\<dots> = map_option (\<lambda>ws. s @ concat ws) (those (map (?g y) [0..segments params]))"
      by (rule forM_push)
    also have "those (map (?g y) [0..segments params]) =
                 Some (map (\<lambda>x. [px (P y x), py (P y x), pz (P y x)]) [0..segments params])"
      using y S by (intro those_map_Some) (simp add: P)
    finally show ?thesis by simp
  qed
  have "shellVertices params t ro ho (Some hs) vs0 =
          forM [0..layers params] (\<lambda>y s. map_option (\<lambda>w. s @ w) (Some (?row y))) vs0"
    unfolding shellVertices_def using L
    by (intro forM_cong) (simp add: inner Let_def)
  also have "\<dots> = map_option (\<lambda>ws. vs0 @ concat ws) (those (map (\<lambda>y. Some (?row y)) [0..layers params]))"
    by (rule forM_push)
  also have "those (map (\<lambda>y. Some (?row y)) [0..layers params]) = Some (map ?row [0..layers params])"
    by (intro those_map_Some) simp
  finally have "shellVertices params t ro ho (Some hs) vs0 = Some (vs0 @ concat (map ?row [0..layers params]))"
    by simp
  also have "concat (map ?row [0..layers params]) =
               concat (map (\<lambda>(y, x). [px (P y x), py (P y x), pz (P y x)])
                  (List.product [0..layers params] [0..segments params]))"
    by (rule concat_product)
  finally show ?thesis
    by (simp add: flat3_def vec_def comp_def case_prod_unfold)
qed

section \<open>The vertex buffer as a list of positions\<close>

lemma flat3_Nil [simp]: "flat3 [] = []"
  by (simp add: flat3_def)

lemma flat3_Cons [simp]: "flat3 ((a, b, c) # ws) = a # b # c # flat3 ws"
  by (simp add: flat3_def)

lemma flat3_append [simp]: "flat3 (xs @ ys) = flat3 xs @ flat3 ys"
  by (simp add: flat3_def)

lemma length_flat3 [simp]: "length (flat3 ws) = 3 * length ws"
  by (induction ws) auto

lemma flat3_nth:
  "k < length ws \<Longrightarrow> (flat3 ws ! (3 * k), flat3 ws ! (3 * k + 1), flat3 ws ! (3 * k + 2)) = ws ! k"
proof (induction ws arbitrary: k)
  case Nil
  then show ?case by simp
next
  case (Cons w ws)
  obtain a b c where w: "w = (a, b, c)" by (cases w) auto
  show ?case
  proof (cases k)
    case 0
    then show ?thesis by (simp add: w)
  next
    case (Suc j)
    then have "j < length ws" using Cons.prems by simp
    from Cons.IH [OF this] show ?thesis by (simp add: w Suc)
  qed
qed

lemma vertexAt_flat3:
  "k < length ws \<Longrightarrow> vertexAt \<lparr> vertices = flat3 ws, indices = js \<rparr> k = ws ! k"
  using flat3_nth [of k ws] by (simp add: vertexAt_def)

lemma vertexCount_flat3: "vertexCount \<lparr> vertices = flat3 ws, indices = js \<rparr> = int (length ws)"
  by (simp add: vertexCount_def)

lemma length_gridNodes:
  "0 \<le> layers params \<Longrightarrow> 0 \<le> segments params \<Longrightarrow> int (length (gridNodes params)) = gridSize params"
  by (simp add: gridNodes_def gridSize_def nat_mult_distrib)

lemma set_gridNodes: "set (gridNodes params) = {0..layers params} \<times> {0..segments params}"
  by (simp add: gridNodes_def)

section \<open>The mesh of a valid configuration\<close>

lemma shell_points:
  assumes "1 \<le> layers params" and "1 \<le> segments params" and "validTextureOpt t"
  obtains P where
    "\<And>y x. 0 \<le> y \<Longrightarrow> y \<le> layers params \<Longrightarrow> 0 \<le> x \<Longrightarrow> x \<le> segments params \<Longrightarrow>
       calculateVesselPoint params (of_int x / of_int (segments params))
         (of_int y / of_int (layers params)) ro ho hs t = Some (P y x)"
proof -
  have "\<exists>p. calculateVesselPoint params (of_int x / of_int (segments params))
         (of_int y / of_int (layers params)) ro ho hs t = Some p"
    if "0 \<le> y" "y \<le> layers params" "0 \<le> x" "x \<le> segments params" for y x
    using that assms by (intro calculateVesselPoint_defined) simp_all
  then have "\<forall>y x. \<exists>p. 0 \<le> y \<and> y \<le> layers params \<and> 0 \<le> x \<and> x \<le> segments params \<longrightarrow>
       calculateVesselPoint params (of_int x / of_int (segments params))
         (of_int y / of_int (layers params)) ro ho hs t = Some p"
    by blast
  then obtain P where "\<forall>y x. 0 \<le> y \<and> y \<le> layers params \<and> 0 \<le> x \<and> x \<le> segments params \<longrightarrow>
       calculateVesselPoint params (of_int x / of_int (segments params))
         (of_int y / of_int (layers params)) ro ho hs t = Some (P y x)"
    by metis
  then show ?thesis using that by blast
qed

lemma generateVesselMesh_vase:
  assumes "1 \<le> layers params" and "1 \<le> segments params" and "validTextureOpt t"
    and "wallThickness params \<le> 0"
  obtains P where
    "\<And>y x. 0 \<le> y \<Longrightarrow> y \<le> layers params \<Longrightarrow> 0 \<le> x \<Longrightarrow> x \<le> segments params \<Longrightarrow>
       calculateVesselPoint params (of_int x / of_int (segments params))
         (of_int y / of_int (layers params)) 0 0 1 t = Some (P y x)"
    and "generateVesselMesh params t =
           Some \<lparr> vertices = flat3 (map (\<lambda>(y, x). vec (P y x)) (gridNodes params)),
                  indices = vaseIndices params \<rparr>"
proof -
  obtain P where P:
    "\<And>y x. 0 \<le> y \<Longrightarrow> y \<le> layers params \<Longrightarrow> 0 \<le> x \<Longrightarrow> x \<le> segments params \<Longrightarrow>
       calculateVesselPoint params (of_int x / of_int (segments params))
         (of_int y / of_int (layers params)) 0 0 1 t = Some (P y x)"
    using shell_points [OF assms(1-3)] by blast
  have "shellVertices params t 0 0 (Some 1) [] =
          Some ([] @ flat3 (map (\<lambda>(y, x). vec (P y x)) (gridNodes params)))"
    unfolding gridNodes_def using assms(1,2) by (intro shellVertices_closed P) auto
  then have "generateVesselMesh params t =
           Some \<lparr> vertices = flat3 (map (\<lambda>(y, x). vec (P y x)) (gridNodes params)),
                  indices = vaseIndices params \<rparr>"
    using assms(4) by (simp add: generateVesselMesh_def)
  with P show ?thesis using that by blast
qed

lemma generateVesselMesh_solid:
  assumes "1 \<le> layers params" and "1 \<le> segments params" and "validTextureOpt t"
    and "0 < wallThickness params" and "height params \<noteq> 0"
  obtains P Q where
    "\<And>y x. 0 \<le> y \<Longrightarrow> y \<le> layers params \<Longrightarrow> 0 \<le> x \<Longrightarrow> x \<le> segments params \<Longrightarrow>
       calculateVesselPoint params (of_int x / of_int (segments params))
         (of_int y / of_int (layers params)) 0 0 1 t = Some (P y x)"
    and "\<And>y x. 0 \<le> y \<Longrightarrow> y \<le> layers params \<Longrightarrow> 0 \<le> x \<Longrightarrow> x \<le> segments params \<Longrightarrow>
       calculateVesselPoint params (of_int x / of_int (segments params))
         (of_int y / of_int (layers params)) (- wallThickness params) (wallThickness params)
         ((height params - wallThickness params) / height params) t = Some (Q y x)"
    and "generateVesselMesh params t =
           Some \<lparr> vertices = flat3 (map (\<lambda>(y, x). vec (P y x)) (gridNodes params) @
                                    map (\<lambda>(y, x). vec (Q y x)) (gridNodes params) @
                                    [(0, 0, 0), (0, wallThickness params, 0)]),
                  indices = solidIndices params (2 * gridSize params) \<rparr>"
proof -
  let ?hs = "(height params - wallThickness params) / height params"
  obtain P where P:
    "\<And>y x. 0 \<le> y \<Longrightarrow> y \<le> layers params \<Longrightarrow> 0 \<le> x \<Longrightarrow> x \<le> segments params \<Longrightarrow>
       calculateVesselPoint params (of_int x / of_int (segments params))
         (of_int y / of_int (layers params)) 0 0 1 t = Some (P y x)"
    using shell_points [OF assms(1-3)] by blast
  obtain Q where Q:
    "\<And>y x. 0 \<le> y \<Longrightarrow> y \<le> layers params \<Longrightarrow> 0 \<le> x \<Longrightarrow> x \<le> segments params \<Longrightarrow>
       calculateVesselPoint params (of_int x / of_int (segments params))
         (of_int y / of_int (layers params)) (- wallThickness params) (wallThickness params)
         ?hs t = Some (Q y x)"
    using shell_points [OF assms(1-3)] by blast
  let ?outer = "map (\<lambda>(y, x). vec (P y x)) (gridNodes params)"
  let ?inner = "map (\<lambda>(y, x). vec (Q y x)) (gridNodes params)"
  have outer: "shellVertices params t 0 0 (Some 1) [] = Some ([] @ flat3 ?outer)"
    unfolding gridNodes_def using assms(1,2) by (intro shellVertices_closed P) auto
  have inner: "shellVertices params t (- wallThickness params) (wallThickness params) (Some ?hs) (flat3 ?outer)
                 = Some (flat3 ?outer @ flat3 ?inner)"
    unfolding gridNodes_def using assms(1,2) by (intro shellVertices_closed Q) auto
  have len: "int (length (flat3 ?outer @ flat3 ?inner)) div 3 = 2 * gridSize params"
    using length_gridNodes [of params] assms(1,2) by simp
  have "generateVesselMesh params t =
           Some \<lparr> vertices = flat3 (?outer @ ?inner @ [(0, 0, 0), (0, wallThickness params, 0)]),
                  indices = solidIndices params (2 * gridSize params) \<rparr>"
    using assms(4,5) outer inner len by (simp add: generateVesselMesh_def Let_def)
  with P Q show ?thesis using that by blast
qed

section \<open>The index buffer\<close>

lemma idxOK_Nil: "idxOK M []"
  by (simp add: idxOK_def)

lemma idxOK_fold:
  "idxOK M s \<Longrightarrow> (\<And>x s. x \<in> set xs \<Longrightarrow> idxOK M s \<Longrightarrow> idxOK M (f x s)) \<Longrightarrow> idxOK M (fold f xs s)"
  by (rule fold_invariant [where Q = "\<lambda>x. x \<in> set xs"]) auto

lemma idxOK_push3:
  assumes "idxOK M s" and "0 \<le> a \<and> a < M" and "0 \<le> b \<and> b < M" and "0 \<le> c \<and> c < M"
  shows "idxOK M (s @ [a, b, c])"
proof -
  have "length (s @ [a, b, c]) = length s + 3" by simp
  moreover have "3 dvd length s" using assms(1) by (simp add: idxOK_def)
  ultimately have "3 dvd length (s @ [a, b, c])" by (metis dvd_add dvd_refl)
  then show ?thesis using assms unfolding idxOK_def by auto
qed

lemma idxOK_fold2:
  assumes "idxOK M s"
    and "\<And>y x s. y \<in> set ys \<Longrightarrow> x \<in> set xs \<Longrightarrow> idxOK M s \<Longrightarrow> idxOK M (f y x s)"
  shows "idxOK M (fold (\<lambda>y. fold (f y) xs) ys s)"
  using assms(1)
proof (rule idxOK_fold)
  fix y s' assume "y \<in> set ys" "idxOK M s'"
  then show "idxOK M (fold (f y) xs s')"
    by (intro idxOK_fold assms(2)) auto
qed

lemma idxOK_addQuad:
  "idxOK M s \<Longrightarrow> 0 \<le> a \<and> a < M \<Longrightarrow> 0 \<le> b \<and> b < M \<Longrightarrow> 0 \<le> c \<and> c < M \<Longrightarrow> 0 \<le> d \<and> d < M
     \<Longrightarrow> idxOK M (addQuad a b c d s)"
  unfolding addQuad_def by (intro idxOK_push3) auto

lemma cell_corners:
  assumes "0 \<le> y" "y < L" "0 \<le> x" "x < S"
  shows "0 \<le> y * (S + 1) + x \<and> y * (S + 1) + x < (L + 1) * (S + 1)"
    and "0 \<le> y * (S + 1) + x + 1 \<and> y * (S + 1) + x + 1 < (L + 1) * (S + 1)"
    and "0 \<le> (y + 1) * (S + 1) + x \<and> (y + 1) * (S + 1) + x < (L + 1) * ((S::int) + 1)"
    and "0 \<le> (y + 1) * (S + 1) + x + 1 \<and> (y + 1) * (S + 1) + x + 1 < (L + 1) * (S + 1)"
  using index_in_grid [of x "S + 1" y "L + 1"] index_in_grid [of "x + 1" "S + 1" y "L + 1"]
    index_in_grid [of x "S + 1" "y + 1" "L + 1"] index_in_grid [of "x + 1" "S + 1" "y + 1" "L + 1"]
    assms
  by (simp_all add: mult.commute add.assoc)

lemma top_row:
  assumes "0 \<le> L" "0 \<le> x" "x < S"
  shows "0 \<le> L * (S + 1) + x \<and> L * (S + 1) + x + 1 < (L + 1) * ((S::int) + 1)"
  using index_in_grid [of "x + 1" "S + 1" L "L + 1"] assms
  by (simp add: mult.commute add.assoc)

lemma row_fits:
  assumes "0 \<le> L" "0 \<le> x" "x < S"
  shows "x + 1 < (L + 1) * ((S::int) + 1)"
  using index_in_grid [of "x + 1" "S + 1" 0 "L + 1"] assms
  by (simp add: mult.commute)

lemma vaseIndices_ok: "idxOK (gridSize params) (vaseIndices params)"
  unfolding vaseIndices_def Let_def gridSize_def
proof (rule idxOK_fold2 [OF idxOK_Nil])
  fix y x s
  assume "y \<in> set [0..layers params - 1]" "x \<in> set [0..segments params - 1]"
    and s: "idxOK ((layers params + 1) * (segments params + 1)) s"
  then have y: "0 \<le> y" "y < layers params" and x: "0 \<le> x" "x < segments params" by auto
  note c = cell_corners [OF y x]
  have "idxOK ((layers params + 1) * (segments params + 1))
          (s @ [y * (segments params + 1) + x, (y + 1) * (segments params + 1) + x,
                 y * (segments params + 1) + x + 1])"
    using s c by (intro idxOK_push3) auto
  then show "idxOK ((layers params + 1) * (segments params + 1))
          ((s @ [y * (segments params + 1) + x, (y + 1) * (segments params + 1) + x,
                 y * (segments params + 1) + x + 1]) @
           [y * (segments params + 1) + x + 1, (y + 1) * (segments params + 1) + x,
            (y + 1) * (segments params + 1) + x + 1])"
    by (rule idxOK_push3) (use c in auto)
qed

lemma solidIndices_ok:
  assumes L: "0 \<le> layers params"
  shows "idxOK (2 * gridSize params + 2) (solidIndices params (2 * gridSize params))"
  unfolding solidIndices_def Let_def gridSize_def
  apply (rule idxOK_fold)
   apply (rule idxOK_fold)
    apply (rule idxOK_fold)
     apply (rule idxOK_fold2)
      apply (rule idxOK_fold2)
       apply (rule idxOK_Nil)
  subgoal premises p for y x s
  proof -
    from p have y: "0 \<le> y" "y < layers params" and x: "0 \<le> x" "x < segments params" by auto
    note c = cell_corners [OF y x]
    show ?thesis using p(3) c by (intro idxOK_addQuad) auto
  qed
  subgoal premises p for y x s
  proof -
    from p have y: "0 \<le> y" "y < layers params" and x: "0 \<le> x" "x < segments params" by auto
    note c = cell_corners [OF y x]
    show ?thesis using p(3) c by (intro idxOK_addQuad) auto
  qed
  subgoal premises p for x s
  proof -
    from p have x: "0 \<le> x" "x < segments params" by auto
    note c = top_row [OF L x]
    show ?thesis using p(2) c by (intro idxOK_addQuad) auto
  qed
  subgoal premises p for x s
  proof -
    from p have x: "0 \<le> x" "x < segments params" by auto
    note c = row_fits [OF L x]
    show ?thesis using p(2) c x by (intro idxOK_push3) auto
  qed
  subgoal premises p for x s
  proof -
    from p have x: "0 \<le> x" "x < segments params" by auto
    note c = row_fits [OF L x]
    show ?thesis using p(2) c x by (intro idxOK_push3) auto
  qed
  done

section \<open>OBJ export\<close>

lemma objVertexLines_defined:
  "3 dvd length vs \<Longrightarrow> \<exists>ls. objVertexLines vs = Some ls"
proof (induction vs rule: objVertexLines.induct)
  case 1
  show ?case by simp
next
  case (2 a b c rest)
  have "length (a # b # c # rest) = length rest + 3" by simp
  then have "3 dvd length rest" using 2(2) by (metis dvd_add_left_iff dvd_refl)
  then show ?case using 2(1) by auto
qed (use length_not_dvd3 in metis)+

lemma idxOK_short: "\<not> idxOK M [a]" "\<not> idxOK M [a, b]"
proof -
  show "\<not> idxOK M [a]" by (simp add: idxOK_def)
  have "\<not> 3 dvd (2::nat)" by presburger
  moreover have "length [a, b] = 2" by simp
  ultimately show "\<not> idxOK M [a, b]" unfolding idxOK_def by metis
qed

lemma objFaceLines_ok:
  "idxOK M s \<Longrightarrow>
     \<exists>fs. objFaceLines s = Some fs \<and>
          (\<forall>(a, b, c)\<in>set fs. 1 \<le> a \<and> a \<le> M \<and> 1 \<le> b \<and> b \<le> M \<and> 1 \<le> c \<and> c \<le> M)"
proof (induction s rule: objFaceLines.induct)
  case 1
  show ?case by simp
next
  case (2 a b c rest)
  have "length (a # b # c # rest) = length rest + 3" by simp
  moreover have "3 dvd length (a # b # c # rest)" using 2(2) by (simp only: idxOK_def)
  ultimately have "3 dvd length rest" by (metis dvd_add_left_iff dvd_refl)
  then have "idxOK M rest" using 2(2) by (simp add: idxOK_def)
  from 2(1) [OF this] obtain fs where
    fs: "objFaceLines rest = Some fs"
      "\<forall>(a, b, c)\<in>set fs. 1 \<le> a \<and> a \<le> M \<and> 1 \<le> b \<and> b \<le> M \<and> 1 \<le> c \<and> c \<le> M"
    by blast
  have "0 \<le> a \<and> a < M \<and> 0 \<le> b \<and> b < M \<and> 0 \<le> c \<and> c < M"
    using 2(2) by (simp add: idxOK_def)
  then show ?case using fs by auto
qed (use idxOK_short in blast)+

section \<open>Positions of the shell vertices\<close>

lemma axisDistance_vec:
  assumes "calculateVesselPoint params u v ro ho hs t = Some p"
  shows "axisDistance (vec p) = pr p"
proof -
  have r: "0 \<le> pr p" using calculateVesselPoint_fields(4) [OF assms] by simp
  have "(px p)\<^sup>2 + (pz p)\<^sup>2 =
          (pr p)\<^sup>2 * (cos (u * pi * 2))\<^sup>2 + (pr p)\<^sup>2 * (sin (u * pi * 2))\<^sup>2"
    by (simp only: calculateVesselPoint_fields(2,3) [OF assms] power_mult_distrib)
  also have "\<dots> = (pr p)\<^sup>2 * ((cos (u * pi * 2))\<^sup>2 + (sin (u * pi * 2))\<^sup>2)"
    by (simp only: distrib_left)
  also have "\<dots> = (pr p)\<^sup>2" by (simp only: sin_cos_squared_add2 mult_1_right)
  finally show ?thesis using r by (simp add: axisDistance_def vec_def)
qed

lemma calculateVesselPoint_noTexture_radius:
  assumes "calculateVesselPoint params u v radiusOffset heightOffset heightScale None = Some p"
  shows "pr p = max 0.1 (baseRadius params +
                    sin ((u * pi * 2 + v * twist params) * noiseFrequency params) *
                    cos (v * height params * noiseFrequency params * 0.5) *
                    noiseScale params * (1 - (v - 0.5) ^ 2 * 0.5) + radiusOffset)"
  using assms unfolding calculateVesselPoint_noTexture by (auto simp: Let_def max_def)

lemma gridNodes_nth:
  assumes "k < length (gridNodes params)"
  obtains y x where "gridNodes params ! k = (y, x)" and "0 \<le> y" and "y \<le> layers params"
    and "0 \<le> x" and "x \<le> segments params"
proof -
  obtain y x where yx: "gridNodes params ! k = (y, x)" by (cases "gridNodes params ! k") auto
  have "gridNodes params ! k \<in> set (gridNodes params)" using assms by simp
  then have "0 \<le> y \<and> y \<le> layers params \<and> 0 \<le> x \<and> x \<le> segments params"
    by (simp add: yx set_gridNodes)
  then show ?thesis using that yx by blast
qed

lemma length_concat_const:
  "(\<And>x. x \<in> set xs \<Longrightarrow> length (g x) = k) \<Longrightarrow> length (concat (map g xs)) = k * length xs"
  by (induction xs) simp_all

lemma length_vaseIndices:
  "length (vaseIndices params) = 6 * (nat (layers params) * nat (segments params))"
proof -
  let ?g = "\<lambda>y x. [y * (segments params + 1) + x, (y + 1) * (segments params + 1) + x,
                     y * (segments params + 1) + x + 1, y * (segments params + 1) + x + 1,
                     (y + 1) * (segments params + 1) + x, (y + 1) * (segments params + 1) + x + 1]"
  have "vaseIndices params =
          fold (\<lambda>y. fold (\<lambda>x s. s @ ?g y x) [0..segments params - 1]) [0..layers params - 1] []"
    by (simp add: vaseIndices_def Let_def)
  also have "\<dots> = concat (map (\<lambda>y. concat (map (?g y) [0..segments params - 1])) [0..layers params - 1])"
    by (simp only: fold_fold_push append_Nil)
  finally have "length (vaseIndices params) =
      length (concat (map (\<lambda>y. concat (map (?g y) [0..segments params - 1])) [0..layers params - 1]))"
    by simp
  also have "\<dots> = (6 * length [0..segments params - 1]) * length [0..layers params - 1]"
    by (intro length_concat_const) simp
  finally show ?thesis by (simp add: mult.commute)
qed

section \<open>The solid mesh\<close>

lemma solid_mesh:
  assumes "validParams params" and "validTextureOpt t" and "0 < wallThickness params"
  obtains m P Q where
    "generateVesselMesh params t = Some m"
    and "indices m = solidIndices params (2 * gridSize params)"
    and "vertexCount m = 2 * gridSize params + 2"
    and "\<And>k y x. k < nat (gridSize params) \<Longrightarrow> gridNodes params ! k = (y, x) \<Longrightarrow>
           vertexAt m k = vec (P y x) \<and>
           calculateVesselPoint params (of_int x / of_int (segments params))
             (of_int y / of_int (layers params)) 0 0 1 t = Some (P y x)"
    and "\<And>k y x. k < nat (gridSize params) \<Longrightarrow> gridNodes params ! k = (y, x) \<Longrightarrow>
           vertexAt m (nat (gridSize params) + k) = vec (Q y x) \<and>
           calculateVesselPoint params (of_int x / of_int (segments params))
             (of_int y / of_int (layers params)) (- wallThickness params) (wallThickness params)
             ((height params - wallThickness params) / height params) t = Some (Q y x)"
    and "vertexAt m (nat (2 * gridSize params)) = (0, 0, 0)"
    and "vertexAt m (nat (2 * gridSize params + 1)) = (0, wallThickness params, 0)"
proof -
  from assms(1) have L: "1 \<le> layers params" and S: "1 \<le> segments params"
    and H: "height params \<noteq> 0"
    by (simp_all add: validParams_def)
  have len: "int (length (gridNodes params)) = gridSize params"
    using L S by (intro length_gridNodes) auto
  then have len': "length (gridNodes params) = nat (gridSize params)" by simp
  show ?thesis
  proof (rule generateVesselMesh_solid [OF L S assms(2,3) H], goal_cases)
    case (1 P Q)
    let ?outer = "map (\<lambda>(y, x). vec (P y x)) (gridNodes params)"
    let ?inner = "map (\<lambda>(y, x). vec (Q y x)) (gridNodes params)"
    let ?ws = "?outer @ ?inner @ [(0, 0, 0), (0, wallThickness params, 0)]"
    let ?m = "\<lparr> vertices = flat3 ?ws, indices = solidIndices params (2 * gridSize params) \<rparr>"
    have lws: "length ?ws = 2 * nat (gridSize params) + 2" using len' by simp
    have "vertexCount ?m = int (length ?ws)" by (rule vertexCount_flat3)
    then have count: "vertexCount ?m = 2 * gridSize params + 2"
      using len by simp
    have at: "vertexAt ?m k = ?ws ! k" if "k < 2 * nat (gridSize params) + 2" for k
      using that lws by (intro vertexAt_flat3) simp
    have outer: "vertexAt ?m k = vec (P y x) \<and>
           calculateVesselPoint params (of_int x / of_int (segments params))
             (of_int y / of_int (layers params)) 0 0 1 t = Some (P y x)"
      if k: "k < nat (gridSize params)" and yx: "gridNodes params ! k = (y, x)" for k y x
    proof -
      have "gridNodes params ! k \<in> set (gridNodes params)" using k len' by simp
      then have r: "0 \<le> y" "y \<le> layers params" "0 \<le> x" "x \<le> segments params"
        by (simp_all add: yx set_gridNodes)
      have "vertexAt ?m k = ?ws ! k" using k by (intro at) simp
      also have "\<dots> = ?outer ! k" using k len' by (simp add: nth_append)
      also have "\<dots> = vec (P y x)" using k len' yx by simp
      finally show ?thesis using 1(1) [OF r] by simp
    qed
    have inner: "vertexAt ?m (nat (gridSize params) + k) = vec (Q y x) \<and>
           calculateVesselPoint params (of_int x / of_int (segments params))
             (of_int y / of_int (layers params)) (- wallThickness params) (wallThickness params)
             ((height params - wallThickness params) / height params) t = Some (Q y x)"
      if k: "k < nat (gridSize params)" and yx: "gridNodes params ! k = (y, x)" for k y x
    proof -
      have "gridNodes params ! k \<in> set (gridNodes params)" using k len' by simp
      then have r: "0 \<le> y" "y \<le> layers params" "0 \<le> x" "x \<le> segments params"
        by (simp_all add: yx set_gridNodes)
      have "vertexAt ?m (nat (gridSize params) + k) = ?ws ! (nat (gridSize params) + k)"
        using k by (intro at) simp
      also have "\<dots> = (?inner @ [(0, 0, 0), (0, wallThickness params, 0)]) ! k"
        using len' by (simp add: nth_append)
      also have "\<dots> = ?inner ! k" using k len' by (simp add: nth_append)
      also have "\<dots> = vec (Q y x)" using k len' yx by simp
      finally show ?thesis using 1(2) [OF r] by simp
    qed
    have n0: "0 \<le> gridSize params" using len by simp
    have "vertexAt ?m (2 * nat (gridSize params)) = ?ws ! (2 * nat (gridSize params))"
      by (intro at) simp
    also have "\<dots> = (0, 0, 0)"
      using len' by (simp add: nth_append)
    finally have apex1: "vertexAt ?m (nat (2 * gridSize params)) = (0, 0, 0)"
      using n0 by (simp add: nat_mult_distrib)
    have "vertexAt ?m (2 * nat (gridSize params) + 1) = ?ws ! (2 * nat (gridSize params) + 1)"
      by (intro at) simp
    also have "\<dots> = (0, wallThickness params, 0)"
      using len' by (simp add: nth_append)
    finally have apex2: "vertexAt ?m (nat (2 * gridSize params + 1)) = (0, wallThickness params, 0)"
      using n0 by (simp add: nat_mult_distrib nat_add_distrib)
    show ?case
    proof (rule that [of ?m P Q])
      show "generateVesselMesh params t = Some ?m" by (rule 1(3))
      show "indices ?m = solidIndices params (2 * gridSize params)" by simp
      show "vertexCount ?m = 2 * gridSize params + 2" by (rule count)
      show "vertexAt ?m (nat (2 * gridSize params)) = (0, 0, 0)" by (rule apex1)
      show "vertexAt ?m (nat (2 * gridSize params + 1)) = (0, wallThickness params, 0)"
        by (rule apex2)
    qed (use outer inner in blast)+
  qed
qed

lemma gridNodes_index:
  assumes "0 \<le> y" "y \<le> layers params" "0 \<le> x" "x \<le> segments params"
  shows "nat (y * (segments params + 1) + x) < nat (gridSize params)"
    and "gridNodes params ! nat (y * (segments params + 1) + x) = (y, x)"
proof -
  let ?w = "nat (segments params + 1)" and ?n = "nat (y * (segments params + 1) + x)"
  have n: "?n = nat y * ?w + nat x"
    using assms by (simp add: nat_add_distrib nat_mult_distrib)
  have xw: "nat x < ?w" using assms by simp
  have d: "?n div ?w = nat y" and m: "?n mod ?w = nat x"
    using xw by (simp_all add: n)
  have "0 \<le> y * (segments params + 1) + x \<and> y * (segments params + 1) + x < gridSize params"
    using index_in_grid [of x "segments params + 1" y "layers params + 1"] assms
    by (simp add: gridSize_def mult.commute)
  then show lt: "?n < nat (gridSize params)" by linarith
  have "?n < length [0..layers params] * length [0..segments params]"
    using lt assms by (simp add: gridSize_def nat_mult_distrib)
  then have "gridNodes params ! ?n =
      ([0..layers params] ! (?n div length [0..segments params]),
       [0..segments params] ! (?n mod length [0..segments params]))"
    unfolding gridNodes_def by (rule product_nth)
  also have "length [0..segments params] = ?w" by simp
  also have "[0..layers params] ! (?n div ?w) = y"
    using assms by (simp add: d nth_upto)
  also have "[0..segments params] ! (?n mod ?w) = x"
    using assms by (simp add: m nth_upto)
  finally show "gridNodes params ! ?n = (y, x)" .
qed

lemma Max_shellYs:
  assumes "\<And>k. k < n \<Longrightarrow> fst (snd (vertexAt m (first + k))) \<le> H"
    and "k0 < n" and "fst (snd (vertexAt m (first + k0))) = H"
  shows "Max (set (shellYs m first n)) = H"
proof (rule Max_eqI)
  show "finite (set (shellYs m first n))" by simp
  show "y \<le> H" if "y \<in> set (shellYs m first n)" for y
    using that assms(1) by (auto simp: shellYs_def)
  show "H \<in> set (shellYs m first n)"
    unfolding shellYs_def using assms(2,3) by (auto simp: image_iff intro!: bexI [of _ k0])
qed

lemma outer_y_le:
  assumes "0 \<le> y" "y \<le> L" "1 \<le> L" "0 < (h::real)"
  shows "of_int y / of_int L * h * 1 + 0 \<le> h"
proof -
  have "of_int y / of_int L \<le> (1::real)" using assms by simp
  then have "of_int y / of_int L * h \<le> 1 * h"
    using assms(4) by (intro mult_right_mono) auto
  then show ?thesis by simp
qed

lemma inner_y_le:
  assumes "0 \<le> y" "y \<le> L" "1 \<le> L" "0 < (h::real)" "w \<le> h"
  shows "of_int y / of_int L * h * ((h - w) / h) + w \<le> h"
proof -
  have "of_int y / of_int L \<le> (1::real)" using assms by simp
  then have "of_int y / of_int L * (h - w) \<le> 1 * (h - w)"
    using assms(5) by (intro mult_right_mono) auto
  moreover have "of_int y / of_int L * h * ((h - w) / h) = of_int y / of_int L * (h - w)"
    using assms(4) by simp
  ultimately show ?thesis by simp
qed

lemma inner_y_le_floor:
  assumes "0 \<le> y" "y \<le> L" "1 \<le> L" "0 < (h::real)" "h \<le> w"
  shows "of_int y / of_int L * h * ((h - w) / h) + w \<le> w"
proof -
  have "0 \<le> of_int y / (of_int L :: real)" using assms by simp
  then have "of_int y / of_int L * (h - w) \<le> 0"
    using assms(5) by (intro mult_nonneg_nonpos) auto
  moreover have "of_int y / of_int L * h * ((h - w) / h) = of_int y / of_int L * (h - w)"
    using assms(4) by simp
  ultimately show ?thesis by simp
qed

lemma top_y:
  assumes "1 \<le> L" "(h::real) \<noteq> 0"
  shows "of_int L / of_int L * h * 1 + 0 = h"
    and "of_int L / of_int L * h * ((h - w) / h) + w = h"
  using assms by simp_all

lemma solid_mesh_ys:
  assumes "validParams params" and "validTextureOpt t" and "0 < wallThickness params"
  obtains m where
    "generateVesselMesh params t = Some m"
    and "\<And>k y x. k < nat (gridSize params) \<Longrightarrow> gridNodes params ! k = (y, x) \<Longrightarrow>
           fst (snd (vertexAt m k)) = of_int y / of_int (layers params) * height params * 1 + 0"
    and "\<And>k y x. k < nat (gridSize params) \<Longrightarrow> gridNodes params ! k = (y, x) \<Longrightarrow>
           fst (snd (vertexAt m (nat (gridSize params) + k))) =
             of_int y / of_int (layers params) * height params *
               ((height params - wallThickness params) / height params) + wallThickness params"
proof -
  show ?thesis
  proof (rule solid_mesh [OF assms], goal_cases)
  case (1 m P Q)
  show ?case
  proof (rule that [of m])
    show "generateVesselMesh params t = Some m" by (rule 1(1))
  next
    fix k y x assume k: "k < nat (gridSize params)" "gridNodes params ! k = (y, x)"
    from 1(4) [OF k] have a: "vertexAt m k = vec (P y x)"
      and b: "calculateVesselPoint params (of_int x / of_int (segments params))
             (of_int y / of_int (layers params)) 0 0 1 t = Some (P y x)"
      by blast+
    show "fst (snd (vertexAt m k)) =
        of_int y / of_int (layers params) * height params * 1 + 0"
      using calculateVesselPoint_fields(1) [OF b] by (simp add: a vec_def)
  next
    fix k y x assume k: "k < nat (gridSize params)" "gridNodes params ! k = (y, x)"
    from 1(5) [OF k] have a: "vertexAt m (nat (gridSize params) + k) = vec (Q y x)"
      and b: "calculateVesselPoint params (of_int x / of_int (segments params))
             (of_int y / of_int (layers params)) (- wallThickness params) (wallThickness params)
             ((height params - wallThickness params) / height params) t = Some (Q y x)"
      by blast+
    show "fst (snd (vertexAt m (nat (gridSize params) + k))) =
             of_int y / of_int (layers params) * height params *
               ((height params - wallThickness params) / height params) + wallThickness params"
      using calculateVesselPoint_fields(1) [OF b] by (simp add: a vec_def)
  qed
  qed
qed

lemma gridNodes_range:
  assumes "1 \<le> layers params" "1 \<le> segments params" "k < nat (gridSize params)"
  obtains y x where "gridNodes params ! k = (y, x)" and "0 \<le> y" and "y \<le> layers params"
    and "0 \<le> x" and "x \<le> segments params"
proof -
  have "int (length (gridNodes params)) = gridSize params"
    using assms(1,2) by (intro length_gridNodes) auto
  then have "k < length (gridNodes params)" using assms(3) by simp
  then show ?thesis using that by (rule gridNodes_nth)
qed

section \<open>Decimal text of a number\<close>

lemma toFixed_zero [simp]: "toFixed d 0 = 0"
  by (simp add: toFixed_def)




lemma toFixed_mono:
  assumes "x \<le> y"
  shows "toFixed d x \<le> toFixed d y"
proof -
  have p: "(0::real) < 10 ^ d" by simp
  have nonneg: "0 \<le> of_int \<lfloor>z * 10 ^ d + 1 / 2\<rfloor> / (10::real) ^ d" if "0 \<le> z" for z :: real
  proof -
    have "0 \<le> z * 10 ^ d + 1 / 2" using that by simp
    then have "0 \<le> \<lfloor>z * 10 ^ d + 1 / 2\<rfloor>" by simp
    then show ?thesis by simp
  qed
  have mono: "of_int \<lfloor>a * 10 ^ d + 1 / 2\<rfloor> / (10::real) ^ d \<le> of_int \<lfloor>b * 10 ^ d + 1 / 2\<rfloor> / 10 ^ d"
    if "a \<le> b" for a b :: real
  proof -
    have "a * 10 ^ d + 1 / 2 \<le> b * 10 ^ d + 1 / 2" using that by simp
    then have "\<lfloor>a * 10 ^ d + 1 / 2\<rfloor> \<le> \<lfloor>b * 10 ^ d + 1 / 2\<rfloor>" by (rule floor_mono)
    then show ?thesis by (simp add: divide_right_mono)
  qed
  consider "y < 0" | "x < 0" "0 \<le> y" | "0 \<le> x" using assms by linarith
  then show ?thesis
  proof cases
    case 1
    then have "x < 0" using assms by simp
    then show ?thesis using 1 mono [of "- y" "- x"] assms by (simp add: toFixed_def)
  next
    case 2
    then have "toFixed d x = - (of_int \<lfloor>(- x) * 10 ^ d + 1 / 2\<rfloor> / 10 ^ d)"
      and "toFixed d y = of_int \<lfloor>y * 10 ^ d + 1 / 2\<rfloor> / 10 ^ d"
      by (simp_all add: toFixed_def)
    moreover have "0 \<le> of_int \<lfloor>(- x) * 10 ^ d + 1 / 2\<rfloor> / (10::real) ^ d"
      using 2 by (intro nonneg) simp
    moreover have "0 \<le> of_int \<lfloor>y * 10 ^ d + 1 / 2\<rfloor> / (10::real) ^ d"
      using 2 by (intro nonneg) simp
    ultimately show ?thesis by linarith
  next
    case 3
    then have "0 \<le> y" using assms by simp
    then show ?thesis using 3 mono [OF assms] by (simp add: toFixed_def)
  qed
qed

section \<open>STL facet normals\<close>





section \<open>Every generated mesh is well formed\<close>

lemma generated_mesh_ok:
  assumes "validParams params" and "validTextureOpt textureData"
  shows "\<exists>m. generateVesselMesh params textureData = Some m \<and>
           vertexCount m = (if wallThickness params \<le> 0 then gridSize params
                            else 2 * gridSize params + 2) \<and>
           int (length (vertices m)) = 3 * vertexCount m \<and>
           idxOK (vertexCount m) (indices m)"
proof -
  from assms(1) have L: "1 \<le> layers params" and S: "1 \<le> segments params"
    and H: "height params \<noteq> 0"
    by (simp_all add: validParams_def)
  have len: "int (length (gridNodes params)) = gridSize params"
    using L S by (intro length_gridNodes) auto
  show ?thesis
  proof (cases "wallThickness params \<le> 0")
    case True
    show ?thesis
    proof (rule generateVesselMesh_vase [OF L S assms(2) True], goal_cases)
      case (1 P)
      let ?ws = "map (\<lambda>(y, x). vec (P y x)) (gridNodes params)"
      let ?m = "\<lparr> vertices = flat3 ?ws, indices = vaseIndices params \<rparr>"
      have "vertexCount ?m = int (length ?ws)" by (rule vertexCount_flat3)
      then have count: "vertexCount ?m = gridSize params" using len by simp
      have "int (length (vertices ?m)) = 3 * vertexCount ?m" using len count by simp
      moreover have "idxOK (vertexCount ?m) (indices ?m)"
        unfolding count using vaseIndices_ok [of params] by simp
      ultimately show ?case using 1(2) count True by auto
    qed
  next
    case False
    then have wt: "0 < wallThickness params" by simp
    show ?thesis
    proof (rule generateVesselMesh_solid [OF L S assms(2) wt H], goal_cases)
      case (1 P Q)
      let ?ws = "map (\<lambda>(y, x). vec (P y x)) (gridNodes params) @
                 map (\<lambda>(y, x). vec (Q y x)) (gridNodes params) @
                 [(0, 0, 0), (0, wallThickness params, 0)]"
      let ?m = "\<lparr> vertices = flat3 ?ws, indices = solidIndices params (2 * gridSize params) \<rparr>"
      have "vertexCount ?m = int (length ?ws)" by (rule vertexCount_flat3)
      then have count: "vertexCount ?m = 2 * gridSize params + 2" using len by simp
      have "length (vertices ?m) = 3 * length ?ws" by (simp only: Mesh.select_convs length_flat3)
      then have "int (length (vertices ?m)) = 3 * vertexCount ?m" using len count by simp
      moreover have "idxOK (vertexCount ?m) (indices ?m)"
        unfolding count using solidIndices_ok [of params] L by simp
      ultimately show ?case using 1(3) count False by auto
    qed
  qed
qed

section \<open>STL export\<close>





section \<open>Loops with an invariant\<close>

lemma forM_total:
  assumes "I n s"
    and "\<And>i k s. i \<in> set xs \<Longrightarrow> I k s \<Longrightarrow> \<exists>s'. body i s = Some s' \<and> I (Suc k) s'"
  shows "\<exists>s'. forM xs body s = Some s' \<and> I (n + length xs) s'"
  using assms
proof (induction xs arbitrary: n s)
  case Nil
  then show ?case by simp
next
  case (Cons i xs)
  obtain s1 where s1: "body i s = Some s1" "I (Suc n) s1"
    using Cons.prems(2) [of i n s] Cons.prems(1) by auto
  have "\<exists>s'. forM xs body s1 = Some s' \<and> I (Suc n + length xs) s'"
    using s1(2) Cons.prems(2) by (intro Cons.IH) auto
  then show ?case using s1(1) by simp
qed

section \<open>G-code\<close>

lemma emittedE_append: "emittedE (xs @ ys) = emittedE xs @ emittedE ys"
  by (simp add: emittedE_def map_filter_def)

lemma emittedE_getHeader: "emittedE (getHeader params lh) = []"
  by (simp add: getHeader_def emittedE_def map_filter_def split: PrinterType.splits)

lemma spiralStep_inv:
  assumes tex: "validTextureOpt textureData"
    and e: "0 \<le> ePerMM" and S: "1 \<le> segments params" and T: "1 \<le> totalSteps"
    and i: "1 \<le> i" "i \<le> totalSteps"
    and inv: "spiralInv k st"
  shows "\<exists>st'. spiralStep params textureData ePerMM totalSteps i st = Some st' \<and> spiralInv (Suc k) st'"
proof -
  obtain currentE prevX prevY prevZ gcode where st: "st = (currentE, prevX, prevY, prevZ, gcode)"
    by (cases st) auto
  have u: "0 \<le> real_of_int i / real_of_int (segments params)" using i S by simp
  have v: "0 \<le> real_of_int i / real_of_int totalSteps" "real_of_int i / real_of_int totalSteps \<le> 1"
    using i T by simp_all
  obtain p where p: "calculateVesselPoint params (real_of_int i / real_of_int (segments params))
      (real_of_int i / real_of_int totalSteps) 0 0 1 textureData = Some p"
    using calculateVesselPoint_defined [OF tex u v] by blast
  let ?dist = "sqrt ((px p - prevX) ^ 2 + (pz p - prevY) ^ 2 + (py p - prevZ) ^ 2)"
  let ?E = "currentE + ?dist * ePerMM"
  let ?line = "G1 (toFixed 3 (px p)) (toFixed 3 (pz p)) (toFixed 3 (py p)) (toFixed 4 ?E)"
  have step: "spiralStep params textureData ePerMM totalSteps i st =
                Some (?E, px p, pz p, py p, gcode @ [?line])"
    using S T p by (simp add: spiralStep_def st Let_def)
  have "0 \<le> ?dist * ePerMM" using e by simp
  then have le: "toFixed 4 currentE \<le> toFixed 4 ?E" by (intro toFixed_mono) simp
  have old: "sorted (emittedE gcode)" "length (emittedE gcode) = k"
    "list_all (\<lambda>e. e \<le> toFixed 4 currentE) (emittedE gcode)"
    using inv by (simp_all add: spiralInv_def st)
  have new: "emittedE (gcode @ [?line]) = emittedE gcode @ [toFixed 4 ?E]"
    by (simp add: emittedE_append) (simp add: emittedE_def map_filter_def)
  have all: "list_all (\<lambda>e. e \<le> toFixed 4 ?E) (emittedE gcode)"
    using old(3) le by (auto simp: list_all_iff)
  then have "sorted (emittedE gcode @ [toFixed 4 ?E])"
    using old(1) by (auto simp: sorted_append list_all_iff)
  then have "spiralInv (Suc k) (?E, px p, pz p, py p, gcode @ [?line])"
    using old(2) all by (simp add: spiralInv_def new)
  then show ?thesis using step by blast
qed

section \<open>Print statistics\<close>

lemma forM_those:
  "forM xs (\<lambda>i s. map_option (\<lambda>w. f w s) (g i)) s =
     map_option (\<lambda>ws. fold f ws s) (those (map g xs))"
proof (induction xs arbitrary: s)
  case Nil
  show ?case by simp
next
  case (Cons x xs)
  show ?case
  proof (cases "g x")
    case None
    then show ?thesis by simp
  next
    case (Some w)
    then show ?thesis
      by (simp add: Cons.IH option.map_comp comp_def)
  qed
qed

lemma those_map_option:
  "those (map (\<lambda>x. map_option f (g x)) xs) = map_option (map f) (those (map g xs))"
proof (induction xs)
  case Nil
  show ?case by simp
next
  case (Cons x xs)
  then show ?case by (cases "g x") (simp_all add: option.map_comp comp_def)
qed

lemma fold_plus: "fold (\<lambda>w (a::real). a + w) ws a = a + sum_list ws"
  by (induction ws arbitrary: a) simp_all

lemma upto_0_3: "[0..4 - 1] = [0, 1, 2, 3::int]"
  by (simp add: upto_rec1)

lemma four_samples:
  "forM [0..4 - 1] (\<lambda>k avgR. do {
       p \<leftarrow> calculateVesselPoint params (of_int k / 4) v 0 0 1 t;
       Some (avgR + pr p) }) 0
   = map_option (\<lambda>r. r * 4) (averageRadius params t v)"
  unfolding upto_0_3 averageRadius_def
  by (simp split: Option.bind_split)

lemma spiralDist_refines:
  assumes "layers params \<noteq> 0"
  shows "spiralDist params t = spiralDistance_spec params t"
proof -
  let ?A = "\<lambda>i. averageRadius params t (of_int i / of_int (layers params))"
  have "spiralDist params t =
          forM [0..layers params - 1] (\<lambda>i s. map_option (\<lambda>w. s + w)
             (map_option (\<lambda>r. 2 * pi * r) (?A i))) 0"
    unfolding spiralDist_def four_samples using assms
    by (intro forM_cong) (auto simp: Let_def split: Option.bind_split)
  also have "\<dots> = map_option (\<lambda>ws. fold (\<lambda>w s. s + w) ws 0)
                     (those (map (\<lambda>i. map_option (\<lambda>r. 2 * pi * r) (?A i)) [0..layers params - 1]))"
    by (rule forM_those [where f = "\<lambda>w s. s + w"])
  also have "\<dots> = map_option (\<lambda>rs. \<Sum>r\<leftarrow>rs. 2 * pi * r) (those (map ?A [0..layers params - 1]))"
    by (simp add: those_map_option option.map_comp comp_def fold_plus)
  finally show ?thesis by (simp add: spiralDistance_spec_def)
qed

lemma those_length: "those xs = Some ys \<Longrightarrow> length ys = length xs"
proof (induction xs arbitrary: ys)
  case Nil
  then show ?case by simp
next
  case (Cons x xs)
  then show ?case by (cases x) (auto split: option.splits)
qed

lemma those_defined:
  "(\<And>x. x \<in> set xs \<Longrightarrow> \<exists>w. g x = Some w) \<Longrightarrow> \<exists>ws. those (map g xs) = Some ws"
proof (induction xs)
  case Nil
  show ?case by simp
next
  case (Cons x xs)
  obtain w where "g x = Some w" using Cons.prems [of x] by auto
  moreover obtain ws where "those (map g xs) = Some ws" using Cons by auto
  ultimately show ?case by simp
qed

lemma ringPoints_length:
  assumes "ringPoints params t v = Some pts"
  shows "int (length pts) = max 0 (min (segments params) 20 + 1)"
  using those_length [OF assms [unfolded ringPoints_def]] by (simp add: sampleSteps_def)

lemma ringPoints_defined:
  assumes "validTextureOpt t" and "1 \<le> segments params" and "0 \<le> v" and "v \<le> 1"
  shows "\<exists>pts. ringPoints params t v = Some pts"
  unfolding ringPoints_def
proof (rule those_defined)
  fix j assume "j \<in> set [0..sampleSteps params]"
  then have j: "0 \<le> j" "j \<le> sampleSteps params" by simp_all
  have s: "1 \<le> sampleSteps params" using assms(2) by (simp add: sampleSteps_def)
  have "0 \<le> real_of_int j / real_of_int (sampleSteps params)" using j s by simp
  then obtain p where "calculateVesselPoint params (real_of_int j / real_of_int (sampleSteps params))
      v 0 0 1 t = Some p"
    using calculateVesselPoint_defined [OF assms(1) _ assms(3,4)] by blast
  then show "\<exists>w. do { u \<leftarrow> jsdiv (of_int j) (of_int (sampleSteps params));
                     calculateVesselPoint params u v 0 0 1 t } = Some w"
    using s by simp
qed

lemma ring_walk:
  "forM [0..sampleSteps params] (\<lambda>j (totalDist, prevP). do {
       u \<leftarrow> jsdiv (of_int j) (of_int (sampleSteps params));
       p \<leftarrow> calculateVesselPoint params u v 0 0 1 t;
       let dx = px p - px prevP;
       let dy = py p - py prevP;
       let dz = pz p - pz prevP;
       Some (totalDist + sqrt (dx * dx + dy * dy + dz * dz), p) }) st
   = map_option (\<lambda>pts. walk pts st) (ringPoints params t v)"
proof -
  let ?g = "\<lambda>j. do { u \<leftarrow> jsdiv (of_int j) (of_int (sampleSteps params));
                     calculateVesselPoint params u v 0 0 1 t }"
  let ?f = "\<lambda>p (totalDist, prevP).
             (totalDist + sqrt ((px p - px prevP) * (px p - px prevP) +
                                (py p - py prevP) * (py p - py prevP) +
                                (pz p - pz prevP) * (pz p - pz prevP)), p)"
  have "forM [0..sampleSteps params] (\<lambda>j (totalDist, prevP). do {
       u \<leftarrow> jsdiv (of_int j) (of_int (sampleSteps params));
       p \<leftarrow> calculateVesselPoint params u v 0 0 1 t;
       let dx = px p - px prevP;
       let dy = py p - py prevP;
       let dz = pz p - pz prevP;
       Some (totalDist + sqrt (dx * dx + dy * dy + dz * dz), p) }) st
     = forM [0..sampleSteps params] (\<lambda>j s. map_option (\<lambda>w. ?f w s) (?g j)) st"
    by (intro forM_cong) (auto simp: Let_def split: Option.bind_split prod.splits)
  also have "\<dots> = map_option (\<lambda>ws. fold ?f ws st) (those (map ?g [0..sampleSteps params]))"
    by (rule forM_those)
  finally show ?thesis by (simp add: walk_def ringPoints_def)
qed

lemma totalDist_refines: "totalDist params t = totalDist_spec params t"
proof -
  have "forM [0..layers params] (\<lambda>i st. do {
         v \<leftarrow> jsdiv (of_int i) (of_int (layers params));
         forM [0..sampleSteps params] (\<lambda>j (totalDist, prevP). do {
           u \<leftarrow> jsdiv (of_int j) (of_int (sampleSteps params));
           p \<leftarrow> calculateVesselPoint params u v 0 0 1 t;
           let dx = px p - px prevP;
           let dy = py p - py prevP;
           let dz = pz p - pz prevP;
           Some (totalDist + sqrt (dx * dx + dy * dy + dz * dz), p)
         }) st
       }) s0
     = forM [0..layers params] (\<lambda>i st. do {
             v \<leftarrow> jsdiv (of_int i) (of_int (layers params));
             pts \<leftarrow> ringPoints params t v;
             Some (walk pts st)
           }) s0" for s0
    by (intro forM_cong) (auto simp: ring_walk split: Option.bind_split)
  then show ?thesis
    unfolding totalDist_def totalDist_spec_def
    by (auto split: Option.bind_split)
qed

lemma averageRadius_defined:
  assumes "validTextureOpt t" and "0 \<le> v" and "v \<le> 1"
  shows "\<exists>r. averageRadius params t v = Some r"
proof -
  have "\<exists>p. calculateVesselPoint params u v 0 0 1 t = Some p" if "0 \<le> u" for u
    using calculateVesselPoint_defined [OF assms(1) that assms(2,3)] .
  from this [of 0] this [of "1 / 4"] this [of "1 / 2"] this [of "3 / 4"]
  obtain p0 p1 p2 p3 where "calculateVesselPoint params 0 v 0 0 1 t = Some p0"
    "calculateVesselPoint params (1 / 4) v 0 0 1 t = Some p1"
    "calculateVesselPoint params (1 / 2) v 0 0 1 t = Some p2"
    "calculateVesselPoint params (3 / 4) v 0 0 1 t = Some p3"
    by auto
  then have "averageRadius params t v = Some ((pr p0 + pr p1 + pr p2 + pr p3) / 4)"
    by (simp add: averageRadius_def)
  then show ?thesis by blast
qed

lemma spiralDistance_spec_defined:
  assumes "validTextureOpt t" and "1 \<le> layers params"
  shows "\<exists>d. spiralDistance_spec params t = Some d"
proof -
  have "\<exists>ws. those (map (\<lambda>i. averageRadius params t (of_int i / of_int (layers params)))
                 [0..layers params - 1]) = Some ws"
  proof (rule those_defined)
    fix i assume "i \<in> set [0..layers params - 1]"
    then have "0 \<le> real_of_int i / real_of_int (layers params)"
      "real_of_int i / real_of_int (layers params) \<le> 1"
      using assms(2) by simp_all
    then show "\<exists>w. averageRadius params t (real_of_int i / real_of_int (layers params)) = Some w"
      using averageRadius_defined [OF assms(1)] by blast
  qed
  then show ?thesis by (auto simp: spiralDistance_spec_def)
qed

lemma totalDist_defined:
  assumes "validTextureOpt t" and "1 \<le> layers params" and "1 \<le> segments params"
  shows "\<exists>d. totalDist params t = Some d"
proof -
  obtain prevP where prevP: "calculateVesselPoint params 0 0 0 0 1 t = Some prevP"
    using calculateVesselPoint_defined [OF assms(1), of 0 0 params 0 0 1] by auto
  have "\<exists>s'. forM [0..layers params] (\<lambda>i st. do {
             v \<leftarrow> jsdiv (of_int i) (of_int (layers params));
             pts \<leftarrow> ringPoints params t v;
             Some (walk pts st)
           }) (0, prevP) = Some s' \<and> True"
  proof (rule forM_total [where I = "\<lambda>_ _. True" and n = 0])
    fix i k and s :: "real \<times> SurfacePoint"
    assume "i \<in> set [0..layers params]"
    then have "0 \<le> real_of_int i / real_of_int (layers params)"
      "real_of_int i / real_of_int (layers params) \<le> 1"
      using assms(2) by simp_all
    then obtain pts where "ringPoints params t (real_of_int i / real_of_int (layers params)) = Some pts"
      using ringPoints_defined [OF assms(1,3)] by blast
    then show "\<exists>s'. do {
             v \<leftarrow> jsdiv (of_int i) (of_int (layers params));
             pts \<leftarrow> ringPoints params t v;
             Some (walk pts s)
           } = Some s' \<and> True"
      using assms(2) by simp
  qed simp
  then show ?thesis
    unfolding totalDist_refines totalDist_spec_def using prevP by auto
qed

section \<open>A degenerate rim triangle\<close>


lemma fold_pushes:
  "(\<And>x s. f x s = s @ g x) \<Longrightarrow> fold f xs s = s @ concat (map g xs)"
  by (induction xs arbitrary: s) simp_all

lemma shells_whole_triangles:
  "3 dvd length
     (fold (\<lambda>y. fold (\<lambda>x. addQuad (a y x) (b y x) (c y x) (d y x)) xs) ys
        (fold (\<lambda>y. fold (\<lambda>x. addQuad (a' y x) (b' y x) (c' y x) (d' y x)) xs) ys []))"
proof -
  have step: "3 dvd length (addQuad p1 p2 p3 p4 s)" if "3 dvd length s" for p1 p2 p3 p4 s
  proof -
    have "length (addQuad p1 p2 p3 p4 s) = length s + 3 + 3" by (simp add: addQuad_def)
    then show ?thesis using that by (metis dvd_add dvd_refl)
  qed
  have two: "3 dvd length (fold (\<lambda>y. fold (\<lambda>x. addQuad (p y x) (q y x) (r y x) (t y x)) xs) ys s)"
    if "3 dvd length s" for p q r t s
    using that
    by (intro fold_invariant [where P = "\<lambda>s. 3 dvd length s" and Q = "\<lambda>_. True"]) (auto intro: step)
  show ?thesis by (intro two) simp
qed

lemma addQuad_fun: "addQuad p1 p2 p3 p4 = (\<lambda>s. s @ [p1, p2, p3, p3, p2, p4])"
  by (rule ext) (simp add: addQuad_def)

lemma solidIndices_first_rim:
  assumes "1 \<le> segments params"
  shows "\<exists>js1 js2. solidIndices params cb =
           js1 @ (layers params * (segments params + 1)) #
                 (layers params * (segments params + 1) + 1) #
                 (gridSize params + layers params * (segments params + 1)) # js2 \<and>
           3 dvd length js1"
proof -
  let ?S = "segments params" and ?L = "layers params"
  let ?V = "?S + 1"
  let ?N = "(?L + 1) * ?V"
  let ?shells = "fold (\<lambda>y. fold (\<lambda>x. addQuad (?N + y * ?V + x + 1) (?N + (y + 1) * ?V + x + 1)
                                              (?N + y * ?V + x) (?N + (y + 1) * ?V + x))
                         [0..?S - 1]) [0..?L - 1]
                  (fold (\<lambda>y. fold (\<lambda>x. addQuad (y * ?V + x) ((y + 1) * ?V + x)
                                              (y * ?V + x + 1) ((y + 1) * ?V + x + 1))
                         [0..?S - 1]) [0..?L - 1] [])"
  let ?rim = "\<lambda>x. [?L * ?V + x, ?L * ?V + x + 1, ?N + ?L * ?V + x,
                    ?N + ?L * ?V + x, ?L * ?V + x + 1, ?N + ?L * ?V + x + 1]"
  let ?fan1 = "\<lambda>x. [cb, 0 + x + 1, 0 + x]"
  let ?fan2 = "\<lambda>x. [cb + 1, ?N + x, ?N + x + 1]"
  have xs: "[0..?S - 1] = 0 # [1..?S - 1]" using assms by (simp add: upto_rec1)
  have "solidIndices params cb =
          fold (\<lambda>x s. s @ ?fan2 x) [0..?S - 1]
            (fold (\<lambda>x s. s @ ?fan1 x) [0..?S - 1]
              (fold (\<lambda>x s. s @ ?rim x) [0..?S - 1] ?shells))"
    by (simp add: solidIndices_def Let_def addQuad_fun [of "_ * _ + _"] addQuad_fun [of "_ + _"])
  also have "\<dots> = ((?shells @ concat (map ?rim [0..?S - 1])) @ concat (map ?fan1 [0..?S - 1]))
                    @ concat (map ?fan2 [0..?S - 1])"
    by (simp only: fold_push)
  also have "concat (map ?rim [0..?S - 1]) = ?rim 0 @ concat (map ?rim [1..?S - 1])"
    by (simp only: xs list.map concat.simps)
  finally have "solidIndices params cb =
      ?shells @ (?L * ?V) # (?L * ?V + 1) # (?N + ?L * ?V) #
        ([?N + ?L * ?V, ?L * ?V + 0 + 1, ?N + ?L * ?V + 0 + 1] @ concat (map ?rim [1..?S - 1])
          @ concat (map ?fan1 [0..?S - 1]) @ concat (map ?fan2 [0..?S - 1]))"
    by simp
  moreover have "3 dvd length ?shells" by (rule shells_whole_triangles)
  ultimately show ?thesis unfolding gridSize_def by blast
qed



section \<open>The floor fans\<close>

lemma idxOK_append: "idxOK M s \<Longrightarrow> idxOK M s' \<Longrightarrow> idxOK M (s @ s')"
  by (auto simp: idxOK_def)

lemma idxOK_concat: "(\<And>x. x \<in> set xs \<Longrightarrow> idxOK M (g x)) \<Longrightarrow> idxOK M (concat (map g xs))"
  by (induction xs) (auto simp: idxOK_Nil intro: idxOK_append)

lemma solidIndices_fans:
  assumes L: "0 \<le> layers params"
  shows "\<exists>js. solidIndices params cb =
           js @ concat (map (\<lambda>x. [cb, x + 1, x]) [0..segments params - 1]) @
                concat (map (\<lambda>x. [cb + 1, gridSize params + x, gridSize params + x + 1])
                          [0..segments params - 1]) \<and>
           idxOK (2 * gridSize params) js"
proof -
  let ?S = "segments params" and ?L = "layers params"
  let ?V = "?S + 1"
  let ?N = "(?L + 1) * ?V"
  let ?outer = "fold (\<lambda>y. fold (\<lambda>x. addQuad (y * ?V + x) ((y + 1) * ?V + x)
                                              (y * ?V + x + 1) ((y + 1) * ?V + x + 1))
                         [0..?S - 1]) [0..?L - 1] []"
  let ?shells = "fold (\<lambda>y. fold (\<lambda>x. addQuad (?N + y * ?V + x + 1) (?N + (y + 1) * ?V + x + 1)
                                              (?N + y * ?V + x) (?N + (y + 1) * ?V + x))
                         [0..?S - 1]) [0..?L - 1] ?outer"
  let ?rim = "\<lambda>x. [?L * ?V + x, ?L * ?V + x + 1, ?N + ?L * ?V + x,
                    ?N + ?L * ?V + x, ?L * ?V + x + 1, ?N + ?L * ?V + x + 1]"
  let ?fan1 = "\<lambda>x. [cb, x + 1, x]"
  let ?fan2 = "\<lambda>x. [cb + 1, ?N + x, ?N + x + 1]"
  have "solidIndices params cb =
          fold (\<lambda>x s. s @ ?fan2 x) [0..?S - 1]
            (fold (\<lambda>x s. s @ ?fan1 x) [0..?S - 1]
              (fold (\<lambda>x s. s @ ?rim x) [0..?S - 1] ?shells))"
    by (simp add: solidIndices_def Let_def addQuad_fun)
  also have "\<dots> = ((?shells @ concat (map ?rim [0..?S - 1])) @ concat (map ?fan1 [0..?S - 1]))
                    @ concat (map ?fan2 [0..?S - 1])"
    by (simp only: fold_push)
  finally have eq: "solidIndices params cb =
      (?shells @ concat (map ?rim [0..?S - 1])) @ concat (map ?fan1 [0..?S - 1])
        @ concat (map ?fan2 [0..?S - 1])"
    by simp
  have outer: "idxOK (2 * ?N) ?outer"
  proof (rule idxOK_fold2 [OF idxOK_Nil])
    fix y x s
    assume "y \<in> set [0..?L - 1]" "x \<in> set [0..?S - 1]" and s: "idxOK (2 * ?N) s"
    then have y: "0 \<le> y" "y < ?L" and x: "0 \<le> x" "x < ?S" by auto
    note c = cell_corners [OF y x]
    show "idxOK (2 * ?N) (addQuad (y * ?V + x) ((y + 1) * ?V + x)
                             (y * ?V + x + 1) ((y + 1) * ?V + x + 1) s)"
      using s c by (intro idxOK_addQuad) auto
  qed
  have shells: "idxOK (2 * ?N) ?shells"
  proof (rule idxOK_fold2 [OF outer])
    fix y x s
    assume "y \<in> set [0..?L - 1]" "x \<in> set [0..?S - 1]" and s: "idxOK (2 * ?N) s"
    then have y: "0 \<le> y" "y < ?L" and x: "0 \<le> x" "x < ?S" by auto
    note c = cell_corners [OF y x]
    show "idxOK (2 * ?N) (addQuad (?N + y * ?V + x + 1) (?N + (y + 1) * ?V + x + 1)
                             (?N + y * ?V + x) (?N + (y + 1) * ?V + x) s)"
      using s c by (intro idxOK_addQuad) auto
  qed
  have rims: "idxOK (2 * ?N) (concat (map ?rim [0..?S - 1]))"
  proof (rule idxOK_concat)
    fix x assume "x \<in> set [0..?S - 1]"
    then have x: "0 \<le> x" "x < ?S" by auto
    note c = top_row [OF L x]
    have "idxOK (2 * ?N) (([] @ [?L * ?V + x, ?L * ?V + x + 1, ?N + ?L * ?V + x]) @
                          [?N + ?L * ?V + x, ?L * ?V + x + 1, ?N + ?L * ?V + x + 1])"
      using c by (intro idxOK_push3 idxOK_Nil) auto
    then show "idxOK (2 * ?N) (?rim x)" by simp
  qed
  have "idxOK (2 * ?N) (?shells @ concat (map ?rim [0..?S - 1]))"
    using shells rims by (rule idxOK_append)
  then show ?thesis unfolding gridSize_def using eq by blast
qed

section \<open>Textures that cover their grid\<close>

lemma calculateVesselPoint_covered:
  assumes "textureCovered params textureData" "0 \<le> u" "0 \<le> v" "v \<le> 1"
  shows "\<exists>p. calculateVesselPoint params u v radiusOffset heightOffset heightScale textureData = Some p"
proof (cases textureData)
  case None
  then show ?thesis by (simp add: calculateVesselPoint_noTexture)
next
  case (Some t)
  show ?thesis
  proof (cases "textureInfluence params \<le> 0")
    case True
    then show ?thesis using Some by (simp add: calculateVesselPoint_def Let_def)
  next
    case False
    with assms(1) Some have "1 \<le> width t" "1 \<le> TextureData.height t"
      "width t * TextureData.height t \<le> int (length (data t))"
      by (simp_all add: textureCovered_def)
    then obtain val where "sampleTexture t u v = Some val"
      using sampleTexture_defined assms(2-4) by blast
    then show ?thesis using Some by (simp add: calculateVesselPoint_def Let_def)
  qed
qed

section \<open>Configurations without a positive layer or segment count\<close>

lemma forM_skip: "(\<And>i s. i \<in> set xs \<Longrightarrow> body i s = Some s) \<Longrightarrow> forM xs body s = Some s"
  by (induction xs) simp_all

lemma shellVertices_no_nodes:
  assumes "layers params < 0 \<or> segments params < 0"
  shows "shellVertices params t ro ho hs vs0 = Some vs0"
proof (cases "layers params < 0")
  case True
  then show ?thesis by (simp add: shellVertices_def)
next
  case False
  with assms have "segments params < 0" by simp
  then show ?thesis unfolding shellVertices_def Let_def by (intro forM_skip) simp
qed

lemma shellVertices_undefined:
  assumes "0 \<le> layers params" "0 \<le> segments params" "layers params = 0 \<or> segments params = 0"
  shows "shellVertices params t ro ho hs vs0 = None"
proof -
  have L: "[0..layers params] = 0 # [1..layers params]" using assms(1) by (simp add: upto_rec1)
  have S: "[0..segments params] = 0 # [1..segments params]" using assms(2) by (simp add: upto_rec1)
  have "jsdiv 0 (of_int (segments params)) = None \<or> jsdiv 0 (of_int (layers params)) = None"
    using assms(3) by (auto simp: jsdiv_def)
  then show ?thesis unfolding shellVertices_def L S by (auto simp: Let_def split: Option.bind_split)
qed

lemma fold_fold_empty: "fold (\<lambda>y. fold (f y) []) ys s = s"
  by (induction ys arbitrary: s) simp_all

lemma fold_ids: "fold (\<lambda>y. id) ys s = s"
  by (induction ys arbitrary: s) simp_all

lemma vaseIndices_no_cells:
  "layers params \<le> 0 \<or> segments params \<le> 0 \<Longrightarrow> vaseIndices params = []"
  unfolding vaseIndices_def by (auto simp: fold_ids)

lemma solidIndices_no_segments:
  "segments params \<le> 0 \<Longrightarrow> solidIndices params cb = []"
  unfolding solidIndices_def by (simp add: fold_ids Let_def)

lemma mesh_no_nodes:
  assumes "layers params < 0 \<or> segments params < 0"
  shows "generateVesselMesh params t =
           Some (if wallThickness params \<le> 0 then \<lparr> vertices = [], indices = [] \<rparr>
                 else \<lparr> vertices = [0, 0, 0, 0, wallThickness params, 0],
                        indices = solidIndices params 0 \<rparr>)"
proof -
  have "vaseIndices params = []" using assms by (intro vaseIndices_no_cells) auto
  then show ?thesis
    by (simp add: generateVesselMesh_def shellVertices_no_nodes [OF assms] Let_def)
qed

lemma mesh_undefined:
  assumes "0 \<le> layers params" "0 \<le> segments params" "layers params = 0 \<or> segments params = 0"
  shows "generateVesselMesh params t = None"
  by (simp add: generateVesselMesh_def shellVertices_undefined [OF assms])

lemma calculateVesselPoint_segments:
  "calculateVesselPoint (params\<lparr>segments := s\<rparr>) = calculateVesselPoint params"
  by (intro ext) (simp add: calculateVesselPoint_def Let_def split: option.splits)

lemma spiralDist_segments: "spiralDist (params\<lparr>segments := s\<rparr>) t = spiralDist params t"
  by (simp add: spiralDist_def calculateVesselPoint_segments)

lemma calculatePrintStats_segments:
  "calculatePrintStats (params\<lparr>segments := s\<rparr>) t = calculatePrintStats params t"
  by (simp add: calculatePrintStats_def spiralDist_segments Let_def)

lemma stats_zero_layers: "layers params = 0 \<Longrightarrow> calculatePrintStats params t = None"
  by (simp add: calculatePrintStats_def jsdiv_def)

lemma stats_negative_layers:
  assumes "layers params < 0"
  shows "calculatePrintStats params t =
           (if filamentDiameter params = 0 \<or> printSpeed params = 0 then None
            else Some \<lparr> estimatedTime = 0, filamentLength = 0, filamentWeight = 0,
                        layerHeight = height params / of_int (layers params),
                        totalLayers = layers params \<rparr>)"
proof -
  have "spiralDist params t = Some 0" using assms by (simp add: spiralDist_def)
  then show ?thesis
    using assms by (auto simp: calculatePrintStats_def Let_def jsdiv_def)
qed

lemma stats_defined:
  assumes "1 \<le> layers params" and "validTextureOpt t"
    and "filamentDiameter params \<noteq> 0" and "printSpeed params \<noteq> 0"
  shows "\<exists>s d. calculatePrintStats params t = Some s \<and> spiralDistance_spec params t = Some d \<and>
           estimatedTime s = d / printSpeed params"
proof -
  obtain d where d: "spiralDistance_spec params t = Some d"
    using spiralDistance_spec_defined [OF assms(2,1)] by blast
  then have sd: "spiralDist params t = Some d"
    using spiralDist_refines [of params t] assms(1) by simp
  show ?thesis
    using assms(1,3,4) d by (simp add: calculatePrintStats_def sd Let_def jsdiv_def)
qed

lemma gcode_zero_layers: "layers params = 0 \<Longrightarrow> exportGCODE params t = None"
  by (simp add: exportGCODE_def jsdiv_def)

lemma gcode_no_steps:
  assumes "layers params \<noteq> 0" and "layers params * segments params \<le> 0"
  shows "exportGCODE params t =
           map_option (\<lambda>start. getHeader params (height params / of_int (layers params)) @
                        [G0 (toFixed 3 (px start)) (toFixed 3 (pz start))
                            (toFixed 3 (height params / of_int (layers params))) (printSpeed params)] @
                        footer params)
             (calculateVesselPoint params 0 0 0 0 1 t)"
proof -
  have "[1..layers params * segments params] = []" using assms(2) by simp
  then show ?thesis
    using assms(1)
    by (cases "calculateVesselPoint params 0 0 0 0 1 t")
       (simp_all add: exportGCODE_def Let_def footer_def)
qed

lemma gcode_no_filament:
  assumes "1 \<le> layers params * segments params" and "filamentDiameter params = 0"
  shows "exportGCODE params t = None"
proof -
  have T: "[1..layers params * segments params] = 1 # [2..layers params * segments params]"
    using assms(1) by (simp add: upto_rec1)
  show ?thesis
    unfolding exportGCODE_def Let_def T
    by (simp add: assms(2) jsdiv_def split: Option.bind_split)
qed

lemma forM_invariant:
  assumes "forM xs body s = Some s'" and "I n s"
    and "\<And>i k s s'. i \<in> set xs \<Longrightarrow> I k s \<Longrightarrow> body i s = Some s' \<Longrightarrow> I (Suc k) s'"
  shows "I (n + length xs) s'"
  using assms
proof (induction xs arbitrary: n s)
  case Nil
  then show ?case by simp
next
  case (Cons i xs)
  from Cons.prems(1) obtain s1 where s1: "body i s = Some s1" "forM xs body s1 = Some s'"
    by (auto split: option.splits)
  have "I (Suc n) s1" using Cons.prems(2,3) s1(1) by auto
  from Cons.IH [OF s1(2) this] Cons.prems(3) show ?case by auto
qed

lemma spiralStep_line:
  assumes "spiralStep params t e T i (cE, pX, pY, pZ, g) = Some st'"
  shows "\<exists>cE' x y z a b c d. st' = (cE', x, y, z, g @ [G1 a b c d])"
  using assms by (auto simp: spiralStep_def Let_def bind_eq_Some_conv)

lemma gcode_step_count:
  assumes "exportGCODE params t = Some prog"
  shows "length (emittedE prog) = nat (layers params * segments params)"
proof -
  let ?T = "layers params * segments params"
  let ?e = "jsdiv (nozzleDiameter params * (height params / of_int (layers params)))
              (pi * (filamentDiameter params / 2) ^ 2)"
  let ?body = "\<lambda>lh i st. do { ePerMM \<leftarrow> jsdiv (nozzleDiameter params * lh)
                                   (pi * (filamentDiameter params / 2) ^ 2);
                       spiralStep params t ePerMM ?T i st }"
  from assms obtain lh where lh: "jsdiv (height params) (of_int (layers params)) = Some lh"
    by (cases "jsdiv (height params) (of_int (layers params))") (auto simp: exportGCODE_def)
  from assms obtain start where start: "calculateVesselPoint params 0 0 0 0 1 t = Some start"
    by (cases "calculateVesselPoint params 0 0 0 0 1 t") (auto simp: exportGCODE_def lh Let_def)
  let ?s0 = "(0::real, px start, pz start, lh,
              getHeader params lh @ [G0 (toFixed 3 (px start)) (toFixed 3 (pz start))
                                       (toFixed 3 lh) (printSpeed params)])"
  from assms obtain cE pX pY pZ g where
    loop: "forM [1..?T] (?body lh) ?s0 = Some (cE, pX, pY, pZ, g)"
    and prog: "prog = g @ footer params"
    by (cases "forM [1..?T] (?body lh) ?s0")
       (auto simp: exportGCODE_def lh start Let_def footer_def)
  let ?I = "\<lambda>k (st :: real \<times> real \<times> real \<times> real \<times> GLine list).
              length (emittedE (snd (snd (snd (snd st))))) = k"
  have "?I (0 + length [1..?T]) (cE, pX, pY, pZ, g)"
  proof (rule forM_invariant [OF loop, where I = ?I])
    show "?I 0 (0, px start, pz start, lh,
              getHeader params lh @ [G0 (toFixed 3 (px start)) (toFixed 3 (pz start))
                                       (toFixed 3 lh) (printSpeed params)])"
      by (simp add: emittedE_append emittedE_getHeader) (simp add: emittedE_def map_filter_def)
  next
    fix i k and st st' :: "real \<times> real \<times> real \<times> real \<times> GLine list"
    assume inv: "?I k st" and step: "?body lh i st = Some st'"
    obtain cE0 pX0 pY0 pZ0 g0 where st: "st = (cE0, pX0, pY0, pZ0, g0)" by (cases st) auto
    from step obtain e where e: "spiralStep params t e ?T i st = Some st'"
      by (auto simp: bind_eq_Some_conv)
    from spiralStep_line [OF e [unfolded st]]
    obtain cE' x y z a b c d where "st' = (cE', x, y, z, g0 @ [G1 a b c d])"
      by blast
    then show "?I (Suc k) st'"
      using inv by (simp add: st emittedE_append) (simp add: emittedE_def map_filter_def)
  qed
  then have "length (emittedE g) = nat ?T" by simp
  moreover have "emittedE (footer params) = []"
    by (simp add: emittedE_def map_filter_def footer_def)
  ultimately show ?thesis by (simp add: prog emittedE_append)
qed

lemma calculateVesselPoint_untextured:
  assumes "t = None \<or> textureInfluence params \<le> 0"
  shows "\<exists>p. calculateVesselPoint params u v ro ho hs t = Some p"
  using assms by (cases t) (auto simp: calculateVesselPoint_def Let_def)

lemma gcode_steps_defined:
  assumes "1 \<le> layers params * segments params" and "filamentDiameter params \<noteq> 0"
    and "t = None \<or> textureInfluence params \<le> 0"
  shows "\<exists>prog. exportGCODE params t = Some prog"
proof -
  let ?T = "layers params * segments params"
  let ?lh = "height params / of_int (layers params)"
  have L: "layers params \<noteq> 0" and S: "segments params \<noteq> 0" using assms(1) by auto
  obtain start where start: "calculateVesselPoint params 0 0 0 0 1 t = Some start"
    using calculateVesselPoint_untextured [OF assms(3)] by blast
  let ?body = "\<lambda>i st. do { ePerMM \<leftarrow> jsdiv (nozzleDiameter params * ?lh)
                                   (pi * (filamentDiameter params / 2) ^ 2);
                       spiralStep params t ePerMM ?T i st }"
  let ?s0 = "(0::real, px start, pz start, ?lh,
              getHeader params ?lh @ [G0 (toFixed 3 (px start)) (toFixed 3 (pz start))
                                       (toFixed 3 ?lh) (printSpeed params)])"
  have "\<exists>s'. forM [1..?T] ?body ?s0 = Some s' \<and> True"
  proof (rule forM_total [where I = "\<lambda>_ _. True" and n = 0])
    fix i k and st :: "real \<times> real \<times> real \<times> real \<times> GLine list"
    assume "i \<in> set [1..?T]"
    obtain cE0 pX0 pY0 pZ0 g0 where st: "st = (cE0, pX0, pY0, pZ0, g0)" by (cases st) auto
    obtain p where "calculateVesselPoint params (of_int i / of_int (segments params))
        (of_int i / of_int ?T) 0 0 1 t = Some p"
      using calculateVesselPoint_untextured [OF assms(3)] by blast
    then show "\<exists>s'. ?body i st = Some s' \<and> True"
      using assms(2) L S by (simp add: spiralStep_def st Let_def jsdiv_def)
  qed simp
  then obtain cE pX pY pZ g where "forM [1..?T] ?body ?s0 = Some (cE, pX, pY, pZ, g)"
    by (metis prod_cases5)
  then show ?thesis
    using L start by (simp add: exportGCODE_def Let_def)
qed

lemma solidIndices_negative_entry:
  assumes "layers params < 0" and "1 \<le> segments params"
  shows "layers params * (segments params + 1) \<in> set (solidIndices params cb)"
    and "layers params * (segments params + 1) < 0"
proof -
  show "layers params * (segments params + 1) \<in> set (solidIndices params cb)"
    using solidIndices_first_rim [OF assms(2), of cb] by auto
  have "0 < segments params + 1" using assms(2) by simp
  then show "layers params * (segments params + 1) < 0"
    using assms(1) by (simp add: mult_neg_pos)
qed

section \<open>The claims\<close>

subsection \<open>C1\<close>

text \<open>
  Claim C1 as stated fails. With \<open>layers = - 1\<close> (all other fields as in
  \<^verbatim>\<open>INITIAL_PARAMS\<close>) none of the three functions fails: each returns a result. The
  mesh that comes back has the two floor apex vertices as its only vertices, with the
  index buffer that steps 3 to 6 push for them; the statistics are zero time, length
  and weight with a layer height of \<open>- 150\<close>; and the program is the header, the footer,
  and between them the move to the surface point of \<open>(u, v) = (0, 0)\<close>,
  \<^verbatim>\<open>G0 X40.000 Y0.000 Z-150.000 F1200\<close>.
\<close>

theorem no_configuration_error_counterexample:
  "generateVesselMesh negativeLayers None =
     Some \<lparr> vertices = [0, 0, 0, 0, 2, 0], indices = solidIndices negativeLayers 0 \<rparr> \<and>
   calculatePrintStats negativeLayers None =
     Some \<lparr> estimatedTime = 0, filamentLength = 0, filamentWeight = 0,
            layerHeight = - 150, totalLayers = - 1 \<rparr> \<and>
   exportGCODE negativeLayers None =
     Some (getHeader negativeLayers (- 150) @ [G0 40 0 (- 150) 1200] @ footer negativeLayers)"
proof -
  have f: "layers negativeLayers < 0" "layers negativeLayers \<noteq> 0"
    "layers negativeLayers * segments negativeLayers \<le> 0"
    by (simp_all add: negativeLayers_def INITIAL_PARAMS_def)
  have start: "calculateVesselPoint negativeLayers 0 0 0 0 1 None =
                 Some \<lparr> px = 40, py = 0, pz = 0, pr = 40 \<rparr>"
    by (simp add: calculateVesselPoint_noTexture negativeLayers_def INITIAL_PARAMS_def)
  have "generateVesselMesh negativeLayers None =
     Some \<lparr> vertices = [0, 0, 0, 0, 2, 0], indices = solidIndices negativeLayers 0 \<rparr>"
    using mesh_no_nodes [of negativeLayers None] f(1)
    by (simp add: negativeLayers_def INITIAL_PARAMS_def)
  moreover have "calculatePrintStats negativeLayers None =
     Some \<lparr> estimatedTime = 0, filamentLength = 0, filamentWeight = 0,
            layerHeight = - 150, totalLayers = - 1 \<rparr>"
    using stats_negative_layers [OF f(1), of None]
    by (simp add: negativeLayers_def INITIAL_PARAMS_def)
  moreover have "exportGCODE negativeLayers None =
     Some (getHeader negativeLayers (- 150) @ [G0 40 0 (- 150) 1200] @ footer negativeLayers)"
    using gcode_no_steps [OF f(2,3), of None]
    by (simp add: start) (simp add: negativeLayers_def INITIAL_PARAMS_def toFixed_def)
  ultimately show ?thesis by simp
qed

text \<open>
  Claim C1, amended. For every configuration with \<open>layers \<le> 0\<close> or \<open>segments \<le> 0\<close>, and
  with any texture or none, none of the three functions fails: each returns what its
  loops compute. Where the result below is \<open>None\<close>, what the function returns holds a
  number that is not finite.

  \<^verbatim>\<open>generateVesselMesh\<close>. When \<open>layers < 0\<close> or \<open>segments < 0\<close> the mesh has no grid
  vertex: in vase mode it has no vertices and no indices; in solid mode its vertices
  are the two floor apexes \<open>(0, 0, 0)\<close> and \<open>(0, wallThickness, 0)\<close> and its indices are
  those that steps 3 to 6 push with \<open>centerBottomIndex = 0\<close>. These are none when
  \<open>segments \<le> 0\<close>; when \<open>layers < 0\<close> and \<open>segments \<ge> 1\<close> they are the rim and the fan
  triangles, which address vertices that do not exist, the negative index
  \<open>layers * (segments + 1)\<close> among them. In the remaining cases (\<open>layers = 0\<close> or
  \<open>segments = 0\<close>, neither negative) the vertex buffer is not finite: the height
  fraction or the angle fraction of its first grid node is \<open>0 / 0\<close>.

  \<^verbatim>\<open>calculatePrintStats\<close>. No field of the result depends on \<open>segments\<close>. When
  \<open>layers = 0\<close> the layer height \<open>height / 0\<close> is not finite. When \<open>layers < 0\<close> the time,
  the filament length and the weight are 0 and the layer height is \<open>height / layers\<close>,
  unless the filament diameter or the print speed is 0, when the quotient \<open>0 / 0\<close> is not
  finite. When \<open>layers \<ge> 1\<close> (so \<open>segments \<le> 0\<close>), with no texture or a texture that
  satisfies its invariant and with a filament diameter and a print speed other than 0,
  the estimate is returned, and its time is the spiral distance over the print speed.

  \<^verbatim>\<open>exportGCODE\<close>. When \<open>layers = 0\<close> the layer height written in the header is not
  finite. When \<open>layers \<noteq> 0\<close> and \<open>layers * segments \<le> 0\<close> the program is the header, the
  move \<^verbatim>\<open>G0\<close> to the surface point of \<open>(u, v) = (0, 0)\<close> and the footer, provided that
  point is finite, which it is with no texture or a texture that satisfies its
  invariant. When both counts are negative the program is not finite if the filament
  diameter is 0, and it is returned if the filament diameter is not 0 and no texture is
  sampled (there is no texture, or \<open>textureInfluence \<le> 0\<close>). Every program that is
  returned has \<open>layers * segments\<close> step lines, none when that product is not positive.
\<close>

theorem malformed_configuration_results:
  assumes "layers params \<le> 0 \<or> segments params \<le> 0"
  shows "generateVesselMesh params textureData =
           (if layers params < 0 \<or> segments params < 0
            then Some (if wallThickness params \<le> 0 then \<lparr> vertices = [], indices = [] \<rparr>
                       else \<lparr> vertices = [0, 0, 0, 0, wallThickness params, 0],
                              indices = solidIndices params 0 \<rparr>)
            else None) \<and>
         (segments params \<le> 0 \<longrightarrow> solidIndices params 0 = []) \<and>
         (layers params < 0 \<and> 1 \<le> segments params \<longrightarrow>
            layers params * (segments params + 1) \<in> set (solidIndices params 0) \<and>
            layers params * (segments params + 1) < 0) \<and>
         (\<forall>s. calculatePrintStats (params\<lparr>segments := s\<rparr>) textureData =
              calculatePrintStats params textureData) \<and>
         (layers params = 0 \<longrightarrow> calculatePrintStats params textureData = None) \<and>
         (layers params < 0 \<longrightarrow>
            calculatePrintStats params textureData =
              (if filamentDiameter params = 0 \<or> printSpeed params = 0 then None
               else Some \<lparr> estimatedTime = 0, filamentLength = 0, filamentWeight = 0,
                           layerHeight = height params / of_int (layers params),
                           totalLayers = layers params \<rparr>)) \<and>
         (1 \<le> layers params \<and> validTextureOpt textureData \<and>
          filamentDiameter params \<noteq> 0 \<and> printSpeed params \<noteq> 0 \<longrightarrow>
            (\<exists>s d. calculatePrintStats params textureData = Some s \<and>
                   spiralDistance_spec params textureData = Some d \<and>
                   estimatedTime s = d / printSpeed params)) \<and>
         (layers params = 0 \<longrightarrow> exportGCODE params textureData = None) \<and>
         (layers params \<noteq> 0 \<and> layers params * segments params \<le> 0 \<longrightarrow>
            exportGCODE params textureData =
              map_option
                (\<lambda>start. getHeader params (height params / of_int (layers params)) @
                   [G0 (toFixed 3 (px start)) (toFixed 3 (pz start))
                       (toFixed 3 (height params / of_int (layers params))) (printSpeed params)] @
                   footer params)
                (calculateVesselPoint params 0 0 0 0 1 textureData)) \<and>
         (validTextureOpt textureData \<longrightarrow>
            (\<exists>start. calculateVesselPoint params 0 0 0 0 1 textureData = Some start)) \<and>
         (layers params < 0 \<and> segments params < 0 \<and> filamentDiameter params = 0 \<longrightarrow>
            exportGCODE params textureData = None) \<and>
         (layers params < 0 \<and> segments params < 0 \<and> filamentDiameter params \<noteq> 0 \<and>
          (textureData = None \<or> textureInfluence params \<le> 0) \<longrightarrow>
            (\<exists>prog. exportGCODE params textureData = Some prog)) \<and>
         (\<forall>prog. exportGCODE params textureData = Some prog \<longrightarrow>
            length (emittedE prog) = nat (layers params * segments params))"
proof -
  have mesh: "generateVesselMesh params textureData =
           (if layers params < 0 \<or> segments params < 0
            then Some (if wallThickness params \<le> 0 then \<lparr> vertices = [], indices = [] \<rparr>
                       else \<lparr> vertices = [0, 0, 0, 0, wallThickness params, 0],
                              indices = solidIndices params 0 \<rparr>)
            else None)"
  proof (cases "layers params < 0 \<or> segments params < 0")
    case True
    then show ?thesis using mesh_no_nodes [OF True] by simp
  next
    case False
    then have "0 \<le> layers params" "0 \<le> segments params"
      "layers params = 0 \<or> segments params = 0"
      using assms by auto
    then show ?thesis using False mesh_undefined by simp
  qed
  have both: "1 \<le> layers params * segments params"
    if "layers params < 0" "segments params < 0"
  proof -
    have "0 < layers params * segments params" using that by (rule mult_neg_neg)
    then show ?thesis by simp
  qed
  have point: "\<exists>start. calculateVesselPoint params 0 0 0 0 1 textureData = Some start"
    if "validTextureOpt textureData"
    using calculateVesselPoint_defined [OF that, of 0 0 params 0 0 1] by simp
  have c2: "segments params \<le> 0 \<longrightarrow> solidIndices params 0 = []"
    using solidIndices_no_segments by blast
  have c3: "layers params < 0 \<and> 1 \<le> segments params \<longrightarrow>
            layers params * (segments params + 1) \<in> set (solidIndices params 0) \<and>
            layers params * (segments params + 1) < 0"
    using solidIndices_negative_entry by blast
  have c4: "\<forall>s. calculatePrintStats (params\<lparr>segments := s\<rparr>) textureData =
              calculatePrintStats params textureData"
    by (simp add: calculatePrintStats_segments)
  have c5: "layers params = 0 \<longrightarrow> calculatePrintStats params textureData = None"
    using stats_zero_layers by blast
  have c6: "layers params < 0 \<longrightarrow>
            calculatePrintStats params textureData =
              (if filamentDiameter params = 0 \<or> printSpeed params = 0 then None
               else Some \<lparr> estimatedTime = 0, filamentLength = 0, filamentWeight = 0,
                           layerHeight = height params / of_int (layers params),
                           totalLayers = layers params \<rparr>)"
    using stats_negative_layers by blast
  have c7: "1 \<le> layers params \<and> validTextureOpt textureData \<and>
          filamentDiameter params \<noteq> 0 \<and> printSpeed params \<noteq> 0 \<longrightarrow>
            (\<exists>s d. calculatePrintStats params textureData = Some s \<and>
                   spiralDistance_spec params textureData = Some d \<and>
                   estimatedTime s = d / printSpeed params)"
    using stats_defined by blast
  have c8: "layers params = 0 \<longrightarrow> exportGCODE params textureData = None"
    using gcode_zero_layers by blast
  have c9: "layers params \<noteq> 0 \<and> layers params * segments params \<le> 0 \<longrightarrow>
            exportGCODE params textureData =
              map_option
                (\<lambda>start. getHeader params (height params / of_int (layers params)) @
                   [G0 (toFixed 3 (px start)) (toFixed 3 (pz start))
                       (toFixed 3 (height params / of_int (layers params))) (printSpeed params)] @
                   footer params)
                (calculateVesselPoint params 0 0 0 0 1 textureData)"
    using gcode_no_steps by blast
  have c10: "validTextureOpt textureData \<longrightarrow>
            (\<exists>start. calculateVesselPoint params 0 0 0 0 1 textureData = Some start)"
    using point by blast
  have c11: "layers params < 0 \<and> segments params < 0 \<and> filamentDiameter params = 0 \<longrightarrow>
            exportGCODE params textureData = None"
    using gcode_no_filament both by blast
  have c12: "layers params < 0 \<and> segments params < 0 \<and> filamentDiameter params \<noteq> 0 \<and>
          (textureData = None \<or> textureInfluence params \<le> 0) \<longrightarrow>
            (\<exists>prog. exportGCODE params textureData = Some prog)"
    using gcode_steps_defined both by blast
  have c13: "\<forall>prog. exportGCODE params textureData = Some prog \<longrightarrow>
            length (emittedE prog) = nat (layers params * segments params)"
    using gcode_step_count by blast
  show ?thesis
    by (intro conjI) (rule mesh c2 c3 c4 c5 c6 c7 c8 c9 c10 c11 c12 c13)+
qed

theorem malformed_configuration_results_witness:
  "(layers negativeLayers \<le> 0 \<or> segments negativeLayers \<le> 0) \<and>
   generateVesselMesh negativeLayers (Some texture2x2) =
     Some \<lparr> vertices = [0, 0, 0, 0, 2, 0], indices = solidIndices negativeLayers 0 \<rparr> \<and>
   - 121 \<in> set (solidIndices negativeLayers 0) \<and>
   calculatePrintStats negativeLayers (Some texture2x2) =
     Some \<lparr> estimatedTime = 0, filamentLength = 0, filamentWeight = 0,
            layerHeight = - 150, totalLayers = - 1 \<rparr> \<and>
   (\<exists>start. calculateVesselPoint negativeLayers 0 0 0 0 1 (Some texture2x2) = Some start \<and>
      exportGCODE negativeLayers (Some texture2x2) =
        Some (getHeader negativeLayers (- 150) @
              [G0 (toFixed 3 (px start)) (toFixed 3 (pz start)) (- 150) 1200] @
              footer negativeLayers)) \<and>
   generateVesselMesh (INITIAL_PARAMS \<lparr> layers := 0 \<rparr>) None = None \<and>
   calculatePrintStats (INITIAL_PARAMS \<lparr> layers := 0 \<rparr>) None = None \<and>
   exportGCODE (INITIAL_PARAMS \<lparr> layers := 0 \<rparr>) None = None \<and>
   generateVesselMesh (INITIAL_PARAMS \<lparr> segments := 0 \<rparr>) None = None \<and>
   calculatePrintStats (INITIAL_PARAMS \<lparr> segments := 0 \<rparr>) None =
     calculatePrintStats INITIAL_PARAMS None \<and>
   exportGCODE (INITIAL_PARAMS \<lparr> segments := 0 \<rparr>) None =
     Some (getHeader (INITIAL_PARAMS \<lparr> segments := 0 \<rparr>) 1 @ [G0 40 0 1 1200] @
           footer (INITIAL_PARAMS \<lparr> segments := 0 \<rparr>)) \<and>
   generateVesselMesh (INITIAL_PARAMS \<lparr> layers := - 1, segments := - 2 \<rparr>) None =
     Some \<lparr> vertices = [0, 0, 0, 0, 2, 0], indices = [] \<rparr> \<and>
   (\<exists>prog. exportGCODE (INITIAL_PARAMS \<lparr> layers := - 1, segments := - 2 \<rparr>) None = Some prog \<and>
           length (emittedE prog) = 2)"
proof -
  have t: "validTextureOpt (Some texture2x2)"
    by (simp add: validTextureOpt_def validTexture_def texture2x2_def)
  have z: "toFixed 3 (- 150) = - 150" "toFixed 3 1 = 1" "toFixed 3 40 = 40" "toFixed 3 0 = 0"
    by (simp_all add: toFixed_def)
  note a = malformed_configuration_results [of negativeLayers "Some texture2x2"]
  note b = malformed_configuration_results [of "INITIAL_PARAMS \<lparr> layers := 0 \<rparr>" None]
  note c = malformed_configuration_results [of "INITIAL_PARAMS \<lparr> segments := 0 \<rparr>" None]
  note d = malformed_configuration_results
             [of "INITIAL_PARAMS \<lparr> layers := - 1, segments := - 2 \<rparr>" None]
  have A: "(layers negativeLayers \<le> 0 \<or> segments negativeLayers \<le> 0) \<and>
   generateVesselMesh negativeLayers (Some texture2x2) =
     Some \<lparr> vertices = [0, 0, 0, 0, 2, 0], indices = solidIndices negativeLayers 0 \<rparr> \<and>
   - 121 \<in> set (solidIndices negativeLayers 0) \<and>
   calculatePrintStats negativeLayers (Some texture2x2) =
     Some \<lparr> estimatedTime = 0, filamentLength = 0, filamentWeight = 0,
            layerHeight = - 150, totalLayers = - 1 \<rparr> \<and>
   (\<exists>start. calculateVesselPoint negativeLayers 0 0 0 0 1 (Some texture2x2) = Some start \<and>
      exportGCODE negativeLayers (Some texture2x2) =
        Some (getHeader negativeLayers (- 150) @
              [G0 (toFixed 3 (px start)) (toFixed 3 (pz start)) (- 150) 1200] @
              footer negativeLayers))"
    using a t by (auto simp: negativeLayers_def INITIAL_PARAMS_def z)
  have B: "generateVesselMesh (INITIAL_PARAMS \<lparr> layers := 0 \<rparr>) None = None \<and>
   calculatePrintStats (INITIAL_PARAMS \<lparr> layers := 0 \<rparr>) None = None \<and>
   exportGCODE (INITIAL_PARAMS \<lparr> layers := 0 \<rparr>) None = None"
    using b by (simp add: INITIAL_PARAMS_def)
  have p0: "calculateVesselPoint (INITIAL_PARAMS \<lparr> segments := 0 \<rparr>) 0 0 0 0 1 None =
              Some \<lparr> px = 40, py = 0, pz = 0, pr = 40 \<rparr>"
    by (simp add: calculateVesselPoint_noTexture INITIAL_PARAMS_def)
  have C: "generateVesselMesh (INITIAL_PARAMS \<lparr> segments := 0 \<rparr>) None = None \<and>
   calculatePrintStats (INITIAL_PARAMS \<lparr> segments := 0 \<rparr>) None =
     calculatePrintStats INITIAL_PARAMS None \<and>
   exportGCODE (INITIAL_PARAMS \<lparr> segments := 0 \<rparr>) None =
     Some (getHeader (INITIAL_PARAMS \<lparr> segments := 0 \<rparr>) 1 @ [G0 40 0 1 1200] @
           footer (INITIAL_PARAMS \<lparr> segments := 0 \<rparr>))"
  proof -
    from c have "\<forall>s. calculatePrintStats (INITIAL_PARAMS \<lparr> segments := s \<rparr>) None =
        calculatePrintStats (INITIAL_PARAMS \<lparr> segments := 0 \<rparr>) None"
      by simp
    from this [rule_format, of 120]
    have "calculatePrintStats (INITIAL_PARAMS \<lparr> segments := 0 \<rparr>) None =
          calculatePrintStats INITIAL_PARAMS None"
      by (simp add: INITIAL_PARAMS_def)
    moreover from c have "generateVesselMesh (INITIAL_PARAMS \<lparr> segments := 0 \<rparr>) None = None"
      by (simp add: INITIAL_PARAMS_def)
    moreover from c have "exportGCODE (INITIAL_PARAMS \<lparr> segments := 0 \<rparr>) None =
     Some (getHeader (INITIAL_PARAMS \<lparr> segments := 0 \<rparr>) 1 @ [G0 40 0 1 1200] @
           footer (INITIAL_PARAMS \<lparr> segments := 0 \<rparr>))"
      by (simp add: p0 z) (simp add: INITIAL_PARAMS_def z)
    ultimately show ?thesis by simp
  qed
  have D: "generateVesselMesh (INITIAL_PARAMS \<lparr> layers := - 1, segments := - 2 \<rparr>) None =
     Some \<lparr> vertices = [0, 0, 0, 0, 2, 0], indices = [] \<rparr> \<and>
   (\<exists>prog. exportGCODE (INITIAL_PARAMS \<lparr> layers := - 1, segments := - 2 \<rparr>) None = Some prog \<and>
           length (emittedE prog) = 2)"
    using d by (auto simp: INITIAL_PARAMS_def)
  from A B C D show ?thesis by simp
qed

subsection \<open>C2\<close>

text \<open>
  Claim C2 as stated fails for textures that do not cover their grid. With
  \<^verbatim>\<open>INITIAL_PARAMS\<close> (\<open>textureInfluence = 10\<close>): a 2 by 2 grid that holds two samples is
  read at index 2 for \<open>(u, v) = (0, 0)\<close>; a grid of width 0 gives a remainder by zero;
  a grid of width \<open>- 2\<close> is read at index \<open>- 1\<close> for \<open>(u, v) = (1/4, 1)\<close>. In each case the
  interpolated value, and with it the radius, is not a finite number, so that no point
  with a radius of at least 0.1 is returned.
\<close>

theorem texture_read_counterexample:
  "bilinearCell shortTexture 0 0 = Some (0, 0, 0, 1, 2, 3) \<and>
   texel shortTexture 2 = None \<and>
   calculateVesselPoint INITIAL_PARAMS 0 0 0 0 1 (Some shortTexture) = None \<and>
   jsrem (0 * of_int (width emptyTexture)) (of_int (width emptyTexture)) = None \<and>
   calculateVesselPoint INITIAL_PARAMS 0 0 0 0 1 (Some emptyTexture) = None \<and>
   bilinearCell mirroredTexture (1 / 4) 1 = Some (1 / 2, 0, - 1, 0, - 1, 0) \<and>
   texel mirroredTexture (- 1) = None \<and>
   calculateVesselPoint INITIAL_PARAMS (1 / 4) 1 0 0 1 (Some mirroredTexture) = None"
proof -
  have f: "rtrunc 0 = 0" "rtrunc 1 = 1" "rtrunc (1 / 2) = 0" "rtrunc (1 / 4) = 0"
    by (simp_all add: rtrunc_def)
  have a: "bilinearCell shortTexture 0 0 = Some (0, 0, 0, 1, 2, 3)"
    by (simp add: bilinearCell_def shortTexture_def jsrem_def jsrem_int_def f)
  have b: "texel shortTexture 2 = None" by (simp add: texel_def shortTexture_def)
  have t01: "texel shortTexture 0 = Some 0" "texel shortTexture 1 = Some 64"
    by (simp_all add: texel_def shortTexture_def)
  have "sampleTexture shortTexture 0 0 = None"
    by (simp add: sampleTexture_def a t01 b)
  then have c: "calculateVesselPoint INITIAL_PARAMS 0 0 0 0 1 (Some shortTexture) = None"
    by (simp add: calculateVesselPoint_def INITIAL_PARAMS_def)
  have d: "jsrem (0 * of_int (width emptyTexture)) (of_int (width emptyTexture)) = None"
    by (simp add: jsrem_def emptyTexture_def)
  have "sampleTexture emptyTexture 0 0 = None"
    by (simp add: sampleTexture_def bilinearCell_def jsrem_def emptyTexture_def)
  then have e: "calculateVesselPoint INITIAL_PARAMS 0 0 0 0 1 (Some emptyTexture) = None"
    by (simp add: calculateVesselPoint_def INITIAL_PARAMS_def)
  have g: "bilinearCell mirroredTexture (1 / 4) 1 = Some (1 / 2, 0, - 1, 0, - 1, 0)"
    by (simp add: bilinearCell_def mirroredTexture_def jsrem_def jsrem_int_def f Let_def)
  have h: "texel mirroredTexture (- 1) = None" by (simp add: texel_def)
  have "sampleTexture mirroredTexture (1 / 4) 1 = None"
    by (simp add: sampleTexture_def g h)
  then have i: "calculateVesselPoint INITIAL_PARAMS (1 / 4) 1 0 0 1 (Some mirroredTexture) = None"
    by (simp add: calculateVesselPoint_def INITIAL_PARAMS_def)
  from a b c d e g h i show ?thesis by simp
qed

text \<open>
  Claim C2, amended. For every configuration, every \<open>u \<ge> 0\<close>, every \<open>v\<close> in \<open>[0, 1]\<close>,
  every radius offset, height offset and height scale, and with no texture, or with
  \<open>textureInfluence \<le> 0\<close>, or with a texture whose width and height are at least 1 and
  whose data holds at least \<open>width * height\<close> samples (every texture that satisfies the
  invariant \<open>width * height = data length\<close> is one), \<^verbatim>\<open>calculateVesselPoint\<close> returns
  a point whose \<open>r\<close> field is at least 0.1.
\<close>

theorem radius_never_below_minimum:
  assumes "textureCovered params textureData" and "0 \<le> u" and "0 \<le> v" and "v \<le> 1"
  shows "\<exists>p. calculateVesselPoint params u v radiusOffset heightOffset heightScale textureData = Some p
             \<and> 0.1 \<le> pr p"
proof -
  obtain p where p: "calculateVesselPoint params u v radiusOffset heightOffset heightScale textureData = Some p"
    using calculateVesselPoint_covered [OF assms] by blast
  then have "1 / 10 \<le> pr p" by (rule calculateVesselPoint_fields(4))
  then show ?thesis using p by simp
qed

theorem radius_never_below_minimum_witness:
  "textureCovered (INITIAL_PARAMS\<lparr>noiseScale := 1000000, textureInfluence := 1000000\<rparr>)
     (Some longTexture) \<and>
   (\<exists>p. calculateVesselPoint (INITIAL_PARAMS\<lparr>noiseScale := 1000000, textureInfluence := 1000000\<rparr>)
           (7 / 3) (1 / 2) (- 1000000) 0 1 (Some longTexture) = Some p \<and> 0.1 \<le> pr p)"
  using radius_never_below_minimum
    [of "INITIAL_PARAMS\<lparr>noiseScale := 1000000, textureInfluence := 1000000\<rparr>"
        "Some longTexture" "7 / 3" "1 / 2"]
  by (simp add: textureCovered_def longTexture_def)

subsection \<open>C3\<close>

text \<open>
  Claim C3. For every valid configuration (and no texture, or a texture that satisfies
  its invariant) \<^verbatim>\<open>generateVesselMesh\<close> returns a mesh in which every index is at least 0
  and strictly below the vertex count. The vertex count is \<open>(layers + 1) (segments + 1)\<close>
  in vase mode (\<open>wallThickness \<le> 0\<close>) and twice that plus 2 in solid mode, whose index
  buffer holds the two shells, the rim and the two floor fans. Every number on an
  \<^verbatim>\<open>f\<close> line written by \<^verbatim>\<open>exportOBJ\<close> therefore lies in \<open>[1, vertex count]\<close>.
\<close>

theorem mesh_indices_below_vertex_count:
  assumes "validParams params" and "validTextureOpt textureData"
  shows "\<exists>m f. generateVesselMesh params textureData = Some m \<and>
           vertexCount m = (if wallThickness params \<le> 0 then gridSize params
                            else 2 * gridSize params + 2) \<and>
           (\<forall>i\<in>set (indices m). 0 \<le> i \<and> i < vertexCount m) \<and>
           exportOBJ params textureData = Some f \<and>
           (\<forall>(a, b, c)\<in>set (fLines f).
              1 \<le> a \<and> a \<le> vertexCount m \<and> 1 \<le> b \<and> b \<le> vertexCount m \<and>
              1 \<le> c \<and> c \<le> vertexCount m)"
proof -
  obtain m where m: "generateVesselMesh params textureData = Some m"
    and count: "vertexCount m = (if wallThickness params \<le> 0 then gridSize params
                                 else 2 * gridSize params + 2)"
    and len: "int (length (vertices m)) = 3 * vertexCount m"
    and ok: "idxOK (vertexCount m) (indices m)"
    using generated_mesh_ok [OF assms] by blast
  obtain fs where fs: "objFaceLines (indices m) = Some fs"
    and fs_range: "\<forall>(a, b, c)\<in>set fs. 1 \<le> a \<and> a \<le> vertexCount m \<and>
                     1 \<le> b \<and> b \<le> vertexCount m \<and> 1 \<le> c \<and> c \<le> vertexCount m"
    using objFaceLines_ok [OF ok] by blast
  have "int (length (vertices m)) mod 3 = 0" using len by simp
  then have "3 dvd length (vertices m)" by presburger
  then obtain vs where vs: "objVertexLines (vertices m) = Some vs"
    using objVertexLines_defined by blast
  let ?f = "\<lparr> headerVertices = int (length (vertices m)) div 3,
              headerFaces = int (length (indices m)) div 3,
              vLines = vs, fLines = fs \<rparr>"
  have exp: "exportOBJ params textureData = Some ?f"
    by (simp add: exportOBJ_def m vs fs)
  have idx: "\<forall>i\<in>set (indices m). 0 \<le> i \<and> i < vertexCount m"
    using ok by (simp add: idxOK_def)
  have "generateVesselMesh params textureData = Some m \<and>
        vertexCount m = (if wallThickness params \<le> 0 then gridSize params
                         else 2 * gridSize params + 2) \<and>
        (\<forall>i\<in>set (indices m). 0 \<le> i \<and> i < vertexCount m) \<and>
        exportOBJ params textureData = Some ?f \<and>
        (\<forall>(a, b, c)\<in>set (fLines ?f).
              1 \<le> a \<and> a \<le> vertexCount m \<and> 1 \<le> b \<and> b \<le> vertexCount m \<and>
              1 \<le> c \<and> c \<le> vertexCount m)"
    using m count idx exp fs_range by simp
  then show ?thesis by blast
qed

theorem mesh_indices_below_vertex_count_witness:
  "validParams INITIAL_PARAMS \<and> validTextureOpt (Some texture2x2) \<and>
   (\<exists>m f. generateVesselMesh INITIAL_PARAMS (Some texture2x2) = Some m \<and>
           vertexCount m = 36544 \<and>
           (\<forall>i\<in>set (indices m). 0 \<le> i \<and> i < vertexCount m) \<and>
           exportOBJ INITIAL_PARAMS (Some texture2x2) = Some f \<and>
           (\<forall>(a, b, c)\<in>set (fLines f).
              1 \<le> a \<and> a \<le> vertexCount m \<and> 1 \<le> b \<and> b \<le> vertexCount m \<and>
              1 \<le> c \<and> c \<le> vertexCount m))"
  using mesh_indices_below_vertex_count [of INITIAL_PARAMS "Some texture2x2"]
  by (simp add: validParams_def validTextureOpt_def validTexture_def INITIAL_PARAMS_def
      texture2x2_def gridSize_def)

subsection \<open>C4\<close>




subsection \<open>C5\<close>

text \<open>
  Claim C5 as stated fails: nothing in a valid configuration keeps the wall thickness
  below the height. With \<open>height = 10\<close> and \<open>wallThickness = 20\<close> the inner shell runs
  from \<open>y = 20\<close> at its bottom row down to \<open>y = 10\<close> at its top row, so its highest point
  is 20 while the outer shell's is 10.
\<close>

theorem inner_shell_max_counterexample:
  "\<exists>m. generateVesselMesh thickFloorParams None = Some m \<and>
       Max (set (shellYs m 0 18271)) = 10 \<and>
       Max (set (shellYs m 18271 18271)) = 20"
proof -
  have v: "validParams thickFloorParams"
    by (simp add: validParams_def thickFloorParams_def INITIAL_PARAMS_def)
  have t: "validTextureOpt None" by (simp add: validTextureOpt_def)
  have w: "0 < wallThickness thickFloorParams"
    by (simp add: thickFloorParams_def INITIAL_PARAMS_def)
  have N: "nat (gridSize thickFloorParams) = 18271"
    by (simp add: gridSize_def thickFloorParams_def INITIAL_PARAMS_def)
  have L: "layers thickFloorParams = 150" and S: "segments thickFloorParams = 120"
    and H: "height thickFloorParams = 10" and W: "wallThickness thickFloorParams = 20"
    by (simp_all add: thickFloorParams_def INITIAL_PARAMS_def)
  show ?thesis
  proof (rule solid_mesh_ys [OF v t w], goal_cases)
    case (1 m)
    note outer = 1(2) [unfolded N L H] and inner = 1(3) [unfolded N L H W]
    have range: "\<exists>y x. gridNodes thickFloorParams ! k = (y, x) \<and> 0 \<le> y \<and> y \<le> 150"
      if "k < 18271" for k
      using gridNodes_range [of thickFloorParams k] that by (simp add: L S N) metis
    have top: "gridNodes thickFloorParams ! 18150 = (150, 0)"
      using gridNodes_index(2) [of 150 thickFloorParams 0] by (simp add: L S)
    have bottom: "gridNodes thickFloorParams ! 0 = (0, 0)"
      using gridNodes_index(2) [of 0 thickFloorParams 0] by (simp add: L S)
    have "Max (set (shellYs m 0 18271)) = 10"
    proof (rule Max_shellYs [where ?k0.0 = 18150])
      fix k :: nat assume k: "k < 18271"
      then obtain y x where yx: "gridNodes thickFloorParams ! k = (y, x)" "0 \<le> y" "y \<le> 150"
        using range by blast
      show "fst (snd (vertexAt m (0 + k))) \<le> 10"
        using outer [OF k yx(1)] outer_y_le [of y 150 10] yx(2,3) by simp
    next
      show "fst (snd (vertexAt m (0 + 18150))) = 10"
        using outer [OF _ top] by simp
    qed simp
    moreover have "Max (set (shellYs m 18271 18271)) = 20"
    proof (rule Max_shellYs [where ?k0.0 = 0])
      fix k :: nat assume k: "k < 18271"
      then obtain y x where yx: "gridNodes thickFloorParams ! k = (y, x)" "0 \<le> y" "y \<le> 150"
        using range by blast
      show "fst (snd (vertexAt m (18271 + k))) \<le> 20"
        using inner [OF k yx(1)] inner_y_le_floor [of y 150 10 20] yx(2,3) by simp
    next
      show "fst (snd (vertexAt m (18271 + 0))) = 20"
        using inner [OF _ bottom] by simp
    qed simp
    ultimately show ?case using 1(1) by blast
  qed
qed

text \<open>
  Claim C5, amended. For every valid configuration with \<open>wallThickness > 0\<close> the inner
  shell is generated with radius offset \<open>- wallThickness\<close>, height offset
  \<open>wallThickness\<close> and height scale \<open>(height - wallThickness) / height\<close>: for every grid
  node \<open>(y, x)\<close> the outer vertex \<open>y (segments + 1) + x\<close> is the surface point of
  \<open>(x / segments, y / layers)\<close> with offsets \<open>0, 0, 1\<close>, and the inner vertex, \<open>gridSize\<close>
  places further, is the surface point of the same \<open>(u, v)\<close> with those three offsets, at
  height \<open>wallThickness + (y / layers) (height - wallThickness)\<close>. So every vertex of the
  inner top row, the row the rim joins to the outer top row, is at \<open>y = height\<close>, as is
  every vertex of the outer top row. \<open>height\<close> is the maximum \<open>y\<close> of the outer grid, and,
  when \<open>wallThickness \<le> height\<close>, of the inner grid too.
\<close>

theorem inner_shell_reaches_rim:
  assumes "validParams params" and "validTextureOpt textureData" and "0 < wallThickness params"
  shows "\<exists>m. generateVesselMesh params textureData = Some m \<and>
           (\<forall>y x. 0 \<le> y \<and> y \<le> layers params \<and> 0 \<le> x \<and> x \<le> segments params \<longrightarrow>
              (\<exists>p q.
                 calculateVesselPoint params (of_int x / of_int (segments params))
                   (of_int y / of_int (layers params)) 0 0 1 textureData = Some p \<and>
                 vertexAt m (nat (y * (segments params + 1) + x)) = vec p \<and>
                 calculateVesselPoint params (of_int x / of_int (segments params))
                   (of_int y / of_int (layers params)) (- wallThickness params)
                   (wallThickness params)
                   ((height params - wallThickness params) / height params) textureData = Some q \<and>
                 vertexAt m (nat (gridSize params) + nat (y * (segments params + 1) + x)) = vec q \<and>
                 py q = wallThickness params +
                        of_int y / of_int (layers params) * (height params - wallThickness params))) \<and>
           (\<forall>x. 0 \<le> x \<and> x \<le> segments params \<longrightarrow>
              fst (snd (vertexAt m (nat (layers params * (segments params + 1) + x)))) =
                height params \<and>
              fst (snd (vertexAt m (nat (gridSize params) +
                                    nat (layers params * (segments params + 1) + x)))) =
                height params) \<and>
           Max (set (shellYs m 0 (nat (gridSize params)))) = height params \<and>
           (wallThickness params \<le> height params \<longrightarrow>
              Max (set (shellYs m (nat (gridSize params)) (nat (gridSize params)))) =
                height params)"
proof (rule solid_mesh [OF assms], goal_cases)
  case (1 m P Q)
  from assms(1) have L: "1 \<le> layers params" and S: "1 \<le> segments params"
    and H: "0 < height params"
    by (simp_all add: validParams_def)
  let ?N = "nat (gridSize params)"
  let ?hs = "(height params - wallThickness params) / height params"
  let ?top = "\<lambda>x. nat (layers params * (segments params + 1) + x)"
  have outer_y: "fst (snd (vertexAt m k)) =
                   of_int y / of_int (layers params) * height params * 1 + 0"
    if k: "k < ?N" "gridNodes params ! k = (y, x)" for k y x
  proof -
    from 1(4) [OF k] have a: "vertexAt m k = vec (P y x)"
      and b: "calculateVesselPoint params (of_int x / of_int (segments params))
             (of_int y / of_int (layers params)) 0 0 1 textureData = Some (P y x)"
      by blast+
    show ?thesis using calculateVesselPoint_fields(1) [OF b] by (simp add: a vec_def)
  qed
  have inner_y: "fst (snd (vertexAt m (?N + k))) =
                   of_int y / of_int (layers params) * height params * ?hs + wallThickness params"
    if k: "k < ?N" "gridNodes params ! k = (y, x)" for k y x
  proof -
    from 1(5) [OF k] have a: "vertexAt m (?N + k) = vec (Q y x)"
      and b: "calculateVesselPoint params (of_int x / of_int (segments params))
             (of_int y / of_int (layers params)) (- wallThickness params) (wallThickness params)
             ?hs textureData = Some (Q y x)"
      by blast+
    show ?thesis using calculateVesselPoint_fields(1) [OF b] by (simp add: a vec_def)
  qed
  have points: "\<exists>p q.
                 calculateVesselPoint params (of_int x / of_int (segments params))
                   (of_int y / of_int (layers params)) 0 0 1 textureData = Some p \<and>
                 vertexAt m (nat (y * (segments params + 1) + x)) = vec p \<and>
                 calculateVesselPoint params (of_int x / of_int (segments params))
                   (of_int y / of_int (layers params)) (- wallThickness params)
                   (wallThickness params) ?hs textureData = Some q \<and>
                 vertexAt m (?N + nat (y * (segments params + 1) + x)) = vec q \<and>
                 py q = wallThickness params +
                        of_int y / of_int (layers params) * (height params - wallThickness params)"
    if yx: "0 \<le> y \<and> y \<le> layers params \<and> 0 \<le> x \<and> x \<le> segments params" for y x
  proof -
    from yx have r: "0 \<le> y" "y \<le> layers params" "0 \<le> x" "x \<le> segments params" by auto
    note k = gridNodes_index [OF r]
    note o = 1(4) [OF k] and i = 1(5) [OF k]
    have "py (Q y x) = of_int y / of_int (layers params) * height params * ?hs + wallThickness params"
      using calculateVesselPoint_fields(1) i by blast
    also have "of_int y / of_int (layers params) * height params * ?hs =
               of_int y / of_int (layers params) * (height params - wallThickness params)"
      using H by simp
    finally have "py (Q y x) = wallThickness params +
                        of_int y / of_int (layers params) * (height params - wallThickness params)"
      by simp
    then show ?thesis using o i by blast
  qed
  have topk: "?top x < ?N" "gridNodes params ! ?top x = (layers params, x)"
    if "0 \<le> x" "x \<le> segments params" for x
    using gridNodes_index [of "layers params" params x] that L by simp_all
  have rows: "fst (snd (vertexAt m (?top x))) = height params \<and>
              fst (snd (vertexAt m (?N + ?top x))) = height params"
    if x: "0 \<le> x \<and> x \<le> segments params" for x
  proof -
    from x have x': "0 \<le> x" "x \<le> segments params" by auto
    show ?thesis
      using outer_y [OF topk [OF x']] inner_y [OF topk [OF x']] L H by simp
  qed
  have outer_max: "Max (set (shellYs m 0 ?N)) = height params"
  proof (rule Max_shellYs [where ?k0.0 = "?top 0"])
    fix k assume k: "k < ?N"
    then obtain y x where yx: "gridNodes params ! k = (y, x)" "0 \<le> y" "y \<le> layers params"
      using gridNodes_range [OF L S k] by metis
    show "fst (snd (vertexAt m (0 + k))) \<le> height params"
      using outer_y [OF k yx(1)] outer_y_le [OF yx(2,3) L H] by simp
  next
    show "?top 0 < ?N" using topk(1) [of 0] S by simp
    show "fst (snd (vertexAt m (0 + ?top 0))) = height params"
      using rows [of 0] S by simp
  qed
  have inner_max: "Max (set (shellYs m ?N ?N)) = height params"
    if w: "wallThickness params \<le> height params"
  proof (rule Max_shellYs [where ?k0.0 = "?top 0"])
    fix k assume k: "k < ?N"
    then obtain y x where yx: "gridNodes params ! k = (y, x)" "0 \<le> y" "y \<le> layers params"
      using gridNodes_range [OF L S k] by metis
    show "fst (snd (vertexAt m (?N + k))) \<le> height params"
      using inner_y [OF k yx(1)] inner_y_le [OF yx(2,3) L H w] by simp
  next
    show "?top 0 < ?N" using topk(1) [of 0] S by simp
    show "fst (snd (vertexAt m (?N + ?top 0))) = height params"
      using rows [of 0] S by simp
  qed
  show ?case using 1(1) points rows outer_max inner_max by blast
qed

theorem inner_shell_reaches_rim_witness:
  "validParams INITIAL_PARAMS \<and> validTextureOpt (Some texture2x2) \<and>
   (0::real) < 2 \<and> (2::real) \<le> 150 \<and>
   (\<exists>m q. generateVesselMesh INITIAL_PARAMS (Some texture2x2) = Some m \<and>
        calculateVesselPoint INITIAL_PARAMS (60 / 120) (75 / 150) (- 2) 2 ((150 - 2) / 150)
          (Some texture2x2) = Some q \<and>
        vertexAt m (18271 + 9135) = vec q \<and> py q = 76 \<and>
        fst (snd (vertexAt m 18150)) = 150 \<and> fst (snd (vertexAt m (18271 + 18150))) = 150 \<and>
        Max (set (shellYs m 0 18271)) = 150 \<and>
        Max (set (shellYs m 18271 18271)) = 150)"
proof -
  have v: "validParams INITIAL_PARAMS" by (simp add: validParams_def INITIAL_PARAMS_def)
  have t: "validTextureOpt (Some texture2x2)"
    by (simp add: validTextureOpt_def validTexture_def texture2x2_def)
  have w: "0 < wallThickness INITIAL_PARAMS" by (simp add: INITIAL_PARAMS_def)
  have N: "nat (gridSize INITIAL_PARAMS) = 18271" "segments INITIAL_PARAMS = 120"
    "layers INITIAL_PARAMS = 150" "height INITIAL_PARAMS = 150" "wallThickness INITIAL_PARAMS = 2"
    by (simp_all add: gridSize_def INITIAL_PARAMS_def)
  from inner_shell_reaches_rim [OF v t w] obtain m where
    m: "generateVesselMesh INITIAL_PARAMS (Some texture2x2) = Some m"
    and pts: "\<forall>y x. 0 \<le> y \<and> y \<le> 150 \<and> 0 \<le> x \<and> x \<le> 120 \<longrightarrow>
              (\<exists>p q.
                 calculateVesselPoint INITIAL_PARAMS (of_int x / of_int 120)
                   (of_int y / of_int 150) 0 0 1 (Some texture2x2) = Some p \<and>
                 vertexAt m (nat (y * (120 + 1) + x)) = vec p \<and>
                 calculateVesselPoint INITIAL_PARAMS (of_int x / of_int 120)
                   (of_int y / of_int 150) (- 2) 2 ((150 - 2) / 150) (Some texture2x2) = Some q \<and>
                 vertexAt m (18271 + nat (y * (120 + 1) + x)) = vec q \<and>
                 py q = 2 + of_int y / of_int 150 * (150 - 2))"
    and rows: "\<forall>x. 0 \<le> x \<and> x \<le> 120 \<longrightarrow>
              fst (snd (vertexAt m (nat (150 * (120 + 1) + x)))) = 150 \<and>
              fst (snd (vertexAt m (18271 + nat (150 * (120 + 1) + x)))) = 150"
    and mx: "Max (set (shellYs m 0 18271)) = 150" "Max (set (shellYs m 18271 18271)) = 150"
    unfolding N by auto
  from pts [rule_format, of 75 60] obtain q where
    "calculateVesselPoint INITIAL_PARAMS (60 / 120) (75 / 150) (- 2) 2 ((150 - 2) / 150)
          (Some texture2x2) = Some q" "vertexAt m (18271 + 9135) = vec q" "py q = 76"
    by auto
  moreover from rows [rule_format, of 0] have "fst (snd (vertexAt m 18150)) = 150 \<and>
      fst (snd (vertexAt m (18271 + 18150))) = 150" by simp
  ultimately show ?thesis using v t m mx by auto
qed

subsection \<open>C6\<close>

text \<open>
  Claim C6. For every configuration with positive height, layers, segments, nozzle
  diameter and filament diameter (and no texture, or a texture that satisfies its
  invariant), the generator returns a program whose step lines number
  \<open>layers * segments\<close>, and the \<open>E\<close> words of those lines, as written with four decimals,
  are in non-decreasing order.
\<close>

theorem gcode_extrusion_monotone:
  assumes "0 < height params" and "1 \<le> layers params" and "1 \<le> segments params"
    and "0 < nozzleDiameter params" and "0 < filamentDiameter params"
    and "validTextureOpt textureData"
  shows "\<exists>prog. exportGCODE params textureData = Some prog \<and>
           length (emittedE prog) = nat (layers params * segments params) \<and>
           sorted (emittedE prog)"
proof -
  let ?lh = "height params / of_int (layers params)"
  let ?area = "pi * (filamentDiameter params / 2) ^ 2"
  let ?e = "nozzleDiameter params * ?lh / ?area"
  let ?T = "layers params * segments params"
  have lh: "0 < ?lh" using assms(1,2) by simp
  have area: "0 < ?area" using assms(5) by simp
  have "0 \<le> nozzleDiameter params * ?lh" using lh assms(4) by (intro mult_nonneg_nonneg) auto
  then have e: "0 \<le> ?e" using area by (intro divide_nonneg_pos)
  have T: "1 \<le> ?T" using assms(2,3) by (smt (verit) mult_le_cancel_left1 mult.commute)
  obtain start where start: "calculateVesselPoint params 0 0 0 0 1 textureData = Some start"
    using calculateVesselPoint_defined [OF assms(6), of 0 0 params 0 0 1] by auto
  let ?g0 = "getHeader params ?lh @
             [G0 (toFixed 3 (px start)) (toFixed 3 (pz start)) (toFixed 3 ?lh) (printSpeed params)]"
  let ?s0 = "(0::real, px start, pz start, ?lh, ?g0)"
  have "emittedE ?g0 = []"
    by (simp add: emittedE_append emittedE_getHeader) (simp add: emittedE_def map_filter_def)
  then have inv0: "spiralInv 0 ?s0" by (simp add: spiralInv_def)
  have "\<exists>s'. forM [1..?T] (spiralStep params textureData ?e ?T) ?s0 = Some s' \<and>
          spiralInv (0 + length [1..?T]) s'"
    using inv0
  proof (rule forM_total)
    fix i k s
    assume "i \<in> set [1..?T]" and "spiralInv k s"
    then show "\<exists>s'. spiralStep params textureData ?e ?T i s = Some s' \<and> spiralInv (Suc k) s'"
      using spiralStep_inv [OF assms(6) e assms(3) T] by simp
  qed
  then obtain currentE prevX prevY prevZ gcode where
    loop: "forM [1..?T] (spiralStep params textureData ?e ?T) ?s0 =
             Some (currentE, prevX, prevY, prevZ, gcode)"
    and inv: "spiralInv (length [1..?T]) (currentE, prevX, prevY, prevZ, gcode)"
    by (metis add_0 prod_cases5)
  let ?prog = "gcode @ [Raw ''G1 E-2 F2400 ; Retract'',
                    MoveUp (toFixed 2 (height params + 20)) (printSpeed params),
                    Raw ''G28 X0 Y0 ; Home X Y'', Raw ''M30 ; End of program'']"
  have d1: "jsdiv (height params) (of_int (layers params)) = Some ?lh"
    using assms(2) by simp
  have d2: "jsdiv (nozzleDiameter params * ?lh) ?area = Some ?e"
    using assms(5) by (simp add: jsdiv_def)
  have prog: "exportGCODE params textureData = Some ?prog"
    by (simp only: exportGCODE_def Let_def d1 d2 start loop Option.bind_lunit prod.case)
  have "emittedE ?prog = emittedE gcode"
    by (simp add: emittedE_append) (simp add: emittedE_def map_filter_def)
  moreover have "sorted (emittedE gcode)" "length (emittedE gcode) = nat ?T"
    using inv by (simp_all add: spiralInv_def)
  ultimately show ?thesis using prog by simp
qed

theorem gcode_extrusion_monotone_witness:
  "(0::real) < 150 \<and> (1::int) \<le> 150 \<and> validTextureOpt (Some texture2x2) \<and>
   (\<exists>prog. exportGCODE INITIAL_PARAMS (Some texture2x2) = Some prog \<and>
           length (emittedE prog) = 18000 \<and> sorted (emittedE prog))"
proof -
  have t: "validTextureOpt (Some texture2x2)"
    by (simp add: validTextureOpt_def validTexture_def texture2x2_def)
  show ?thesis
    using t gcode_extrusion_monotone [of INITIAL_PARAMS "Some texture2x2"]
    by (simp add: INITIAL_PARAMS_def)
qed

subsection \<open>C7\<close>

text \<open>
  Claim C7. With \<open>height = 150\<close>, \<open>baseRadius = 40\<close>, \<open>noiseScale = 0\<close>, \<open>twist = 0\<close>,
  \<open>layers = 10\<close>, \<open>segments = 4\<close>, \<open>wallThickness = 0\<close> (whatever the other fields are)
  and no texture, \<^verbatim>\<open>generateVesselMesh\<close> returns a mesh of exactly 55 vertices and 80
  triangles (240 indices), and every vertex is at distance exactly 40 from the \<open>y\<close> axis.
\<close>

theorem cylinder_mesh:
  "\<exists>m. generateVesselMesh (cylinderParams params) None = Some m \<and>
       vertexCount m = 55 \<and> length (vertices m) = 3 * 55 \<and>
       length (indices m) = 3 * 80 \<and>
       (\<forall>k<55. axisDistance (vertexAt m k) = 40)"
proof -
  let ?p = "cylinderParams params"
  have L: "1 \<le> layers ?p" and S: "1 \<le> segments ?p" and W: "wallThickness ?p \<le> 0"
    by (simp_all add: cylinderParams_def)
  have T: "validTextureOpt None" by (simp add: validTextureOpt_def)
  show ?thesis
  proof (rule generateVesselMesh_vase [OF L S T W], goal_cases)
    case (1 P)
    let ?ws = "map (\<lambda>(y, x). vec (P y x)) (gridNodes ?p)"
    let ?m = "\<lparr> vertices = flat3 ?ws, indices = vaseIndices ?p \<rparr>"
    have "int (length (gridNodes ?p)) = gridSize ?p"
      by (intro length_gridNodes) (simp_all add: cylinderParams_def)
    then have len: "length (gridNodes ?p) = 55"
      by (simp add: gridSize_def cylinderParams_def)
    have count: "vertexCount ?m = 55" using len by (simp add: vertexCount_flat3)
    have nv: "length (vertices ?m) = 3 * 55" using len by simp
    have ni: "length (indices ?m) = 3 * 80"
      by (simp add: length_vaseIndices) (simp add: cylinderParams_def)
    have dist: "axisDistance (vertexAt ?m k) = 40" if k: "k < 55" for k
    proof -
      from k len have k': "k < length (gridNodes ?p)" by simp
      then obtain y x where yx: "gridNodes ?p ! k = (y, x)"
        and r: "0 \<le> y" "y \<le> layers ?p" "0 \<le> x" "x \<le> segments ?p"
        by (rule gridNodes_nth)
      note pt = 1(1) [OF r]
      have "vertexAt ?m k = ?ws ! k" using k' by (intro vertexAt_flat3) simp
      also have "\<dots> = vec (P y x)" using k' yx by simp
      finally have "axisDistance (vertexAt ?m k) = pr (P y x)"
        using axisDistance_vec [OF pt] by simp
      also have "pr (P y x) = 40"
        using calculateVesselPoint_noTexture_radius [OF pt]
        by (simp add: cylinderParams_def)
      finally show ?thesis .
    qed
    from 1(2) count nv ni dist show ?case by blast
  qed
qed

theorem cylinder_mesh_witness:
  "\<exists>m. generateVesselMesh (cylinderParams INITIAL_PARAMS) None = Some m \<and>
       vertexCount m = 55 \<and> length (vertices m) = 3 * 55 \<and>
       length (indices m) = 3 * 80 \<and>
       axisDistance (vertexAt m 0) = 40 \<and> axisDistance (vertexAt m 54) = 40"
  using cylinder_mesh [of INITIAL_PARAMS] by auto

subsection \<open>C8\<close>

text \<open>
  Claim C8. For every valid configuration with \<open>wallThickness > 0\<close> the solid mesh has
  \<open>2 gridSize + 2\<close> vertices, \<open>gridSize = (layers + 1) (segments + 1)\<close>: the two shells,
  every vertex of which is at distance at least 0.1 from the axis, followed by exactly
  two vertices on the axis, \<open>(0, 0, 0)\<close> at index \<open>2 gridSize\<close> and
  \<open>(0, wallThickness, 0)\<close> at index \<open>2 gridSize + 1\<close>. They are the apexes of the two floor
  fans: the index buffer ends with \<open>segments\<close> triangles
  \<open>(2 gridSize, x + 1, x)\<close> on the outer bottom row, whose vertices are at \<open>y = 0\<close>, and
  then \<open>segments\<close> triangles \<open>(2 gridSize + 1, gridSize + x, gridSize + x + 1)\<close> on the
  inner bottom row, whose vertices are at \<open>y = wallThickness\<close>; no index before the
  fans addresses either apex.
\<close>

theorem floor_apex_vertices:
  assumes "validParams params" and "validTextureOpt textureData" and "0 < wallThickness params"
  shows "\<exists>m js. generateVesselMesh params textureData = Some m \<and>
           vertexCount m = 2 * gridSize params + 2 \<and>
           vertexAt m (nat (2 * gridSize params)) = (0, 0, 0) \<and>
           vertexAt m (nat (2 * gridSize params + 1)) = (0, wallThickness params, 0) \<and>
           (\<forall>k<nat (2 * gridSize params). 0.1 \<le> axisDistance (vertexAt m k)) \<and>
           indices m = solidIndices params (2 * gridSize params) \<and>
           indices m =
             js @ concat (map (\<lambda>x. [2 * gridSize params, x + 1, x]) [0..segments params - 1]) @
                  concat (map (\<lambda>x. [2 * gridSize params + 1, gridSize params + x,
                                     gridSize params + x + 1]) [0..segments params - 1]) \<and>
           (\<forall>i\<in>set js. 0 \<le> i \<and> i < 2 * gridSize params) \<and>
           (\<forall>x. 0 \<le> x \<and> x \<le> segments params \<longrightarrow>
              fst (snd (vertexAt m (nat x))) = 0 \<and>
              fst (snd (vertexAt m (nat (gridSize params + x)))) = wallThickness params)"
proof (rule solid_mesh [OF assms], goal_cases)
  case (1 m P Q)
  from assms(1) have L: "1 \<le> layers params" and S: "1 \<le> segments params"
    by (simp_all add: validParams_def)
  let ?N = "nat (gridSize params)"
  have off: "0.1 \<le> axisDistance (vertexAt m k)" if k: "k < nat (2 * gridSize params)" for k
  proof (cases "k < ?N")
    case True
    then obtain y x where yx: "gridNodes params ! k = (y, x)"
      using gridNodes_range [OF L S] by metis
    from 1(4) [OF True yx] show ?thesis
      using axisDistance_vec calculateVesselPoint_fields(4) by fastforce
  next
    case False
    define j where "j = k - ?N"
    have j: "j < ?N" "k = ?N + j" using False k by (simp_all add: j_def nat_mult_distrib)
    then obtain y x where yx: "gridNodes params ! j = (y, x)"
      using gridNodes_range [OF L S] by metis
    from 1(5) [OF j(1) yx] show ?thesis
      unfolding j(2) using axisDistance_vec calculateVesselPoint_fields(4) by fastforce
  qed
  obtain js where js: "solidIndices params (2 * gridSize params) =
             js @ concat (map (\<lambda>x. [2 * gridSize params, x + 1, x]) [0..segments params - 1]) @
                  concat (map (\<lambda>x. [2 * gridSize params + 1, gridSize params + x,
                                     gridSize params + x + 1]) [0..segments params - 1])"
    and ok: "idxOK (2 * gridSize params) js"
    using solidIndices_fans [of params "2 * gridSize params"] L by auto
  have below: "\<forall>i\<in>set js. 0 \<le> i \<and> i < 2 * gridSize params"
    using ok by (simp add: idxOK_def)
  have n0: "0 \<le> gridSize params" using L S by (simp add: gridSize_def)
  have floor: "fst (snd (vertexAt m (nat x))) = 0 \<and>
               fst (snd (vertexAt m (nat (gridSize params + x)))) = wallThickness params"
    if x: "0 \<le> x \<and> x \<le> segments params" for x
  proof -
    from x L have r: "0 \<le> (0::int)" "0 \<le> layers params" "0 \<le> x" "x \<le> segments params" by auto
    have k: "nat x < ?N" "gridNodes params ! nat x = (0, x)"
      using gridNodes_index [OF r] by simp_all
    from 1(4) [OF k] have b: "calculateVesselPoint params (of_int x / of_int (segments params))
             (of_int 0 / of_int (layers params)) 0 0 1 textureData = Some (P 0 x)"
      by blast
    from 1(5) [OF k] have c: "calculateVesselPoint params (of_int x / of_int (segments params))
             (of_int 0 / of_int (layers params)) (- wallThickness params) (wallThickness params)
             ((height params - wallThickness params) / height params) textureData = Some (Q 0 x)"
      by blast
    have "py (P 0 x) = 0"
      using calculateVesselPoint_fields(1) [OF b] by simp
    moreover have "py (Q 0 x) = wallThickness params"
      using calculateVesselPoint_fields(1) [OF c] by simp
    moreover have "nat (gridSize params + x) = ?N + nat x"
      using n0 x by (simp add: nat_add_distrib)
    ultimately show ?thesis using 1(4) [OF k] 1(5) [OF k] by (simp add: vec_def)
  qed
  have "indices m =
             js @ concat (map (\<lambda>x. [2 * gridSize params, x + 1, x]) [0..segments params - 1]) @
                  concat (map (\<lambda>x. [2 * gridSize params + 1, gridSize params + x,
                                     gridSize params + x + 1]) [0..segments params - 1])"
    using 1(2) js by simp
  then show ?case using 1(1,2,3,6,7) off below floor by blast
qed

theorem floor_apex_vertices_witness:
  "validParams (INITIAL_PARAMS \<lparr> height := 100 \<rparr>) \<and> validTextureOpt None \<and>
   (0::real) < 2 \<and>
   (\<exists>m js. generateVesselMesh (INITIAL_PARAMS \<lparr> height := 100 \<rparr>) None = Some m \<and>
        vertexCount m = 36544 \<and>
        vertexAt m 36542 = (0, 0, 0) \<and> vertexAt m 36543 = (0, 2, 0) \<and>
        0.1 \<le> axisDistance (vertexAt m 0) \<and>
        indices m = js @ concat (map (\<lambda>x. [36542, x + 1, x]) [0..119]) @
                         concat (map (\<lambda>x. [36543, 18271 + x, 18271 + x + 1]) [0..119]) \<and>
        (\<forall>i\<in>set js. 0 \<le> i \<and> i < 36542) \<and>
        fst (snd (vertexAt m 120)) = 0 \<and> fst (snd (vertexAt m 18391)) = 2)"
proof -
  let ?p = "INITIAL_PARAMS \<lparr> height := 100 \<rparr>"
  have v: "validParams ?p" by (simp add: validParams_def INITIAL_PARAMS_def)
  have t: "validTextureOpt None" by (simp add: validTextureOpt_def)
  have w: "0 < wallThickness ?p" by (simp add: INITIAL_PARAMS_def)
  have N: "gridSize ?p = 18271" "wallThickness ?p = 2" "segments ?p = 120"
    by (simp_all add: gridSize_def INITIAL_PARAMS_def)
  from floor_apex_vertices [OF v t w] obtain m js where
    "generateVesselMesh ?p None = Some m" "vertexCount m = 36544"
    "vertexAt m 36542 = (0, 0, 0)" "vertexAt m 36543 = (0, 2, 0)"
    "\<forall>k<36542. 0.1 \<le> axisDistance (vertexAt m k)"
    "indices m = js @ concat (map (\<lambda>x. [36542, x + 1, x]) [0..119]) @
                         concat (map (\<lambda>x. [36543, 18271 + x, 18271 + x + 1]) [0..119])"
    "\<forall>i\<in>set js. 0 \<le> i \<and> i < 36542"
    and fl: "\<forall>x. 0 \<le> x \<and> x \<le> 120 \<longrightarrow>
              fst (snd (vertexAt m (nat x))) = 0 \<and>
              fst (snd (vertexAt m (nat (18271 + x)))) = 2"
    unfolding N by auto
  moreover from fl [rule_format, of 120]
  have "fst (snd (vertexAt m 120)) = 0 \<and> fst (snd (vertexAt m 18391)) = 2" by simp
  ultimately show ?thesis using v t by auto
qed

subsection \<open>C9\<close>

text \<open>
  Claim C9 as stated fails in its last part: the inner loop of the point-to-point
  accumulation runs \<open>j = 0 .. sampleSteps\<close> with both ends included, so with
  \<open>segments = 120\<close> a layer is sampled at 21 angular positions, not at most 20.
\<close>

theorem ring_samples_counterexample:
  "sampleSteps INITIAL_PARAMS = 20 \<and>
   (\<exists>pts. ringPoints INITIAL_PARAMS None 0 = Some pts \<and> length pts = 21)"
proof -
  have t: "validTextureOpt None" by (simp add: validTextureOpt_def)
  have s: "1 \<le> segments INITIAL_PARAMS" by (simp add: INITIAL_PARAMS_def)
  obtain pts where pts: "ringPoints INITIAL_PARAMS None 0 = Some pts"
    using ringPoints_defined [OF t s, of 0] by auto
  have "int (length pts) = 21"
    using ringPoints_length [OF pts] by (simp add: INITIAL_PARAMS_def)
  then have "length pts = 21" by simp
  then show ?thesis using pts by (simp add: sampleSteps_def INITIAL_PARAMS_def)
qed

text \<open>
  Claim C9, amended. For every valid configuration \<^verbatim>\<open>calculatePrintStats\<close> returns
  \<open>estimatedTime = spiralDistance / printSpeed\<close>, where \<open>spiralDistance\<close> is the sum over
  the layers of \<open>2 \<pi>\<close> times the average of the radii sampled at \<open>u = 0, 1/4, 1/2, 3/4\<close> on
  that layer; and the point-to-point accumulation walks, on every layer, through
  \<open>min segments 20 + 1\<close> angular samples (\<open>j / min segments 20\<close> for
  \<open>j = 0 .. min segments 20\<close>), hence through at most 21 whatever \<open>segments\<close> is.
\<close>

theorem print_stats_estimate:
  assumes "validParams params" and "validTextureOpt textureData"
  shows "\<exists>s d. calculatePrintStats params textureData = Some s \<and>
           spiralDistance_spec params textureData = Some d \<and>
           estimatedTime s = d / printSpeed params \<and>
           totalDist params textureData = totalDist_spec params textureData \<and>
           (\<forall>i. 0 \<le> i \<and> i \<le> layers params \<longrightarrow>
              (\<exists>pts. ringPoints params textureData (of_int i / of_int (layers params)) = Some pts \<and>
                     int (length pts) = min (segments params) 20 + 1 \<and> length pts \<le> 21))"
proof -
  from assms(1) have L: "1 \<le> layers params" and S: "1 \<le> segments params"
    and V: "printSpeed params \<noteq> 0" and F: "filamentDiameter params \<noteq> 0"
    by (simp_all add: validParams_def)
  obtain d where d: "spiralDistance_spec params textureData = Some d"
    using spiralDistance_spec_defined [OF assms(2) L] by blast
  then have sd: "spiralDist params textureData = Some d"
    using spiralDist_refines [of params textureData] L by simp
  obtain td where td: "totalDist params textureData = Some td"
    using totalDist_defined [OF assms(2) L S] by blast
  let ?lh = "height params / of_int (layers params)"
  let ?vol = "d * (nozzleDiameter params * ?lh)"
  let ?s = "\<lparr> estimatedTime = d / printSpeed params,
              filamentLength = ?vol / (pi * (filamentDiameter params / 2) ^ 2) / 1000,
              filamentWeight = ?vol * 0.0017,
              layerHeight = ?lh,
              totalLayers = layers params \<rparr>"
  have stats: "calculatePrintStats params textureData = Some ?s"
    using L V F by (simp add: calculatePrintStats_def td sd Let_def jsdiv_def)
  have rings: "\<exists>pts. ringPoints params textureData (of_int i / of_int (layers params)) = Some pts \<and>
                     int (length pts) = min (segments params) 20 + 1 \<and> length pts \<le> 21"
    if i: "0 \<le> i \<and> i \<le> layers params" for i
  proof -
    have "0 \<le> real_of_int i / real_of_int (layers params)"
      "real_of_int i / real_of_int (layers params) \<le> 1"
      using i L by simp_all
    then obtain pts where pts: "ringPoints params textureData (of_int i / of_int (layers params)) = Some pts"
      using ringPoints_defined [OF assms(2) S] by blast
    have "int (length pts) = min (segments params) 20 + 1"
      using ringPoints_length [OF pts] S by simp
    then show ?thesis using pts by auto
  qed
  have "estimatedTime ?s = d / printSpeed params" by simp
  then show ?thesis using stats d totalDist_refines rings by blast
qed

theorem print_stats_estimate_witness:
  "validParams INITIAL_PARAMS \<and> validTextureOpt None \<and>
   (\<exists>s d. calculatePrintStats INITIAL_PARAMS None = Some s \<and>
           spiralDistance_spec INITIAL_PARAMS None = Some d \<and>
           estimatedTime s = d / 1200 \<and>
           (\<exists>pts. ringPoints INITIAL_PARAMS None (of_int 75 / of_int 150) = Some pts \<and>
                     int (length pts) = 21 \<and> length pts \<le> 21))"
proof -
  have v: "validParams INITIAL_PARAMS" by (simp add: validParams_def INITIAL_PARAMS_def)
  have t: "validTextureOpt None" by (simp add: validTextureOpt_def)
  have f: "printSpeed INITIAL_PARAMS = 1200" "layers INITIAL_PARAMS = 150"
    "min (segments INITIAL_PARAMS) 20 + 1 = 21"
    by (simp_all add: INITIAL_PARAMS_def)
  from print_stats_estimate [OF v t] obtain s d where
    "calculatePrintStats INITIAL_PARAMS None = Some s"
    "spiralDistance_spec INITIAL_PARAMS None = Some d"
    "estimatedTime s = d / 1200"
    and rings: "\<forall>i. 0 \<le> i \<and> i \<le> 150 \<longrightarrow>
              (\<exists>pts. ringPoints INITIAL_PARAMS None (of_int i / of_int 150) = Some pts \<and>
                     int (length pts) = 21 \<and> length pts \<le> 21)"
    unfolding f by blast
  moreover from rings [rule_format, of 75]
  have "\<exists>pts. ringPoints INITIAL_PARAMS None (of_int 75 / of_int 150) = Some pts \<and>
                     int (length pts) = 21 \<and> length pts \<le> 21" by simp
  ultimately show ?thesis using v t by blast
qed

subsection \<open>C10\<close>

text \<open>
  Claim C10. For a texture of width and height at least 1 whose data has
  \<open>width * height\<close> entries, and for \<open>u \<ge> 0\<close> and \<open>v\<close> in \<open>[0, 1]\<close>, the bilinear
  sampling finds a cell \<open>(x1, y1)\<close> inside the grid; the horizontal neighbour is
  \<open>(x1 + 1) mod width\<close>, the vertical neighbour is \<open>y1 + 1\<close> clamped to the last row, the
  four indices \<open>i11\<close>, \<open>i21\<close>, \<open>i12\<close>, \<open>i22\<close> lie in \<open>[0, width * height)\<close>, and
  none of the four reads leaves the luminance array.
\<close>

theorem texture_indices_in_bounds:
  assumes "1 \<le> width t" and "1 \<le> TextureData.height t"
    and "int (length (data t)) = width t * TextureData.height t"
    and "0 \<le> u" and "0 \<le> v" and "v \<le> 1"
  shows "\<exists>dx dy i11 i21 i12 i22 x1 y1.
           bilinearCell t u v = Some (dx, dy, i11, i21, i12, i22) \<and>
           0 \<le> x1 \<and> x1 < width t \<and> 0 \<le> y1 \<and> y1 < TextureData.height t \<and>
           i11 = y1 * width t + x1 \<and>
           i21 = y1 * width t + (x1 + 1) mod width t \<and>
           i12 = min (y1 + 1) (TextureData.height t - 1) * width t + x1 \<and>
           i22 = min (y1 + 1) (TextureData.height t - 1) * width t + (x1 + 1) mod width t \<and>
           0 \<le> i11 \<and> i11 < width t * TextureData.height t \<and>
           0 \<le> i21 \<and> i21 < width t * TextureData.height t \<and>
           0 \<le> i12 \<and> i12 < width t * TextureData.height t \<and>
           0 \<le> i22 \<and> i22 < width t * TextureData.height t \<and>
           texel t i11 \<noteq> None \<and> texel t i21 \<noteq> None \<and>
           texel t i12 \<noteq> None \<and> texel t i22 \<noteq> None"
proof -
  obtain dx dy x1 y1 where
    cell: "bilinearCell t u v =
             Some (dx, dy,
                   y1 * width t + x1,
                   y1 * width t + (x1 + 1) mod width t,
                   (if y1 + 1 < TextureData.height t then y1 + 1 else y1) * width t + x1,
                   (if y1 + 1 < TextureData.height t then y1 + 1 else y1) * width t + (x1 + 1) mod width t)"
    and x1: "0 \<le> x1" "x1 < width t" and y1: "0 \<le> y1" "y1 < TextureData.height t"
    using bilinearCell_defined [OF assms(1,2,4-6)] by blast
  let ?x2 = "(x1 + 1) mod width t"
  let ?y2 = "if y1 + 1 < TextureData.height t then y1 + 1 else y1"
  have y2_min: "?y2 = min (y1 + 1) (TextureData.height t - 1)" using y1 by auto
  have x2: "0 \<le> ?x2" "?x2 < width t" using assms(1) by simp_all
  have y2: "0 \<le> ?y2" "?y2 < TextureData.height t" using y1 by simp_all
  note b11 = index_in_grid [OF x1 y1] and b21 = index_in_grid [OF x2 y1]
    and b12 = index_in_grid [OF x1 y2] and b22 = index_in_grid [OF x2 y2]
  have t11: "texel t (y1 * width t + x1) \<noteq> None"
    using b11 assms(3) by (simp add: texel_def)
  have t21: "texel t (y1 * width t + ?x2) \<noteq> None"
    using b21 assms(3) by (simp add: texel_def)
  have t12: "texel t (?y2 * width t + x1) \<noteq> None"
    using b12 assms(3) by (simp add: texel_def)
  have t22: "texel t (?y2 * width t + ?x2) \<noteq> None"
    using b22 assms(3) by (simp add: texel_def)
  have "bilinearCell t u v =
          Some (dx, dy, y1 * width t + x1, y1 * width t + ?x2,
                ?y2 * width t + x1, ?y2 * width t + ?x2) \<and>
        0 \<le> x1 \<and> x1 < width t \<and> 0 \<le> y1 \<and> y1 < TextureData.height t \<and>
        y1 * width t + x1 = y1 * width t + x1 \<and>
        y1 * width t + ?x2 = y1 * width t + (x1 + 1) mod width t \<and>
        ?y2 * width t + x1 = min (y1 + 1) (TextureData.height t - 1) * width t + x1 \<and>
        ?y2 * width t + ?x2 =
          min (y1 + 1) (TextureData.height t - 1) * width t + (x1 + 1) mod width t \<and>
        0 \<le> y1 * width t + x1 \<and> y1 * width t + x1 < width t * TextureData.height t \<and>
        0 \<le> y1 * width t + ?x2 \<and> y1 * width t + ?x2 < width t * TextureData.height t \<and>
        0 \<le> ?y2 * width t + x1 \<and> ?y2 * width t + x1 < width t * TextureData.height t \<and>
        0 \<le> ?y2 * width t + ?x2 \<and> ?y2 * width t + ?x2 < width t * TextureData.height t \<and>
        texel t (y1 * width t + x1) \<noteq> None \<and> texel t (y1 * width t + ?x2) \<noteq> None \<and>
        texel t (?y2 * width t + x1) \<noteq> None \<and> texel t (?y2 * width t + ?x2) \<noteq> None"
    using cell x1 y1 b11 b21 b12 b22 t11 t21 t12 t22 y2_min by presburger
  then show ?thesis by blast
qed

theorem texture_indices_in_bounds_witness:
  "\<exists>dx dy i11 i21 i12 i22 x1 y1.
           bilinearCell texture2x2 (3 / 4) (1 / 2) = Some (dx, dy, i11, i21, i12, i22) \<and>
           0 \<le> x1 \<and> x1 < 2 \<and> 0 \<le> y1 \<and> y1 < 2 \<and>
           i11 = y1 * 2 + x1 \<and>
           i21 = y1 * 2 + (x1 + 1) mod 2 \<and>
           i12 = min (y1 + 1) 1 * 2 + x1 \<and>
           i22 = min (y1 + 1) 1 * 2 + (x1 + 1) mod 2 \<and>
           0 \<le> i11 \<and> i11 < 4 \<and> 0 \<le> i21 \<and> i21 < 4 \<and>
           0 \<le> i12 \<and> i12 < 4 \<and> 0 \<le> i22 \<and> i22 < 4 \<and>
           texel texture2x2 i11 \<noteq> None \<and> texel texture2x2 i21 \<noteq> None \<and>
           texel texture2x2 i12 \<noteq> None \<and> texel texture2x2 i22 \<noteq> None"
  using texture_indices_in_bounds [of texture2x2 "3 / 4" "1 / 2"]
  by (simp add: texture2x2_def)

end
